(* ===== verification/JS_Number.thy ===== *)
theory JS_Number
  imports Complex_Main
begin

text \<open>
  Prelude of the development: the JavaScript values the sensor handlers of
  \<^verbatim>\<open>src/src/components/DRModule.jsx\<close> and \<^verbatim>\<open>PathVisualizer.jsx\<close> compute with.

  A JS number is a double. It is modelled by its value class, as the IEEE-754
  standard partitions it: a finite value (kept as a \<open>real\<close>, so rounding is not
  modelled), the two infinities, and NaN. Every operation the handlers use
  (\<open>+ - * /\<close>, \<open>%\<close>, \<open>Math.abs\<close>, \<open>Math.sin\<close>, \<open>Math.cos\<close>, \<open>Math.exp\<close>,
  \<open>Math.atan2\<close>, \<open>Math.hypot\<close>, \<open>Math.sqrt\<close>, comparisons) is defined on all
  four classes with the IEEE rules for NaN and the infinities, so that a model
  run shows where a non-finite value enters the state and where it stays.
  Signed zero is not modelled (\<open>-0\<close> is identified with \<open>0\<close>).

  A property of an event object is a \<open>jsval\<close>: \<open>undefined\<close>, \<open>null\<close> or a number;
  \<open>js_or_zero\<close> is the idiom \<open>v || 0\<close> and \<open>js_coalesce\<close> is \<open>a ?? b\<close>.
\<close>

named_theorems js_finite "closure of the finite numbers under the JS operations"

section \<open>Numbers\<close>

datatype jsnum = Fin real | PosInf | NegInf | NaN

fun is_finite :: "jsnum \<Rightarrow> bool" where
  "is_finite (Fin _) = True"
| "is_finite _ = False"

fun js_isNaN :: "jsnum \<Rightarrow> bool" where
  "js_isNaN NaN = True"
| "js_isNaN _ = False"

text \<open>The infinity with a given sign, and the sign of a non-NaN number.\<close>

definition js_inf :: "bool \<Rightarrow> jsnum" where
  "js_inf pos = (if pos then PosInf else NegInf)"

fun js_positive :: "jsnum \<Rightarrow> bool" where
  "js_positive (Fin a) = (0 < a)"
| "js_positive PosInf = True"
| "js_positive _ = False"

fun js_neg :: "jsnum \<Rightarrow> jsnum" where
  "js_neg (Fin a) = Fin (- a)"
| "js_neg PosInf = NegInf"
| "js_neg NegInf = PosInf"
| "js_neg NaN = NaN"

fun js_add :: "jsnum \<Rightarrow> jsnum \<Rightarrow> jsnum" where
  "js_add (Fin a) (Fin b) = Fin (a + b)"
| "js_add NaN _ = NaN"
| "js_add _ NaN = NaN"
| "js_add PosInf NegInf = NaN"
| "js_add NegInf PosInf = NaN"
| "js_add PosInf _ = PosInf"
| "js_add NegInf _ = NegInf"
| "js_add _ PosInf = PosInf"
| "js_add _ NegInf = NegInf"

definition js_sub :: "jsnum \<Rightarrow> jsnum \<Rightarrow> jsnum" where
  "js_sub a b = js_add a (js_neg b)"

fun js_mul :: "jsnum \<Rightarrow> jsnum \<Rightarrow> jsnum" where
  "js_mul (Fin a) (Fin b) = Fin (a * b)"
| "js_mul NaN _ = NaN"
| "js_mul _ NaN = NaN"
| "js_mul x y =
     (if x = Fin 0 \<or> y = Fin 0 then NaN else js_inf (js_positive x = js_positive y))"

fun js_div :: "jsnum \<Rightarrow> jsnum \<Rightarrow> jsnum" where
  "js_div (Fin a) (Fin b) =
     (if b = 0 then (if a = 0 then NaN else js_inf (0 < a)) else Fin (a / b))"
| "js_div NaN _ = NaN"
| "js_div _ NaN = NaN"
| "js_div (Fin a) _ = Fin 0"
| "js_div x (Fin b) = js_inf (js_positive x = (0 \<le> b))"
| "js_div _ _ = NaN"

fun js_abs :: "jsnum \<Rightarrow> jsnum" where
  "js_abs (Fin a) = Fin \<bar>a\<bar>"
| "js_abs NaN = NaN"
| "js_abs _ = PosInf"

text \<open>\<open>x < y\<close> on numbers: false as soon as one side is NaN.\<close>

fun js_lt :: "jsnum \<Rightarrow> jsnum \<Rightarrow> bool" where
  "js_lt (Fin a) (Fin b) = (a < b)"
| "js_lt NaN _ = False"
| "js_lt _ NaN = False"
| "js_lt NegInf y = (y \<noteq> NegInf)"
| "js_lt x PosInf = (x \<noteq> PosInf)"
| "js_lt _ _ = False"

definition js_le :: "jsnum \<Rightarrow> jsnum \<Rightarrow> bool" where
  "js_le x y = (js_lt x y \<or> (x = y \<and> x \<noteq> NaN))"

fun js_sin :: "jsnum \<Rightarrow> jsnum" where
  "js_sin (Fin a) = Fin (sin a)"
| "js_sin _ = NaN"

fun js_cos :: "jsnum \<Rightarrow> jsnum" where
  "js_cos (Fin a) = Fin (cos a)"
| "js_cos _ = NaN"

fun js_exp :: "jsnum \<Rightarrow> jsnum" where
  "js_exp (Fin a) = Fin (exp a)"
| "js_exp PosInf = PosInf"
| "js_exp NegInf = Fin 0"
| "js_exp NaN = NaN"

fun js_sqrt :: "jsnum \<Rightarrow> jsnum" where
  "js_sqrt (Fin a) = (if a < 0 then NaN else Fin (sqrt a))"
| "js_sqrt PosInf = PosInf"
| "js_sqrt _ = NaN"

text \<open>\<open>x ** 2\<close> (\<open>Math.pow(x, 2)\<close>).\<close>

definition js_sq :: "jsnum \<Rightarrow> jsnum" where
  "js_sq x = js_mul x x"

section \<open>atan2 and the remainder on reals\<close>

text \<open>\<open>Math.atan2(y, x)\<close> on finite arguments: the angle of the point \<open>(x, y)\<close>
  in \<open>(-pi, pi]\<close>.\<close>

definition atan2 :: "real \<Rightarrow> real \<Rightarrow> real" where
  "atan2 y x =
     (if 0 < x then arctan (y / x)
      else if x < 0 then (if 0 \<le> y then arctan (y / x) + pi else arctan (y / x) - pi)
      else if 0 < y then pi / 2
      else if y < 0 then - (pi / 2)
      else 0)"

text \<open>\<open>Math.atan2\<close> on all values, with the IEEE table for the infinities.\<close>

fun js_atan2 :: "jsnum \<Rightarrow> jsnum \<Rightarrow> jsnum" where
  "js_atan2 (Fin y) (Fin x) = Fin (atan2 y x)"
| "js_atan2 NaN _ = NaN"
| "js_atan2 _ NaN = NaN"
| "js_atan2 PosInf PosInf = Fin (pi / 4)"
| "js_atan2 NegInf PosInf = Fin (- (pi / 4))"
| "js_atan2 PosInf NegInf = Fin (3 * pi / 4)"
| "js_atan2 NegInf NegInf = Fin (- (3 * pi / 4))"
| "js_atan2 PosInf (Fin _) = Fin (pi / 2)"
| "js_atan2 NegInf (Fin _) = Fin (- (pi / 2))"
| "js_atan2 (Fin y) PosInf = Fin 0"
| "js_atan2 (Fin y) NegInf = Fin (if 0 \<le> y then pi else - pi)"

text \<open>The JS remainder \<open>a % b\<close> truncates the quotient towards zero (the result
  has the sign of the dividend), unlike \<open>mod\<close> on \<open>int\<close>.\<close>

definition js_trunc :: "real \<Rightarrow> int" where
  "js_trunc r = (if r < 0 then \<lceil>r\<rceil> else \<lfloor>r\<rfloor>)"

definition js_fmod :: "real \<Rightarrow> real \<Rightarrow> real" where
  "js_fmod a b = a - b * of_int (js_trunc (a / b))"

fun js_rem :: "jsnum \<Rightarrow> jsnum \<Rightarrow> jsnum" where
  "js_rem (Fin a) (Fin b) = (if b = 0 then NaN else Fin (js_fmod a b))"
| "js_rem (Fin a) PosInf = Fin a"
| "js_rem (Fin a) NegInf = Fin a"
| "js_rem _ _ = NaN"

text \<open>\<open>Math.hypot(x, y)\<close>: an infinite argument wins even over NaN.\<close>

fun js_hypot :: "jsnum \<Rightarrow> jsnum \<Rightarrow> jsnum" where
  "js_hypot (Fin a) (Fin b) = Fin (sqrt (a\<^sup>2 + b\<^sup>2))"
| "js_hypot PosInf _ = PosInf"
| "js_hypot NegInf _ = PosInf"
| "js_hypot _ PosInf = PosInf"
| "js_hypot _ NegInf = PosInf"
| "js_hypot _ _ = NaN"

section \<open>Values of event properties\<close>

datatype jsval = JUndefined | JNull | JNum jsnum

text \<open>\<open>a ?? b\<close>: the right operand when the left is \<open>null\<close> or \<open>undefined\<close>.\<close>

fun js_coalesce :: "jsval \<Rightarrow> jsval \<Rightarrow> jsval" where
  "js_coalesce JUndefined b = b"
| "js_coalesce JNull b = b"
| "js_coalesce a _ = a"

text \<open>\<open>v || 0\<close>: the falsy values \<open>undefined\<close>, \<open>null\<close>, \<open>0\<close> and \<open>NaN\<close>
  become \<open>0\<close>.\<close>

fun js_or_zero :: "jsval \<Rightarrow> jsnum" where
  "js_or_zero (JNum (Fin a)) = Fin a"
| "js_or_zero (JNum PosInf) = PosInf"
| "js_or_zero (JNum NegInf) = NegInf"
| "js_or_zero _ = Fin 0"

text \<open>\<open>typeof v === "number" && !Number.isNaN(v)\<close>, the guard of the orientation
  handler. Infinities pass it.\<close>

fun js_number_not_nan :: "jsval \<Rightarrow> bool" where
  "js_number_not_nan (JNum n) = (\<not> js_isNaN n)"
| "js_number_not_nan _ = False"

text \<open>The number a value holds, read after the guard above has been passed.\<close>

fun num_of :: "jsval \<Rightarrow> jsnum" where
  "num_of (JNum n) = n"
| "num_of _ = NaN"

section \<open>Points\<close>

text \<open>The \<open>{x, y}\<close> objects of the code (velocity, position, bias, path points).\<close>

record vec2 =
  vx :: jsnum
  vy :: jsnum

definition vec_zero :: vec2 where
  "vec_zero = \<lparr>vx = Fin 0, vy = Fin 0\<rparr>"

definition vec_finite :: "vec2 \<Rightarrow> bool" where
  "vec_finite v = (is_finite (vx v) \<and> is_finite (vy v))"

text \<open>The value of a finite number, and of a vector of them (0 for the
  non-finite classes: used only where finiteness is known).\<close>

fun fin_val :: "jsnum \<Rightarrow> real" where
  "fin_val (Fin a) = a"
| "fin_val _ = 0"

definition vec_real :: "vec2 \<Rightarrow> real \<times> real" where
  "vec_real p = (fin_val (vx p), fin_val (vy p))"

section \<open>Shared lemmas\<close>

lemma is_finite_iff: "is_finite x \<longleftrightarrow> (\<exists>a. x = Fin a)"
  by (cases x) auto

lemma js_sub_Fin [simp]: "js_sub (Fin a) (Fin b) = Fin (a - b)"
  by (simp add: js_sub_def)

lemma js_le_Fin [simp]: "js_le (Fin a) (Fin b) = (a \<le> b)"
  by (auto simp: js_le_def)

lemma js_div_Fin_nz [simp]: "b \<noteq> 0 \<Longrightarrow> js_div (Fin a) (Fin b) = Fin (a / b)"
  by simp

lemma js_inf_not_finite [simp]: "\<not> is_finite (js_inf p)"
  by (simp add: js_inf_def)

lemma js_neg_finite [js_finite]: "is_finite x \<Longrightarrow> is_finite (js_neg x)"
  by (auto simp: is_finite_iff)

lemma js_sin_finite [js_finite]: "is_finite x \<Longrightarrow> is_finite (js_sin x)"
  by (auto simp: is_finite_iff)

lemma js_cos_finite [js_finite]: "is_finite x \<Longrightarrow> is_finite (js_cos x)"
  by (auto simp: is_finite_iff)

lemma js_exp_finite [js_finite]: "is_finite x \<Longrightarrow> is_finite (js_exp x)"
  by (auto simp: is_finite_iff)

lemma js_div_finite [js_finite]: "is_finite x \<Longrightarrow> b \<noteq> 0 \<Longrightarrow> is_finite (js_div x (Fin b))"
  by (auto simp: is_finite_iff)

lemma js_add_finite [js_finite]:
  "is_finite x \<Longrightarrow> is_finite y \<Longrightarrow> is_finite (js_add x y)"
  by (auto simp: is_finite_iff)

lemma js_sub_finite [js_finite]:
  "is_finite x \<Longrightarrow> is_finite y \<Longrightarrow> is_finite (js_sub x y)"
  by (auto simp: is_finite_iff)

lemma js_mul_finite [js_finite]:
  "is_finite x \<Longrightarrow> is_finite y \<Longrightarrow> is_finite (js_mul x y)"
  by (auto simp: is_finite_iff)

text \<open>A non-finite operand absorbs: sums and non-zero multiples of a NaN or an
  infinity are never finite. This is how a single bad sample stays in a filter.\<close>

lemma js_add_nonfinite_right:
  "\<not> is_finite y \<Longrightarrow> \<not> is_finite (js_add x y)"
  by (cases x; cases y) auto

lemma js_add_nonfinite_left:
  "\<not> is_finite x \<Longrightarrow> \<not> is_finite (js_add x y)"
  by (cases x; cases y) auto

lemma js_mul_nonfinite_right:
  "\<not> is_finite y \<Longrightarrow> \<not> is_finite (js_mul x y)"
  by (cases x; cases y) (auto simp: js_inf_def)

lemma js_mul_nonfinite_left:
  "\<not> is_finite x \<Longrightarrow> \<not> is_finite (js_mul x y)"
  by (cases x; cases y) (auto simp: js_inf_def)

lemma js_sub_nonfinite_left:
  "\<not> is_finite x \<Longrightarrow> \<not> is_finite (js_sub x y)"
  by (simp add: js_sub_def js_add_nonfinite_left)

lemma js_or_zero_finite_iff:
  "is_finite (js_or_zero v) \<longleftrightarrow> v \<noteq> JNum PosInf \<and> v \<noteq> JNum NegInf"
  by (cases v rule: js_or_zero.cases) auto

lemma js_number_not_nan_iff:
  "js_number_not_nan v \<longleftrightarrow> (\<exists>n. v = JNum n \<and> n \<noteq> NaN)"
  by (cases v) (auto elim: js_isNaN.elims)

subsection \<open>Range of atan2 and of the remainder\<close>

lemma atan2_range: "- pi < atan2 y x \<and> atan2 y x \<le> pi"
proof -
  have b: "- (pi / 2) < arctan r" "arctan r < pi / 2" for r
    by (rule arctan_lbound, rule arctan_ubound)
  have nonpos: "y / x \<le> 0 \<Longrightarrow> arctan (y / x) \<le> 0"
    by (simp add: arctan_le_zero_iff)
  have pos: "0 < y / x \<Longrightarrow> 0 < arctan (y / x)"
    by (simp add: zero_less_arctan_iff)
  show ?thesis
  proof (cases "0 < x")
    case True
    then show ?thesis using b[of "y / x"] pi_gt_zero by (simp add: atan2_def)
  next
    case False
    show ?thesis
    proof (cases "x < 0")
      case neg: True
      show ?thesis
      proof (cases "0 \<le> y")
        case True
        with neg have "y / x \<le> 0" by (simp add: divide_nonneg_neg)
        with neg True nonpos b[of "y / x"] show ?thesis by (simp add: atan2_def)
      next
        case False
        with neg have "0 < y / x" by (simp add: divide_neg_neg)
        with neg False pos b[of "y / x"] show ?thesis by (simp add: atan2_def)
      qed
    next
      case False
      have p: "0 < pi" by (rule pi_gt_zero)
      from False \<open>\<not> 0 < x\<close> show ?thesis
        by (auto simp: atan2_def) (use p in linarith)+
    qed
  qed
qed

lemma js_fmod_range:
  assumes "0 \<le> a" and "0 < b"
  shows "0 \<le> js_fmod a b \<and> js_fmod a b < b"
proof -
  have q: "0 \<le> a / b" using assms by simp
  then have t: "js_trunc (a / b) = \<lfloor>a / b\<rfloor>" by (simp add: js_trunc_def)
  have lo: "of_int \<lfloor>a / b\<rfloor> \<le> a / b" by (rule of_int_floor_le)
  have hi: "a / b < of_int \<lfloor>a / b\<rfloor> + 1" by (rule real_of_int_floor_add_one_gt)
  have "of_int \<lfloor>a / b\<rfloor> * b \<le> a / b * b"
    using lo assms(2) by (intro mult_right_mono) auto
  then have "b * of_int \<lfloor>a / b\<rfloor> \<le> a"
    using assms(2) by (simp add: mult.commute)
  moreover have "a / b * b < (of_int \<lfloor>a / b\<rfloor> + 1) * b"
    using hi assms(2) by (intro mult_strict_right_mono) auto
  then have "a < b * (of_int \<lfloor>a / b\<rfloor> + 1)"
    using assms(2) by (simp add: mult.commute)
  ultimately show ?thesis
    by (simp add: js_fmod_def t algebra_simps)
qed

lemma js_fmod_small:
  assumes "0 \<le> a" and "a < b"
  shows "js_fmod a b = a"
proof -
  from assms have "0 \<le> a / b" "a / b < 1" by simp_all
  then have "\<lfloor>a / b\<rfloor> = 0" by (simp add: floor_eq_iff)
  with \<open>0 \<le> a / b\<close> show ?thesis by (simp add: js_fmod_def js_trunc_def)
qed

end
