(* ===== verification/Heading.thy ===== *)
theory Heading
  imports JS_Number
begin

text \<open>
  The heading estimator: \<open>handleDeviceOrientation\<close> of
  \<^verbatim>\<open>src/src/components/DRModule.jsx\<close> (lines 56--121). Its state is the
  compass filter \<open>compassFilterRef.current = {lastValue, alpha}\<close>; it reads the
  previous heading \<open>headingRef.current\<close> and the browser's
  \<open>window.screen.orientation\<close>, and it returns the value passed to
  \<open>setHeading\<close> and whether it raised the calibrating signal
  (\<open>setIsCalibrating(true)\<close> with its timer, modelled in the session theory).
  The handler is the composition of four steps in the order of the code:
  tilt compensation, low-pass filter, platform correction, interference check.
\<close>

section \<open>Data\<close>

text \<open>The fields of a \<open>deviceorientation\<close> event the handler reads;
  \<open>webkitCompassHeading\<close> is \<open>undefined\<close> outside iOS Safari.\<close>

record orientation_event =
  ev_alpha :: jsval
  ev_beta :: jsval
  ev_gamma :: jsval
  ev_webkitCompassHeading :: jsval

record compass_filter =
  lastValue :: "jsnum option"
  cf_alpha :: jsnum

definition compass_filter_init :: compass_filter where
  "compass_filter_init = \<lparr>lastValue = None, cf_alpha = Fin 0.2\<rparr>"

text \<open>What one accepted sample produces.\<close>

record orientation_result =
  or_filter :: compass_filter
  or_heading :: jsnum
  or_calibrate :: bool

section \<open>Operations\<close>

text \<open>Tilt compensation (lines 69--89): above 5 degrees of pitch or roll the
  azimuth is recomputed with \<open>Math.atan2\<close> and brought into \<open>[0, 360)\<close> by
  \<open>(h + 360) % 360\<close>; below it the raw azimuth is kept as it is.\<close>

definition tilted :: "jsnum \<Rightarrow> jsnum \<Rightarrow> bool" where
  "tilted beta gamma = (js_lt (Fin 5) (js_abs beta) \<or> js_lt (Fin 5) (js_abs gamma))"

definition tilt_compensate :: "jsnum \<Rightarrow> jsnum \<Rightarrow> jsnum \<Rightarrow> jsnum" where
  "tilt_compensate alpha beta gamma =
     (if tilted beta gamma then
        (let betaRad = js_mul beta (js_div (Fin pi) (Fin 180));
             gammaRad = js_mul gamma (js_div (Fin pi) (Fin 180));
             cosB = js_cos betaRad;
             sinB = js_sin betaRad;
             cosG = js_cos gammaRad;
             sinG = js_sin gammaRad;
             alphaRad = js_div (js_mul alpha (Fin pi)) (Fin 180);
             h = js_mul
                   (js_atan2
                      (js_add (js_mul (js_mul sinG cosB) (js_cos alphaRad))
                              (js_mul sinB (js_sin alphaRad)))
                      (js_mul cosG (js_cos alphaRad)))
                   (js_div (Fin 180) (Fin pi))
         in js_rem (js_add h (Fin 360)) (Fin 360))
      else alpha)"

text \<open>Low-pass filter (lines 91--101): the first reading initialises the filter,
  every later one is smoothed with the coefficient \<open>alpha\<close>.\<close>

definition low_pass :: "compass_filter \<Rightarrow> jsnum \<Rightarrow> compass_filter \<times> jsnum" where
  "low_pass cf h =
     (case lastValue cf of
        None \<Rightarrow> (cf\<lparr>lastValue := Some h\<rparr>, h)
      | Some lastV \<Rightarrow>
          (let a = cf_alpha cf;
               filtered = js_add (js_mul a h) (js_mul (js_sub (Fin 1) a) lastV)
           in (cf\<lparr>lastValue := Some filtered\<rparr>, filtered)))"

text \<open>Platform correction (lines 103--109), after the filter: iOS headings are
  inverted, otherwise the screen rotation is added modulo 360. \<open>screen\<close> is
  \<open>None\<close> when \<open>window.screen && window.screen.orientation\<close> is falsy, and
  \<open>Some angle\<close> otherwise.\<close>

definition platform_adjust :: "jsval \<Rightarrow> jsval option \<Rightarrow> jsnum \<Rightarrow> jsnum" where
  "platform_adjust webkit screen h =
     (if webkit \<noteq> JUndefined then js_sub (Fin 360) h
      else (case screen of
              None \<Rightarrow> h
            | Some angle \<Rightarrow> js_rem (js_add h (js_or_zero angle)) (Fin 360)))"

text \<open>Interference detection (lines 111--117), against the previous heading.\<close>

definition interference :: "jsnum \<Rightarrow> jsnum \<Rightarrow> bool" where
  "interference h previousHeading = js_lt (Fin 20) (js_abs (js_sub h previousHeading))"

text \<open>The handler. \<open>None\<close> is the silent drop of the guard on line 61;
  otherwise the new filter, the heading passed to \<open>setHeading\<close> and whether
  \<open>setIsCalibrating(true)\<close> ran.\<close>

definition handleDeviceOrientation ::
  "jsval option \<Rightarrow> jsnum \<Rightarrow> compass_filter \<Rightarrow> orientation_event \<Rightarrow> orientation_result option"
where
  "handleDeviceOrientation screen previousHeading cf ev =
     (let alpha = js_coalesce (ev_alpha ev) (ev_webkitCompassHeading ev);
          beta = ev_beta ev;
          gamma = ev_gamma ev
      in if js_number_not_nan alpha \<and> js_number_not_nan beta \<and> js_number_not_nan gamma
         then
           (let compensated = tilt_compensate (num_of alpha) (num_of beta) (num_of gamma);
                (cf', filtered) = low_pass cf compensated;
                h = platform_adjust (ev_webkitCompassHeading ev) screen filtered
            in Some \<lparr>or_filter = cf', or_heading = h,
                     or_calibrate = interference h previousHeading\<rparr>)
         else None)"

section \<open>Invariants\<close>

text \<open>A heading in \<open>[0, 360)\<close>, the range the spec promises.\<close>

fun deg_range :: "jsnum \<Rightarrow> bool" where
  "deg_range (Fin r) = (0 \<le> r \<and> r < 360)"
| "deg_range _ = False"

definition filter_ok :: "compass_filter \<Rightarrow> bool" where
  "filter_ok cf =
     (cf_alpha cf = Fin 0.2 \<and> (case lastValue cf of None \<Rightarrow> True | Some v \<Rightarrow> deg_range v))"

text \<open>Screen rotations are finite and non-negative
  (\<open>screen.orientation.angle\<close> is one of 0, 90, 180, 270).\<close>

fun screen_ok :: "jsval option \<Rightarrow> bool" where
  "screen_ok None = True"
| "screen_ok (Some v) = (case js_or_zero v of Fin a \<Rightarrow> 0 \<le> a | _ \<Rightarrow> False)"

section \<open>Lemmas on the steps\<close>

lemma tilted_Fin [simp]: "tilted (Fin b) (Fin g) = (5 < \<bar>b\<bar> \<or> 5 < \<bar>g\<bar>)"
  by (simp add: tilted_def)

lemma atan2_deg_range:
  "- 180 < atan2 y x * (180 / pi) \<and> atan2 y x * (180 / pi) \<le> 180"
proof -
  have k: "0 < 180 / pi" by simp
  from atan2_range have "- pi * (180 / pi) < atan2 y x * (180 / pi)"
    using k by (intro mult_strict_right_mono) auto
  moreover from atan2_range have "atan2 y x * (180 / pi) \<le> pi * (180 / pi)"
    using k by (intro mult_right_mono) auto
  ultimately show ?thesis by simp
qed

text \<open>On finite readings the compensated heading is the formula of the code,
  evaluated on reals.\<close>

lemma tilt_compensate_Fin:
  "tilt_compensate (Fin a) (Fin b) (Fin g) =
     (if 5 < \<bar>b\<bar> \<or> 5 < \<bar>g\<bar> then
        Fin (js_fmod (atan2
               (sin (g * (pi / 180)) * cos (b * (pi / 180)) * cos (a * pi / 180)
                + sin (b * (pi / 180)) * sin (a * pi / 180))
               (cos (g * (pi / 180)) * cos (a * pi / 180)) * (180 / pi) + 360) 360)
      else Fin a)"
  by (simp add: tilt_compensate_def Let_def)

lemma tilt_compensate_range:
  assumes "5 < \<bar>b\<bar> \<or> 5 < \<bar>g\<bar>"
  shows "deg_range (tilt_compensate (Fin a) (Fin b) (Fin g))"
proof -
  let ?t = "atan2
               (sin (g * (pi / 180)) * cos (b * (pi / 180)) * cos (a * pi / 180)
                + sin (b * (pi / 180)) * sin (a * pi / 180))
               (cos (g * (pi / 180)) * cos (a * pi / 180)) * (180 / pi)"
  have "- 180 < ?t" using atan2_deg_range by blast
  then have "0 \<le> ?t + 360" by linarith
  then have "0 \<le> js_fmod (?t + 360) 360 \<and> js_fmod (?t + 360) 360 < 360"
    by (rule js_fmod_range) simp
  with assms show ?thesis by (simp add: tilt_compensate_Fin)
qed

lemma tilt_compensate_untilted:
  "\<not> tilted beta gamma \<Longrightarrow> tilt_compensate alpha beta gamma = alpha"
  by (simp add: tilt_compensate_def)

lemma low_pass_Fin:
  "low_pass \<lparr>lastValue = Some (Fin p), cf_alpha = Fin k\<rparr> (Fin c) =
     (\<lparr>lastValue = Some (Fin (k * c + (1 - k) * p)), cf_alpha = Fin k\<rparr>,
      Fin (k * c + (1 - k) * p))"
  by (simp add: low_pass_def Let_def)

lemma low_pass_ok:
  assumes "filter_ok cf" and "deg_range h"
  shows "filter_ok (fst (low_pass cf h)) \<and> deg_range (snd (low_pass cf h))"
proof (cases "lastValue cf")
  case None
  with assms show ?thesis by (simp add: low_pass_def filter_ok_def)
next
  case (Some v)
  with assms(1) have a: "cf_alpha cf = Fin 0.2" and dv: "deg_range v"
    by (auto simp: filter_ok_def)
  from dv obtain p where v: "v = Fin p" "0 \<le> p" "p < 360" by (cases v) auto
  from assms(2) obtain c where h: "h = Fin c" "0 \<le> c" "c < 360" by (cases h) auto
  have "0 \<le> 0.2 * c + (1 - 0.2) * p \<and> 0.2 * c + (1 - 0.2) * p < (360::real)"
    using v h by simp
  with Some v h a show ?thesis by (simp add: low_pass_def filter_ok_def Let_def)
qed

lemma platform_adjust_range:
  assumes "screen_ok screen" and "deg_range h"
  shows "deg_range (platform_adjust JUndefined screen h)"
proof (cases screen)
  case None
  with assms show ?thesis by (simp add: platform_adjust_def)
next
  case (Some v)
  with assms obtain a c where a: "js_or_zero v = Fin a" "0 \<le> a"
    and h: "h = Fin c" "0 \<le> c"
    by (auto split: jsnum.splits elim: deg_range.elims)
  have "0 \<le> js_fmod (c + a) 360 \<and> js_fmod (c + a) 360 < 360"
    using a h by (intro js_fmod_range) auto
  with Some a h show ?thesis by (simp add: platform_adjust_def)
qed

lemma handleDeviceOrientation_Fin:
  assumes "ev_alpha ev = JNum (Fin a)" "ev_beta ev = JNum (Fin b)" "ev_gamma ev = JNum (Fin g)"
  shows "handleDeviceOrientation screen prev cf ev =
    (let lp = low_pass cf (tilt_compensate (Fin a) (Fin b) (Fin g));
         h = platform_adjust (ev_webkitCompassHeading ev) screen (snd lp)
     in Some \<lparr>or_filter = fst lp, or_heading = h, or_calibrate = interference h prev\<rparr>)"
  using assms by (simp add: handleDeviceOrientation_def Let_def case_prod_unfold)

lemma handleDeviceOrientation_filter:
  "handleDeviceOrientation screen prev cf ev = Some r \<Longrightarrow>
     \<exists>c. or_filter r = fst (low_pass cf c)"
  by (auto simp: handleDeviceOrientation_def Let_def case_prod_unfold split: if_splits)

lemma compensated_range:
  assumes "0 \<le> a" "a < 360"
  shows "deg_range (tilt_compensate (Fin a) (Fin b) (Fin g))"
proof (cases "5 < \<bar>b\<bar> \<or> 5 < \<bar>g\<bar>")
  case True
  then show ?thesis by (rule tilt_compensate_range)
next
  case False
  with assms show ?thesis by (simp add: tilt_compensate_untilted)
qed

lemma js_coalesce_num [simp]: "js_coalesce (JNum n) b = JNum n"
  by simp

text \<open>A level reading (pitch and roll within 5 degrees) on a browser without
  \<open>webkitCompassHeading\<close> and without a screen orientation: the azimuth goes
  through the filter unchanged.\<close>

lemma handleDeviceOrientation_level:
  "\<bar>b\<bar> \<le> 5 \<Longrightarrow> \<bar>g\<bar> \<le> 5 \<Longrightarrow>
   handleDeviceOrientation None prev cf
     \<lparr>ev_alpha = JNum (Fin a), ev_beta = JNum (Fin b), ev_gamma = JNum (Fin g),
      ev_webkitCompassHeading = JUndefined\<rparr> =
   Some \<lparr>or_filter = fst (low_pass cf (Fin a)), or_heading = snd (low_pass cf (Fin a)),
         or_calibrate = interference (snd (low_pass cf (Fin a))) prev\<rparr>"
  by (simp add: handleDeviceOrientation_def tilt_compensate_untilted platform_adjust_def Let_def
      case_prod_unfold)

section \<open>Properties\<close>

text \<open>C1. Heading bounded: on finite readings with the azimuth in [0, 360), no
  iOS compass field and a non-negative screen rotation, every orientation sample
  is accepted, the heading passed to setHeading is in [0, 360), and the filter
  keeps its coefficient 0.2 and a last value in [0, 360).\<close>

theorem heading_bounded:
  assumes "filter_ok cf" and "screen_ok screen"
    and "ev_alpha ev = JNum (Fin a)" and "0 \<le> a" and "a < 360"
    and "ev_beta ev = JNum (Fin b)" and "ev_gamma ev = JNum (Fin g)"
    and "ev_webkitCompassHeading ev = JUndefined"
  shows "\<exists>r. handleDeviceOrientation screen prev cf ev = Some r
             \<and> deg_range (or_heading r) \<and> filter_ok (or_filter r)"
proof -
  let ?c = "tilt_compensate (Fin a) (Fin b) (Fin g)"
  have c: "deg_range ?c" using assms(4,5) by (rule compensated_range)
  then have lp: "filter_ok (fst (low_pass cf ?c)) \<and> deg_range (snd (low_pass cf ?c))"
    using assms(1) by (intro low_pass_ok)
  then have "deg_range (platform_adjust JUndefined screen (snd (low_pass cf ?c)))"
    using assms(2) by (intro platform_adjust_range) auto
  with lp assms(3,6,7,8) show ?thesis
    by (simp add: handleDeviceOrientation_Fin Let_def)
qed

theorem heading_bounded_witness:
  "filter_ok compass_filter_init \<and> screen_ok (Some (JNum (Fin 90)))
   \<and> (\<exists>r. handleDeviceOrientation (Some (JNum (Fin 90))) (Fin 0) compass_filter_init
            \<lparr>ev_alpha = JNum (Fin 45), ev_beta = JNum (Fin 2), ev_gamma = JNum (Fin 1),
             ev_webkitCompassHeading = JUndefined\<rparr> = Some r
          \<and> deg_range (or_heading r) \<and> filter_ok (or_filter r))"
proof -
  have f: "filter_ok compass_filter_init" by (simp add: filter_ok_def compass_filter_init_def)
  have s: "screen_ok (Some (JNum (Fin 90)))" by simp
  show ?thesis
    using f s heading_bounded [OF f s, of "\<lparr>ev_alpha = JNum (Fin 45), ev_beta = JNum (Fin 2),
      ev_gamma = JNum (Fin 1), ev_webkitCompassHeading = JUndefined\<rparr>" 45 2 1 "Fin 0"]
    by simp
qed

text \<open>C18. Malformed samples are dropped: the handler returns nothing (no state is
  touched) exactly when the azimuth (after the webkitCompassHeading fallback),
  the pitch or the roll is undefined, null or NaN. Infinite readings are not
  dropped.\<close>

theorem orientation_dropped_iff:
  "handleDeviceOrientation screen prev cf ev = None \<longleftrightarrow>
     (\<exists>v \<in> {js_coalesce (ev_alpha ev) (ev_webkitCompassHeading ev), ev_beta ev, ev_gamma ev}.
        v = JUndefined \<or> v = JNull \<or> v = JNum NaN)"
proof -
  have g: "\<not> js_number_not_nan v \<longleftrightarrow> (v = JUndefined \<or> v = JNull \<or> v = JNum NaN)" for v
    by (cases v) (auto simp: js_number_not_nan_iff elim: js_isNaN.elims)
  show ?thesis
    by (auto simp: handleDeviceOrientation_def Let_def g split: prod.splits)
qed

theorem orientation_dropped_iff_witness:
  "handleDeviceOrientation None (Fin 0) compass_filter_init
     \<lparr>ev_alpha = JNull, ev_beta = JNum (Fin 0), ev_gamma = JNum (Fin 0),
      ev_webkitCompassHeading = JUndefined\<rparr> = None"
  using orientation_dropped_iff [of None "Fin 0" compass_filter_init
     "\<lparr>ev_alpha = JNull, ev_beta = JNum (Fin 0), ev_gamma = JNum (Fin 0),
       ev_webkitCompassHeading = JUndefined\<rparr>"]
  by simp

text \<open>The first reading initialises the filter directly: with no last value,
  a level sample (pitch and roll within 5 degrees) sets the filter's last value
  and the heading to the raw azimuth, unsmoothed.\<close>

theorem orientation_first_sample:
  assumes "lastValue cf = None"
    and "ev_alpha ev = JNum (Fin a)" and "ev_beta ev = JNum (Fin b)" and "ev_gamma ev = JNum (Fin g)"
    and "\<bar>b\<bar> \<le> 5" and "\<bar>g\<bar> \<le> 5" and "ev_webkitCompassHeading ev = JUndefined"
  shows "handleDeviceOrientation None (Fin q) cf ev =
           Some \<lparr>or_filter = cf\<lparr>lastValue := Some (Fin a)\<rparr>, or_heading = Fin a,
                 or_calibrate = (20 < \<bar>a - q\<bar>)\<rparr>"
  using assms
  by (simp add: handleDeviceOrientation_Fin tilt_compensate_Fin low_pass_def Let_def
      platform_adjust_def interference_def)

theorem orientation_first_sample_witness:
  "handleDeviceOrientation None (Fin 0) compass_filter_init
     \<lparr>ev_alpha = JNum (Fin 30), ev_beta = JNum (Fin 1), ev_gamma = JNum (Fin (-2)),
      ev_webkitCompassHeading = JUndefined\<rparr> =
   Some \<lparr>or_filter = compass_filter_init\<lparr>lastValue := Some (Fin 30)\<rparr>, or_heading = Fin 30,
         or_calibrate = True\<rparr>"
  using orientation_first_sample [of compass_filter_init
    "\<lparr>ev_alpha = JNum (Fin 30), ev_beta = JNum (Fin 1), ev_gamma = JNum (Fin (-2)),
      ev_webkitCompassHeading = JUndefined\<rparr>" 30 1 "-2" 0]
  by (simp add: compass_filter_init_def)

text \<open>C19. Exponential smoothing and interference: once the filter holds a value p,
  a level sample with azimuth a yields the filtered heading 0.2 a + 0.8 p, which
  is stored back, and the calibrating signal is raised exactly when it differs
  from the previous heading q by more than 20 degrees.\<close>

theorem orientation_smoothing:
  assumes "lastValue cf = Some (Fin p)" and "cf_alpha cf = Fin 0.2"
    and "ev_alpha ev = JNum (Fin a)" and "ev_beta ev = JNum (Fin b)" and "ev_gamma ev = JNum (Fin g)"
    and "\<bar>b\<bar> \<le> 5" and "\<bar>g\<bar> \<le> 5" and "ev_webkitCompassHeading ev = JUndefined"
  shows "handleDeviceOrientation None (Fin q) cf ev =
           Some \<lparr>or_filter = cf\<lparr>lastValue := Some (Fin (0.2 * a + 0.8 * p))\<rparr>,
                 or_heading = Fin (0.2 * a + 0.8 * p),
                 or_calibrate = (20 < \<bar>0.2 * a + 0.8 * p - q\<bar>)\<rparr>"
  using assms
  by (simp add: handleDeviceOrientation_Fin tilt_compensate_Fin low_pass_def Let_def
      platform_adjust_def interference_def)

theorem orientation_smoothing_witness:
  "handleDeviceOrientation None (Fin 10) \<lparr>lastValue = Some (Fin 10), cf_alpha = Fin 0.2\<rparr>
     \<lparr>ev_alpha = JNum (Fin 135), ev_beta = JNum (Fin 0), ev_gamma = JNum (Fin 0),
      ev_webkitCompassHeading = JUndefined\<rparr> =
   Some \<lparr>or_filter = \<lparr>lastValue = Some (Fin 35), cf_alpha = Fin 0.2\<rparr>, or_heading = Fin 35,
         or_calibrate = True\<rparr>"
  using orientation_smoothing [of "\<lparr>lastValue = Some (Fin 10), cf_alpha = Fin 0.2\<rparr>" 10
    "\<lparr>ev_alpha = JNum (Fin 135), ev_beta = JNum (Fin 0), ev_gamma = JNum (Fin 0),
      ev_webkitCompassHeading = JUndefined\<rparr>" 135 0 0 10]
  by simp

text \<open>C27. A non-finite value never leaves the filter: once the filter's last
  value is NaN or infinite (an infinite azimuth passes the guard of line 61),
  every accepted sample leaves a non-finite last value again, so the heading
  filter stays poisoned for the rest of the session.\<close>

theorem compass_filter_poisoned:
  assumes "lastValue cf = Some v" and "\<not> is_finite v" and "cf_alpha cf = Fin 0.2"
    and "handleDeviceOrientation screen prev cf ev = Some r"
  shows "\<exists>w. lastValue (or_filter r) = Some w \<and> \<not> is_finite w"
proof -
  have keep: "\<not> is_finite (snd (low_pass cf c))" and
    same: "lastValue (fst (low_pass cf c)) = Some (snd (low_pass cf c))" for c
    using assms(1,2,3)
    by (simp_all add: low_pass_def Let_def js_add_nonfinite_right js_mul_nonfinite_right)
  from assms(4) obtain c where "or_filter r = fst (low_pass cf c)"
    by (blast dest: handleDeviceOrientation_filter)
  with keep same show ?thesis by auto
qed

theorem compass_filter_poisoned_witness:
  "handleDeviceOrientation None (Fin 0) \<lparr>lastValue = Some PosInf, cf_alpha = Fin 0.2\<rparr>
     \<lparr>ev_alpha = JNum (Fin 90), ev_beta = JNum (Fin 0), ev_gamma = JNum (Fin 0),
      ev_webkitCompassHeading = JUndefined\<rparr> =
   Some \<lparr>or_filter = \<lparr>lastValue = Some PosInf, cf_alpha = Fin 0.2\<rparr>, or_heading = PosInf,
         or_calibrate = True\<rparr>
   \<and> (\<exists>w. lastValue (or_filter \<lparr>or_filter = \<lparr>lastValue = Some PosInf, cf_alpha = Fin 0.2\<rparr>,
            or_heading = PosInf, or_calibrate = True\<rparr>) = Some w \<and> \<not> is_finite w)"
proof -
  let ?cf = "\<lparr>lastValue = Some PosInf, cf_alpha = Fin 0.2\<rparr>"
  let ?ev = "\<lparr>ev_alpha = JNum (Fin 90), ev_beta = JNum (Fin 0), ev_gamma = JNum (Fin 0),
             ev_webkitCompassHeading = JUndefined\<rparr>"
  let ?r = "\<lparr>or_filter = ?cf, or_heading = PosInf, or_calibrate = True\<rparr>"
  have r: "handleDeviceOrientation None (Fin 0) ?cf ?ev = Some ?r"
    by (simp add: handleDeviceOrientation_def tilt_compensate_def low_pass_def Let_def
        platform_adjust_def interference_def js_sub_def js_inf_def)
  show ?thesis
    using r compass_filter_poisoned [of ?cf PosInf None "Fin 0" ?ev ?r] by simp
qed

lemma low_pass_last: "lastValue (fst (low_pass cf h)) = Some (snd (low_pass cf h))"
  by (simp add: low_pass_def Let_def split: option.split)

text \<open>C28. On iOS (\<open>webkitCompassHeading\<close> defined) the inversion
  \<open>360 - h\<close> is applied to the filtered value: for every accepted sample with an
  azimuth in [0, 360) the heading is 360 minus the filter's new value, so it lies
  in (0, 360], and it leaves [0, 360) exactly when the filter is at 0 (north),
  where it is 360.\<close>

theorem ios_heading_360:
  assumes "filter_ok cf" and "ev_webkitCompassHeading ev \<noteq> JUndefined"
    and "js_coalesce (ev_alpha ev) (ev_webkitCompassHeading ev) = JNum (Fin a)"
    and "0 \<le> a" and "a < 360"
    and "ev_beta ev = JNum (Fin b)" and "ev_gamma ev = JNum (Fin g)"
    and "handleDeviceOrientation screen prev cf ev = Some r"
  shows "\<exists>f. lastValue (or_filter r) = Some (Fin f) \<and> 0 \<le> f \<and> f < 360
           \<and> or_heading r = Fin (360 - f) \<and> (deg_range (or_heading r) \<longleftrightarrow> f \<noteq> 0)"
proof -
  let ?c = "tilt_compensate (Fin a) (Fin b) (Fin g)"
  have "deg_range (snd (low_pass cf ?c))"
    using low_pass_ok [OF assms(1) compensated_range [OF assms(4,5)]] by simp
  then obtain f where f: "snd (low_pass cf ?c) = Fin f" "0 \<le> f" "f < 360"
    by (cases "snd (low_pass cf ?c)") auto
  have r: "or_filter r = fst (low_pass cf ?c)"
    "or_heading r = platform_adjust (ev_webkitCompassHeading ev) screen (snd (low_pass cf ?c))"
    using assms(3,6,7,8) by (auto simp: handleDeviceOrientation_def Let_def case_prod_unfold)
  then have "lastValue (or_filter r) = Some (Fin f)" "or_heading r = Fin (360 - f)"
    using f(1) assms(2) by (simp_all add: low_pass_last platform_adjust_def js_sub_def)
  with f(2,3) show ?thesis by auto
qed

theorem ios_heading_360_witness:
  "\<exists>r. handleDeviceOrientation None (Fin 0) compass_filter_init
        \<lparr>ev_alpha = JNull, ev_beta = JNum (Fin 0), ev_gamma = JNum (Fin 0),
         ev_webkitCompassHeading = JNum (Fin 0)\<rparr> = Some r
     \<and> or_heading r = Fin 360 \<and> \<not> deg_range (or_heading r)"
proof -
  let ?ev = "\<lparr>ev_alpha = JNull, ev_beta = JNum (Fin 0), ev_gamma = JNum (Fin 0),
             ev_webkitCompassHeading = JNum (Fin 0)\<rparr>"
  let ?r = "\<lparr>or_filter = compass_filter_init\<lparr>lastValue := Some (Fin 0)\<rparr>, or_heading = Fin 360,
             or_calibrate = True\<rparr>"
  have r: "handleDeviceOrientation None (Fin 0) compass_filter_init ?ev = Some ?r"
    by (simp add: handleDeviceOrientation_def tilt_compensate_def low_pass_def compass_filter_init_def
        platform_adjust_def interference_def)
  have ok: "filter_ok compass_filter_init"
    by (simp add: filter_ok_def compass_filter_init_def)
  obtain f where "lastValue (or_filter ?r) = Some (Fin f)"
      "or_heading ?r = Fin (360 - f)" "deg_range (or_heading ?r) \<longleftrightarrow> f \<noteq> 0"
    using ios_heading_360 [OF ok _ _ _ _ _ _ r, of 0 0 0] by auto
  with r show ?thesis by auto
qed

text \<open>C29. The filter averages angles linearly, not on the circle: when the
  filter's value p and a level reading a lie within 20 degrees of each other
  across north (p in [340, 360), a at most 20 - (360 - p)), the heading does
  not move by the short way round but swings between 68 and 72 degrees away
  from p, and the calibrating signal is raised against a previous heading p.\<close>

theorem low_pass_wraparound:
  assumes "lastValue cf = Some (Fin p)" and "cf_alpha cf = Fin 0.2"
    and "340 \<le> p" and "p < 360" and "0 \<le> a" and "a + (360 - p) \<le> 20"
    and "\<bar>b\<bar> \<le> 5" and "\<bar>g\<bar> \<le> 5"
    and "handleDeviceOrientation None (Fin p) cf
           \<lparr>ev_alpha = JNum (Fin a), ev_beta = JNum (Fin b), ev_gamma = JNum (Fin g),
            ev_webkitCompassHeading = JUndefined\<rparr> = Some r"
  shows "\<exists>h. or_heading r = Fin h \<and> 68 \<le> p - h \<and> p - h \<le> 72 \<and> or_calibrate r"
proof -
  have r: "or_heading r = Fin (0.2 * a + 0.8 * p)"
    "or_calibrate r \<longleftrightarrow> 20 < \<bar>0.2 * a + 0.8 * p - p\<bar>"
    using assms(1,2,7,8,9)
    by (auto simp: handleDeviceOrientation_level low_pass_def Let_def interference_def)
  have "68 \<le> p - (0.2 * a + 0.8 * p)" "p - (0.2 * a + 0.8 * p) \<le> 72"
    using assms(3-6) by simp_all
  with r show ?thesis by auto
qed

theorem low_pass_wraparound_witness:
  "\<exists>r. handleDeviceOrientation None (Fin 350) \<lparr>lastValue = Some (Fin 350), cf_alpha = Fin 0.2\<rparr>
        \<lparr>ev_alpha = JNum (Fin 10), ev_beta = JNum (Fin 0), ev_gamma = JNum (Fin 0),
         ev_webkitCompassHeading = JUndefined\<rparr> = Some r
     \<and> (\<exists>h. or_heading r = Fin h \<and> 68 \<le> 350 - h \<and> or_calibrate r)"
proof -
  obtain r where r: "handleDeviceOrientation None (Fin 350)
      \<lparr>lastValue = Some (Fin 350), cf_alpha = Fin 0.2\<rparr>
      \<lparr>ev_alpha = JNum (Fin 10), ev_beta = JNum (Fin 0), ev_gamma = JNum (Fin 0),
       ev_webkitCompassHeading = JUndefined\<rparr> = Some r"
    by (simp add: handleDeviceOrientation_level)
  show ?thesis
    using r low_pass_wraparound [of "\<lparr>lastValue = Some (Fin 350), cf_alpha = Fin 0.2\<rparr>" 350 10 0 0 r]
    by auto
qed

text \<open>C30. The interference test compares the filtered heading, not the raw
  compensated one, with the previous heading. When the previous heading is the
  filter's value p, a level reading a raises the calibrating signal exactly when
  it is more than 100 degrees from p: five times the 20 degree threshold.\<close>

theorem calibration_threshold:
  assumes "lastValue cf = Some (Fin p)" and "cf_alpha cf = Fin 0.2"
    and "\<bar>b\<bar> \<le> 5" and "\<bar>g\<bar> \<le> 5"
    and "handleDeviceOrientation None (Fin p) cf
           \<lparr>ev_alpha = JNum (Fin a), ev_beta = JNum (Fin b), ev_gamma = JNum (Fin g),
            ev_webkitCompassHeading = JUndefined\<rparr> = Some r"
  shows "or_calibrate r \<longleftrightarrow> 100 < \<bar>a - p\<bar>"
proof -
  have e: "\<bar>0.2 * a + 0.8 * p - p\<bar> = 0.2 * \<bar>a - p\<bar>"
    by (simp add: abs_if algebra_simps)
  from assms have "or_calibrate r \<longleftrightarrow> 20 < \<bar>0.2 * a + 0.8 * p - p\<bar>"
    by (auto simp: handleDeviceOrientation_level low_pass_def Let_def interference_def)
  with e show ?thesis by linarith
qed

theorem calibration_threshold_witness:
  "\<exists>r. handleDeviceOrientation None (Fin 10) \<lparr>lastValue = Some (Fin 10), cf_alpha = Fin 0.2\<rparr>
         \<lparr>ev_alpha = JNum (Fin 35), ev_beta = JNum (Fin 0), ev_gamma = JNum (Fin 0),
          ev_webkitCompassHeading = JUndefined\<rparr> = Some r \<and> \<not> or_calibrate r"
proof -
  let ?cf = "\<lparr>lastValue = Some (Fin 10), cf_alpha = Fin 0.2\<rparr>"
  let ?ev = "\<lparr>ev_alpha = JNum (Fin 35), ev_beta = JNum (Fin 0), ev_gamma = JNum (Fin 0),
             ev_webkitCompassHeading = JUndefined\<rparr>"
  obtain r where r: "handleDeviceOrientation None (Fin 10) ?cf ?ev = Some r"
    by (simp add: handleDeviceOrientation_level)
  have "\<not> or_calibrate r"
    using calibration_threshold [of ?cf 10 0 0 35 r] r by simp
  with r show ?thesis by blast
qed

end
