(* ===== verification/Motion.thy ===== *)
theory Motion
  imports JS_Number
begin

text \<open>
  The motion integrator: \<open>handleDeviceMotion\<close> of
  \<^verbatim>\<open>src/src/components/DRModule.jsx\<close> (lines 124--212). Its state is the set
  of refs it reads and writes (\<open>velRef\<close>, \<open>posRef\<close>, \<open>pathRef\<close>,
  \<open>lastTimestampRef\<close>, \<open>stationaryCountRef\<close>, \<open>accelBiasRef\<close>); it reads the
  heading through \<open>headingRef.current\<close>, passed in as a snapshot, and
  \<open>performance.now()\<close> for events without a numeric time stamp. One call runs
  the steps of the code in order: display data, time stamp guard, stationary
  detection, bias correction and dead zone, rotation to the world frame, damped
  velocity integration, position integration and path append. Which branch it
  left by is recorded in \<open>motion_outcome\<close>: the session model issues the
  matching \<open>setVelocity\<close>, \<open>setPosition\<close> and \<open>setPath\<close> calls from it.
\<close>

section \<open>Data\<close>

text \<open>\<open>event.acceleration\<close> and \<open>event.accelerationIncludingGravity\<close>.\<close>

record accel_reading =
  acc_x :: jsval
  acc_y :: jsval
  acc_z :: jsval

record rotation_rate =
  rr_alpha :: jsval
  rr_beta :: jsval
  rr_gamma :: jsval

text \<open>A \<open>devicemotion\<close> event; a property that is null is \<open>None\<close>.\<close>

record motion_event =
  ev_accelerationIncludingGravity :: "accel_reading option"
  ev_rotationRate :: "rotation_rate option"
  ev_acceleration :: "accel_reading option"
  ev_timeStamp :: jsval

text \<open>The object passed to \<open>setGyroscopeData\<close> (degrees per second).\<close>

record gyro_data =
  gyro_alpha :: jsnum
  gyro_beta :: jsnum
  gyro_gamma :: jsnum

record motion_state =
  velRef :: vec2
  posRef :: vec2
  pathRef :: "vec2 list"
  lastTimestampRef :: "jsnum option"
  stationaryCountRef :: nat
  accelBiasRef :: vec2

text \<open>The refs as \<open>useRef\<close> creates them (lines 16--18, 32--38).\<close>

definition motion_state_init :: motion_state where
  "motion_state_init =
     \<lparr>velRef = vec_zero, posRef = vec_zero, pathRef = [vec_zero], lastTimestampRef = None,
      stationaryCountRef = 0, accelBiasRef = vec_zero\<rparr>"

datatype motion_outcome =
    NoAcceleration  \<comment> \<open>\<open>if (!acc) return\<close>, line 143\<close>
  | Seeded          \<comment> \<open>first sample: time stamp baseline only, lines 147--150\<close>
  | Rejected        \<comment> \<open>time step not positive or under 1 ms, line 153\<close>
  | Stationary      \<comment> \<open>bias learnt, velocity zeroed, lines 170--176\<close>
  | Integrated      \<comment> \<open>velocity, position and path advanced, lines 178--211\<close>

record motion_step =
  ms_state :: motion_state
  ms_outcome :: motion_outcome
  ms_accelerometer :: "accel_reading option"
  ms_gyroscope :: "gyro_data option"

section \<open>Operations\<close>

text \<open>Display data (lines 125--139): passed to \<open>setAccelerometerData\<close> and
  \<open>setGyroscopeData\<close> when the event carries them.\<close>

definition gyro_display :: "rotation_rate \<Rightarrow> gyro_data" where
  "gyro_display r =
     \<lparr>gyro_alpha = js_mul (js_or_zero (rr_alpha r)) (js_div (Fin 180) (Fin pi)),
      gyro_beta = js_mul (js_or_zero (rr_beta r)) (js_div (Fin 180) (Fin pi)),
      gyro_gamma = js_mul (js_or_zero (rr_gamma r)) (js_div (Fin 180) (Fin pi))\<rparr>"

text \<open>The event time (line 145): \<open>event.timeStamp\<close> when it is a number.\<close>

fun event_now :: "jsval \<Rightarrow> jsnum \<Rightarrow> jsnum" where
  "event_now (JNum n) perf = n"
| "event_now _ perf = perf"

text \<open>The time step in seconds and its guard (lines 152--153). A NaN step fails
  both comparisons and passes.\<close>

definition delta_time :: "jsnum \<Rightarrow> jsnum \<Rightarrow> jsnum" where
  "delta_time now lastTs = js_div (js_sub now lastTs) (Fin 1000.0)"

definition dt_rejected :: "jsnum \<Rightarrow> bool" where
  "dt_rejected dt = (js_le dt (Fin 0) \<or> js_lt dt (Fin 0.001))"

text \<open>Stationary detection (lines 159--176): the count of consecutive samples
  whose raw 2D magnitude is under 0.12; from the sixth on, the bias moves 20\%
  towards the raw reading and the velocity is zeroed.\<close>

definition stationary_count :: "nat \<Rightarrow> jsnum \<Rightarrow> jsnum \<Rightarrow> nat" where
  "stationary_count c axRaw ayRaw =
     (if js_lt (js_hypot axRaw ayRaw) (Fin 0.12) then Suc c else 0)"

definition learn_bias :: "vec2 \<Rightarrow> jsnum \<Rightarrow> jsnum \<Rightarrow> vec2" where
  "learn_bias b axRaw ayRaw =
     \<lparr>vx = js_add (js_mul (vx b) (Fin 0.8)) (js_mul axRaw (Fin 0.2)),
      vy = js_add (js_mul (vy b) (Fin 0.8)) (js_mul ayRaw (Fin 0.2))\<rparr>"

text \<open>Dead zone (lines 183--185) on one bias-corrected component.\<close>

definition deadzone :: "jsnum \<Rightarrow> jsnum" where
  "deadzone u = (if js_lt (Fin 0.05) (js_abs u) then u else Fin 0)"

text \<open>Rotation to the world frame by the heading (lines 188--190);
  \<open>headingRef.current || 0\<close> turns a NaN heading into 0.\<close>

definition rotate_world :: "jsnum \<Rightarrow> jsnum \<Rightarrow> jsnum \<Rightarrow> vec2" where
  "rotate_world heading ax ay =
     (let headingRad = js_mul (js_or_zero (JNum heading)) (js_div (Fin pi) (Fin 180))
      in \<lparr>vx = js_add (js_mul ax (js_cos headingRad)) (js_mul ay (js_sin headingRad)),
          vy = js_add (js_mul (js_neg ax) (js_sin headingRad)) (js_mul ay (js_cos headingRad))\<rparr>)"

text \<open>Damped velocity integration and semi-implicit position integration
  (lines 193--211): the position advances with the updated velocity, and the new
  position is appended to the path.\<close>

definition integrate :: "motion_state \<Rightarrow> vec2 \<Rightarrow> jsnum \<Rightarrow> motion_state" where
  "integrate s world deltaTime =
     (let damping = Fin 1.0;
          decay = js_exp (js_mul (js_neg damping) deltaTime);
          newVelX = js_mul (js_add (vx (velRef s)) (js_mul (vx world) deltaTime)) decay;
          newVelY = js_mul (js_add (vy (velRef s)) (js_mul (vy world) deltaTime)) decay;
          newPosX = js_add (vx (posRef s)) (js_mul newVelX deltaTime);
          newPosY = js_add (vy (posRef s)) (js_mul newVelY deltaTime);
          newPos = \<lparr>vx = newPosX, vy = newPosY\<rparr>
      in s\<lparr>velRef := \<lparr>vx = newVelX, vy = newVelY\<rparr>, posRef := newPos,
           pathRef := pathRef s @ [newPos]\<rparr>)"

text \<open>The handler after the display updates, from the acceleration on
  (lines 142--211).\<close>

definition motion_core ::
  "jsnum \<Rightarrow> jsnum \<Rightarrow> motion_state \<Rightarrow> accel_reading \<Rightarrow> motion_state \<times> motion_outcome" where
  "motion_core now heading s acc =
     (case lastTimestampRef s of
        None \<Rightarrow> (s\<lparr>lastTimestampRef := Some now\<rparr>, Seeded)
      | Some lastTs \<Rightarrow>
          (let deltaTime = delta_time now lastTs
           in if dt_rejected deltaTime then (s, Rejected)
              else
                (let s1 = s\<lparr>lastTimestampRef := Some now\<rparr>;
                     axRaw = js_or_zero (acc_x acc);
                     ayRaw = js_or_zero (acc_y acc);
                     c = stationary_count (stationaryCountRef s1) axRaw ayRaw;
                     s2 = s1\<lparr>stationaryCountRef := c\<rparr>
                 in if 6 \<le> c
                    then (s2\<lparr>accelBiasRef := learn_bias (accelBiasRef s2) axRaw ayRaw,
                             velRef := vec_zero\<rparr>, Stationary)
                    else
                      (let ax = deadzone (js_sub axRaw (vx (accelBiasRef s2)));
                           ay = deadzone (js_sub ayRaw (vy (accelBiasRef s2)))
                       in (integrate s2 (rotate_world heading ax ay) deltaTime, Integrated)))))"

definition handleDeviceMotion ::
  "jsnum \<Rightarrow> jsnum \<Rightarrow> motion_state \<Rightarrow> motion_event \<Rightarrow> motion_step" where
  "handleDeviceMotion perfNow heading s ev =
     (let accDisplay = ev_accelerationIncludingGravity ev;
          gyro = map_option gyro_display (ev_rotationRate ev)
      in case ev_acceleration ev of
           None \<Rightarrow> \<lparr>ms_state = s, ms_outcome = NoAcceleration,
                    ms_accelerometer = accDisplay, ms_gyroscope = gyro\<rparr>
         | Some acc \<Rightarrow>
             (let (s', outcome) = motion_core (event_now (ev_timeStamp ev) perfNow) heading s acc
              in \<lparr>ms_state = s', ms_outcome = outcome,
                  ms_accelerometer = accDisplay, ms_gyroscope = gyro\<rparr>))"

text \<open>A stream of \<open>devicemotion\<close> events dispatched to the handler one after
  the other (the listener added on line 242), under a fixed heading snapshot.\<close>

fun motion_run :: "jsnum \<Rightarrow> jsnum \<Rightarrow> motion_state \<Rightarrow> motion_event list \<Rightarrow> motion_state" where
  "motion_run perf h s [] = s"
| "motion_run perf h s (e # es) = motion_run perf h (ms_state (handleDeviceMotion perf h s e)) es"

text \<open>A quiet sample: finite raw components whose 2D magnitude is under the
  stationary threshold 0.12. A quiet stream from time t: each event carries
  acceleration, a quiet reading and a time stamp at least 1 ms after the one
  before.\<close>

fun quiet_reading :: "jsnum \<Rightarrow> jsnum \<Rightarrow> bool" where
  "quiet_reading (Fin ax) (Fin ay) = (sqrt (ax\<^sup>2 + ay\<^sup>2) < 0.12)"
| "quiet_reading _ _ = False"

definition quiet_acc :: "accel_reading \<Rightarrow> bool" where
  "quiet_acc acc = quiet_reading (js_or_zero (acc_x acc)) (js_or_zero (acc_y acc))"

fun quiet_from :: "real \<Rightarrow> motion_event list \<Rightarrow> bool" where
  "quiet_from t [] = True"
| "quiet_from t (e # es) =
     (case (ev_acceleration e, ev_timeStamp e) of
        (Some acc, JNum (Fin n)) \<Rightarrow> 1 \<le> n - t \<and> quiet_acc acc \<and> quiet_from n es
      | _ \<Rightarrow> False)"

fun ts_of :: "jsval \<Rightarrow> real" where
  "ts_of (JNum (Fin n)) = n"
| "ts_of _ = 0"

definition quiet_last :: "real \<Rightarrow> motion_event list \<Rightarrow> real" where
  "quiet_last t es = (if es = [] then t else ts_of (ev_timeStamp (last es)))"

section \<open>Invariants\<close>

text \<open>Every number the integrator keeps is finite.\<close>

definition motion_finite :: "motion_state \<Rightarrow> bool" where
  "motion_finite s =
     (vec_finite (velRef s) \<and> vec_finite (posRef s) \<and> list_all vec_finite (pathRef s)
      \<and> vec_finite (accelBiasRef s)
      \<and> (case lastTimestampRef s of None \<Rightarrow> True | Some t \<Rightarrow> is_finite t))"

text \<open>Both components finite and at most \<open>B\<close> in magnitude.\<close>

definition vec_bounded :: "real \<Rightarrow> vec2 \<Rightarrow> bool" where
  "vec_bounded B v =
     (case (vx v, vy v) of (Fin x, Fin y) \<Rightarrow> \<bar>x\<bar> \<le> B \<and> \<bar>y\<bar> \<le> B | _ \<Rightarrow> False)"

section \<open>Lemmas on the steps\<close>

lemma delta_time_Fin [simp]: "delta_time (Fin n) (Fin t) = Fin ((n - t) / 1000)"
  by (simp add: delta_time_def)

lemma dt_rejected_Fin [simp]: "dt_rejected (Fin d) = (d < 0.001)"
  by (auto simp: dt_rejected_def)

lemma dt_accepted: "1 \<le> n - t \<Longrightarrow> \<not> (n - t) / 1000 < (0.001::real)"
  by simp

lemma handleDeviceMotion_acc:
  "ev_acceleration ev = Some acc \<Longrightarrow>
     ms_state (handleDeviceMotion perf h s ev) =
       fst (motion_core (event_now (ev_timeStamp ev) perf) h s acc)
   \<and> ms_outcome (handleDeviceMotion perf h s ev) =
       snd (motion_core (event_now (ev_timeStamp ev) perf) h s acc)"
  by (simp add: handleDeviceMotion_def Let_def case_prod_unfold)

lemma handleDeviceMotion_noacc:
  "ev_acceleration ev = None \<Longrightarrow>
     ms_state (handleDeviceMotion perf h s ev) = s
   \<and> ms_outcome (handleDeviceMotion perf h s ev) = NoAcceleration"
  by (simp add: handleDeviceMotion_def Let_def)

text \<open>The accepted branch of the integrator on finite time stamps at least
  1 ms apart.\<close>

lemma motion_core_accepted:
  assumes "lastTimestampRef s = Some (Fin t)" and "1 \<le> n - t"
  shows "motion_core (Fin n) h s acc =
    (let axRaw = js_or_zero (acc_x acc);
         ayRaw = js_or_zero (acc_y acc);
         s2 = s\<lparr>lastTimestampRef := Some (Fin n),
                 stationaryCountRef := stationary_count (stationaryCountRef s) axRaw ayRaw\<rparr>
     in if 6 \<le> stationaryCountRef s2
        then (s2\<lparr>accelBiasRef := learn_bias (accelBiasRef s2) axRaw ayRaw, velRef := vec_zero\<rparr>,
              Stationary)
        else (integrate s2 (rotate_world h (deadzone (js_sub axRaw (vx (accelBiasRef s2))))
                                           (deadzone (js_sub ayRaw (vy (accelBiasRef s2)))))
                 (Fin ((n - t) / 1000)), Integrated))"
  using assms by (simp add: motion_core_def Let_def)

lemma stationary_count_Fin [simp]:
  "stationary_count c (Fin ax) (Fin ay) = (if sqrt (ax\<^sup>2 + ay\<^sup>2) < 0.12 then Suc c else 0)"
  by (simp add: stationary_count_def)

lemma deadzone_small: "\<bar>u\<bar> \<le> 0.05 \<Longrightarrow> deadzone (Fin u) = Fin 0"
  by (simp add: deadzone_def)

lemma deadzone_large: "0.05 < \<bar>u\<bar> \<Longrightarrow> deadzone (Fin u) = Fin u"
  by (simp add: deadzone_def)

lemma rotate_world_zero:
  "is_finite (js_or_zero (JNum h)) \<Longrightarrow> rotate_world h (Fin 0) (Fin 0) = \<lparr>vx = Fin 0, vy = Fin 0\<rparr>"
  by (auto simp: rotate_world_def is_finite_iff)

lemma integrate_Fin:
  "velRef s = \<lparr>vx = Fin u, vy = Fin w\<rparr> \<Longrightarrow> posRef s = \<lparr>vx = Fin px, vy = Fin py\<rparr> \<Longrightarrow>
   integrate s \<lparr>vx = Fin wx, vy = Fin wy\<rparr> (Fin dt) =
     (let u' = (u + wx * dt) * exp (- dt); w' = (w + wy * dt) * exp (- dt);
          p = \<lparr>vx = Fin (px + u' * dt), vy = Fin (py + w' * dt)\<rparr>
      in s\<lparr>velRef := \<lparr>vx = Fin u', vy = Fin w'\<rparr>, posRef := p, pathRef := pathRef s @ [p]\<rparr>)"
  by (simp add: integrate_def Let_def)

lemma deadzone_finite [js_finite]: "is_finite u \<Longrightarrow> is_finite (deadzone u)"
  by (simp add: deadzone_def)

lemma rotate_world_finite:
  "is_finite (js_or_zero (JNum h)) \<Longrightarrow> is_finite ax \<Longrightarrow> is_finite ay \<Longrightarrow>
   vec_finite (rotate_world h ax ay)"
  by (simp add: rotate_world_def vec_finite_def Let_def js_finite)

lemma learn_bias_finite:
  "vec_finite b \<Longrightarrow> is_finite ax \<Longrightarrow> is_finite ay \<Longrightarrow> vec_finite (learn_bias b ax ay)"
  by (simp add: learn_bias_def vec_finite_def js_finite)

lemma integrate_finite:
  "motion_finite s \<Longrightarrow> vec_finite world \<Longrightarrow> is_finite dt \<Longrightarrow> motion_finite (integrate s world dt)"
  by (simp add: integrate_def motion_finite_def vec_finite_def Let_def js_finite)

text \<open>Exponential damping shrinks a non-zero velocity.\<close>

lemma damped_norm_decreases:
  assumes "0 < dt" and "(u, w) \<noteq> (0, 0)"
  shows "(u * exp (- dt))\<^sup>2 + (w * exp (- dt))\<^sup>2 < u\<^sup>2 + (w::real)\<^sup>2"
proof -
  have e: "0 < exp (- dt)" "exp (- dt) < 1" using assms(1) by simp_all
  then have e2: "(exp (- dt))\<^sup>2 < 1" by (simp add: power_less_one_iff)
  have pos: "0 < u\<^sup>2 + w\<^sup>2" using assms(2) by (auto simp: sum_power2_gt_zero_iff)
  have "(u * exp (- dt))\<^sup>2 + (w * exp (- dt))\<^sup>2 = (exp (- dt))\<^sup>2 * (u\<^sup>2 + w\<^sup>2)"
    by (simp add: power_mult_distrib algebra_simps)
  also have "\<dots> < 1 * (u\<^sup>2 + w\<^sup>2)" using e2 pos by (intro mult_strict_right_mono) auto
  finally show ?thesis by simp
qed

lemma motion_core_cong:
  "js_or_zero (acc_x a) = js_or_zero (acc_x b) \<Longrightarrow> js_or_zero (acc_y a) = js_or_zero (acc_y b) \<Longrightarrow>
   motion_core now h s a = motion_core now h s b"
  by (simp add: motion_core_def Let_def split: option.split)

lemma motion_run_append:
  "motion_run perf h s (xs @ ys) = motion_run perf h (motion_run perf h s xs) ys"
  by (induction xs arbitrary: s) auto

lemma quiet_from_append:
  "quiet_from t (xs @ ys) \<longleftrightarrow> quiet_from t xs \<and> quiet_from (quiet_last t xs) ys"
proof (induction xs arbitrary: t)
  case Nil
  then show ?case by (simp add: quiet_last_def)
next
  case (Cons e es)
  show ?case
    by (auto simp: Cons.IH quiet_last_def split: option.splits jsval.splits jsnum.splits)
qed

text \<open>One quiet sample: the baseline moves to its time stamp and the count goes
  up by one; from a count of five on, the sample is stationary.\<close>

lemma quiet_step:
  assumes "lastTimestampRef s = Some (Fin t)" and "quiet_from t [e]"
  shows "lastTimestampRef (ms_state (handleDeviceMotion perf h s e)) = Some (Fin (ts_of (ev_timeStamp e)))
       \<and> stationaryCountRef (ms_state (handleDeviceMotion perf h s e)) = Suc (stationaryCountRef s)
       \<and> (5 \<le> stationaryCountRef s \<longrightarrow>
            velRef (ms_state (handleDeviceMotion perf h s e)) = vec_zero
          \<and> posRef (ms_state (handleDeviceMotion perf h s e)) = posRef s
          \<and> pathRef (ms_state (handleDeviceMotion perf h s e)) = pathRef s)"
proof -
  from assms(2) obtain acc n ax ay where acc: "ev_acceleration e = Some acc"
    and ts: "ev_timeStamp e = JNum (Fin n)" and dt: "1 \<le> n - t"
    and x: "js_or_zero (acc_x acc) = Fin ax" and y: "js_or_zero (acc_y acc) = Fin ay"
    and q: "sqrt (ax\<^sup>2 + ay\<^sup>2) < 0.12"
    by (auto simp: quiet_acc_def split: option.splits jsval.splits jsnum.splits
        elim: quiet_reading.elims)
  show ?thesis
    using assms(1) acc ts dt x y q
    by (auto simp: handleDeviceMotion_acc motion_core_accepted Let_def integrate_def)
qed

lemma quiet_run:
  assumes "lastTimestampRef s = Some (Fin t)" and "quiet_from t xs"
  shows "lastTimestampRef (motion_run perf h s xs) = Some (Fin (quiet_last t xs))
       \<and> stationaryCountRef (motion_run perf h s xs) = stationaryCountRef s + length xs
       \<and> (5 \<le> stationaryCountRef s \<longrightarrow>
            posRef (motion_run perf h s xs) = posRef s \<and> pathRef (motion_run perf h s xs) = pathRef s
          \<and> (xs \<noteq> [] \<longrightarrow> velRef (motion_run perf h s xs) = vec_zero))"
  using assms
proof (induction xs arbitrary: s t)
  case Nil
  then show ?case by (simp add: quiet_last_def)
next
  case (Cons e es)
  let ?s' = "ms_state (handleDeviceMotion perf h s e)"
  have q1: "quiet_from t [e]" and qs: "quiet_from (ts_of (ev_timeStamp e)) es"
    using Cons.prems(2) by (auto split: option.splits jsval.splits jsnum.splits)
  have st: "lastTimestampRef ?s' = Some (Fin (ts_of (ev_timeStamp e)))"
    "stationaryCountRef ?s' = Suc (stationaryCountRef s)"
    "5 \<le> stationaryCountRef s \<Longrightarrow> velRef ?s' = vec_zero \<and> posRef ?s' = posRef s \<and> pathRef ?s' = pathRef s"
    using quiet_step [OF Cons.prems(1) q1] by auto
  have IH: "lastTimestampRef (motion_run perf h ?s' es) = Some (Fin (quiet_last (ts_of (ev_timeStamp e)) es))
       \<and> stationaryCountRef (motion_run perf h ?s' es) = stationaryCountRef ?s' + length es
       \<and> (5 \<le> stationaryCountRef ?s' \<longrightarrow>
            posRef (motion_run perf h ?s' es) = posRef ?s' \<and> pathRef (motion_run perf h ?s' es) = pathRef ?s'
          \<and> (es \<noteq> [] \<longrightarrow> velRef (motion_run perf h ?s' es) = vec_zero))"
    using Cons.IH [OF st(1) qs] .
  have last: "quiet_last (ts_of (ev_timeStamp e)) es = quiet_last t (e # es)"
    by (simp add: quiet_last_def)
  show ?case
    using IH st last by (cases es) auto
qed

text \<open>Where position and path can change: only an integrated sample moves the
  position, and it appends exactly the new position to the path.\<close>

lemma handleDeviceMotion_path:
  "pathRef (ms_state (handleDeviceMotion perf h s ev)) =
     (if ms_outcome (handleDeviceMotion perf h s ev) = Integrated
      then pathRef s @ [posRef (ms_state (handleDeviceMotion perf h s ev))] else pathRef s)
   \<and> (ms_outcome (handleDeviceMotion perf h s ev) \<noteq> Integrated \<longrightarrow>
        posRef (ms_state (handleDeviceMotion perf h s ev)) = posRef s)"
proof (cases "ev_acceleration ev")
  case None
  then show ?thesis by (simp add: handleDeviceMotion_noacc)
next
  case (Some acc)
  then show ?thesis
    by (simp add: handleDeviceMotion_acc motion_core_def integrate_def Let_def
        split: option.splits)
qed

text \<open>Finiteness through one accepted call of the core: finite state, time,
  heading and raw components give a finite state.\<close>

lemma motion_core_finite:
  assumes "motion_finite s" and "is_finite now" and "is_finite (js_or_zero (JNum h))"
    and fa: "is_finite (js_or_zero (acc_x acc))" "is_finite (js_or_zero (acc_y acc))"
  shows "motion_finite (fst (motion_core now h s acc))"
proof (cases "lastTimestampRef s")
  case None
  with assms(1,2) show ?thesis by (simp add: motion_core_def motion_finite_def)
next
  case (Some lastTs)
  let ?ax = "js_or_zero (acc_x acc)" and ?ay = "js_or_zero (acc_y acc)"
  from Some assms(1) have lt: "is_finite lastTs" by (simp add: motion_finite_def)
  let ?dt = "delta_time now lastTs"
  have fdt: "is_finite ?dt" using assms(2) lt by (simp add: delta_time_def js_finite)
  let ?s2 = "s\<lparr>lastTimestampRef := Some now,
               stationaryCountRef := stationary_count (stationaryCountRef s) ?ax ?ay\<rparr>"
  have s2: "motion_finite ?s2" using assms(1,2) by (simp add: motion_finite_def)
  have b: "vec_finite (accelBiasRef ?s2)" using assms(1) by (simp add: motion_finite_def)
  then have w: "vec_finite (rotate_world h (deadzone (js_sub ?ax (vx (accelBiasRef ?s2))))
                                           (deadzone (js_sub ?ay (vy (accelBiasRef ?s2)))))"
    using assms(3) fa by (intro rotate_world_finite) (simp_all add: vec_finite_def js_finite)
  have "motion_finite (?s2\<lparr>accelBiasRef := learn_bias (accelBiasRef ?s2) ?ax ?ay,
                            velRef := vec_zero\<rparr>)"
    using s2 b fa learn_bias_finite
    by (simp add: motion_finite_def vec_zero_def vec_finite_def)
  moreover have "motion_finite (integrate ?s2 (rotate_world h
                   (deadzone (js_sub ?ax (vx (accelBiasRef ?s2))))
                   (deadzone (js_sub ?ay (vy (accelBiasRef ?s2))))) ?dt)"
    using s2 w fdt by (rule integrate_finite)
  ultimately show ?thesis
    using Some assms(1) by (simp add: motion_core_def Let_def)
qed

subsection \<open>Bounded input keeps the velocity bounded\<close>

lemma vec_bounded_D:
  "vec_bounded B v \<Longrightarrow> \<exists>x y. v = \<lparr>vx = Fin x, vy = Fin y\<rparr> \<and> \<bar>x\<bar> \<le> B \<and> \<bar>y\<bar> \<le> B"
  by (cases v; cases "vx v"; cases "vy v") (auto simp: vec_bounded_def)

lemma vec_bounded_Fin [simp]:
  "vec_bounded B \<lparr>vx = Fin x, vy = Fin y\<rparr> \<longleftrightarrow> \<bar>x\<bar> \<le> B \<and> \<bar>y\<bar> \<le> B"
  by (simp add: vec_bounded_def)

text \<open>Damping never lets a velocity component outgrow a bound that holds for
  it and for the acceleration: \<open>(1 + d) e^-d \<le> 1\<close>.\<close>

lemma damped_bounded:
  fixes v w d B :: real
  assumes "0 \<le> d" and "\<bar>v\<bar> \<le> B" and "\<bar>w\<bar> \<le> B"
  shows "\<bar>(v + w * d) * exp (- d)\<bar> \<le> B"
proof -
  have "\<bar>v + w * d\<bar> \<le> B * (1 + d)"
    using assms abs_triangle_ineq [of v "w * d"] mult_right_mono [OF assms(3) assms(1)]
    by (simp add: abs_mult algebra_simps)
  moreover have "(1 + d) * exp (- d) \<le> 1"
    using exp_ge_add_one_self [of d] by (simp add: exp_minus field_simps)
  moreover have "0 \<le> B" using assms(2) by linarith
  ultimately have "\<bar>v + w * d\<bar> * exp (- d) \<le> B * ((1 + d) * exp (- d))"
    by (simp add: mult_right_mono mult.assoc)
  also have "\<dots> \<le> B" using \<open>(1 + d) * exp (- d) \<le> 1\<close> \<open>0 \<le> B\<close>
    by (simp add: mult_left_le)
  finally show ?thesis by (simp add: abs_mult)
qed

lemma deadzone_bounded: "\<bar>u\<bar> \<le> B \<Longrightarrow> \<exists>u'. deadzone (Fin u) = Fin u' \<and> \<bar>u'\<bar> \<le> B"
  by (auto simp: deadzone_def)

lemma abs_mult_le_one: "\<bar>x\<bar> \<le> B \<Longrightarrow> \<bar>c\<bar> \<le> 1 \<Longrightarrow> \<bar>x * c\<bar> \<le> (B::real)"
  using mult_left_le [of "\<bar>c\<bar>" "\<bar>x\<bar>"] by (simp add: abs_mult)

lemma rotate_world_bounded:
  assumes "is_finite (js_or_zero (JNum h))" and "\<bar>ax\<bar> \<le> B" and "\<bar>ay\<bar> \<le> B"
  shows "vec_bounded (2 * B) (rotate_world h (Fin ax) (Fin ay))"
proof -
  obtain q where q: "js_or_zero (JNum h) = Fin q" using assms(1) by (auto simp: is_finite_iff)
  let ?t = "q * (pi / 180)"
  have "\<bar>ax * cos ?t\<bar> \<le> B" "\<bar>ay * sin ?t\<bar> \<le> B" "\<bar>- ax * sin ?t\<bar> \<le> B" "\<bar>ay * cos ?t\<bar> \<le> B"
    using assms(2,3) abs_sin_le_one [of ?t] abs_cos_le_one [of ?t]
    by (simp_all add: abs_mult_le_one)
  then show ?thesis
    by (simp add: rotate_world_def q Let_def) linarith
qed

lemma learn_bias_bounded:
  "\<bar>cx\<bar> \<le> A \<Longrightarrow> \<bar>cy\<bar> \<le> A \<Longrightarrow> \<bar>x\<bar> \<le> A \<Longrightarrow> \<bar>y\<bar> \<le> A \<Longrightarrow>
     vec_bounded A (learn_bias \<lparr>vx = Fin cx, vy = Fin cy\<rparr> (Fin x) (Fin y))"
  by (simp add: learn_bias_def abs_le_iff)

text \<open>One call of the core with raw components bounded by \<open>A\<close>: the bias
  stays within \<open>A\<close> and the velocity within \<open>4 A\<close> (the bias-corrected
  components within \<open>2 A\<close>, their rotation within \<open>4 A\<close>).\<close>

lemma motion_core_bounded:
  assumes "motion_finite s" and "vec_bounded (4 * A) (velRef s)" and "vec_bounded A (accelBiasRef s)"
    and "is_finite now" and "is_finite (js_or_zero (JNum h))"
    and "js_or_zero (acc_x acc) = Fin x" and "\<bar>x\<bar> \<le> A"
    and "js_or_zero (acc_y acc) = Fin y" and "\<bar>y\<bar> \<le> A"
  shows "vec_bounded (4 * A) (velRef (fst (motion_core now h s acc)))
       \<and> vec_bounded A (accelBiasRef (fst (motion_core now h s acc)))"
proof (cases "lastTimestampRef s")
  case None
  with assms(2,3) show ?thesis by (simp add: motion_core_def)
next
  case (Some lastTs)
  obtain n where n: "now = Fin n" using assms(4) by (auto simp: is_finite_iff)
  obtain t where t: "lastTs = Fin t"
    using assms(1) Some by (auto simp: motion_finite_def is_finite_iff)
  obtain cx cy where b: "accelBiasRef s = \<lparr>vx = Fin cx, vy = Fin cy\<rparr>" "\<bar>cx\<bar> \<le> A" "\<bar>cy\<bar> \<le> A"
    using vec_bounded_D [OF assms(3)] by blast
  obtain u w where v: "velRef s = \<lparr>vx = Fin u, vy = Fin w\<rparr>" "\<bar>u\<bar> \<le> 4 * A" "\<bar>w\<bar> \<le> 4 * A"
    using vec_bounded_D [OF assms(2)] by blast
  obtain px py where p: "posRef s = \<lparr>vx = Fin px, vy = Fin py\<rparr>"
    using assms(1) by (cases "posRef s"; cases "vx (posRef s)"; cases "vy (posRef s)")
       (auto simp: motion_finite_def vec_finite_def)
  show ?thesis
  proof (cases "1 \<le> n - t")
    case False
    then have "dt_rejected (delta_time now lastTs)" using n t by simp
    with Some assms(2,3) show ?thesis by (simp add: motion_core_def)
  next
    case True
    have A: "0 \<le> A" using assms(7) by linarith
    obtain ax where ax: "deadzone (Fin (x - cx)) = Fin ax" "\<bar>ax\<bar> \<le> 2 * A"
      using deadzone_bounded [of "x - cx" "2 * A"] abs_triangle_ineq4 [of x cx] assms(7) b(2)
      by fastforce
    obtain ay where ay: "deadzone (Fin (y - cy)) = Fin ay" "\<bar>ay\<bar> \<le> 2 * A"
      using deadzone_bounded [of "y - cy" "2 * A"] abs_triangle_ineq4 [of y cy] assms(9) b(3)
      by fastforce
    have "vec_bounded (2 * (2 * A)) (rotate_world h (Fin ax) (Fin ay))"
      using assms(5) ax(2) ay(2) by (rule rotate_world_bounded)
    then obtain wx wy where wr: "rotate_world h (Fin ax) (Fin ay) = \<lparr>vx = Fin wx, vy = Fin wy\<rparr>"
        "\<bar>wx\<bar> \<le> 4 * A" "\<bar>wy\<bar> \<le> 4 * A"
      using vec_bounded_D by fastforce
    let ?d = "(n - t) / 1000"
    have d: "0 \<le> ?d" using True by simp
    have "\<bar>(u + wx * ?d) * exp (- ?d)\<bar> \<le> 4 * A" "\<bar>(w + wy * ?d) * exp (- ?d)\<bar> \<le> 4 * A"
      using damped_bounded [OF d] v(2,3) wr(2,3) by blast+
    moreover have "vec_bounded A (learn_bias (accelBiasRef s) (Fin x) (Fin y))"
      using b assms(7,9) by (simp add: learn_bias_bounded)
    ultimately show ?thesis
      using Some n t True A b v(1) p ax(1) ay(1) wr(1) assms(6,8)
      by (simp add: motion_core_accepted integrate_Fin Let_def vec_zero_def js_sub_def)
  qed
qed

section \<open>Properties\<close>

text \<open>C2. Time stamp guard: when the last accepted sample was at t and a sample
  with acceleration arrives at n with n - t under 1 ms (zero, negative or a
  duplicate included), the integrator's state is left entirely unchanged:
  velocity, position, path, bias, stationary count, and also the time stamp
  baseline, which does not advance.\<close>

theorem motion_timestamp_guard:
  assumes "ev_acceleration ev = Some acc" and "lastTimestampRef s = Some (Fin t)"
    and "ev_timeStamp ev = JNum (Fin n)" and "n - t < 1"
  shows "ms_state (handleDeviceMotion perf h s ev) = s
       \<and> ms_outcome (handleDeviceMotion perf h s ev) = Rejected"
proof -
  from assms(4) have "(n - t) / 1000 < (0.001::real)" by simp
  with assms show ?thesis by (simp add: handleDeviceMotion_acc motion_core_def)
qed

theorem motion_timestamp_guard_witness:
  "ms_state (handleDeviceMotion (Fin 0) (Fin 0) (motion_state_init\<lparr>lastTimestampRef := Some (Fin 100)\<rparr>)
      \<lparr>ev_accelerationIncludingGravity = None, ev_rotationRate = None,
       ev_acceleration = Some \<lparr>acc_x = JNum (Fin 3), acc_y = JNum (Fin 0), acc_z = JNum (Fin 0)\<rparr>,
       ev_timeStamp = JNum (Fin 100.5)\<rparr>)
   = motion_state_init\<lparr>lastTimestampRef := Some (Fin 100)\<rparr>"
  using motion_timestamp_guard [of
      "\<lparr>ev_accelerationIncludingGravity = None, ev_rotationRate = None,
        ev_acceleration = Some \<lparr>acc_x = JNum (Fin 3), acc_y = JNum (Fin 0), acc_z = JNum (Fin 0)\<rparr>,
        ev_timeStamp = JNum (Fin 100.5)\<rparr>"
      "\<lparr>acc_x = JNum (Fin 3), acc_y = JNum (Fin 0), acc_z = JNum (Fin 0)\<rparr>"
      "motion_state_init\<lparr>lastTimestampRef := Some (Fin 100)\<rparr>" 100 "100.5" "Fin 0" "Fin 0"]
  by simp

text \<open>C3. Stationary branch: an accepted sample whose raw 2D magnitude is under
  0.12 and that makes the run of such samples six long (or longer) moves the bias
  20 percent towards the raw reading, forces the velocity to exactly zero, and
  leaves position and path unchanged.\<close>

theorem motion_stationary:
  assumes "ev_acceleration ev = Some acc" and "lastTimestampRef s = Some (Fin t)"
    and "ev_timeStamp ev = JNum (Fin n)" and "1 \<le> n - t"
    and "js_or_zero (acc_x acc) = Fin ax" and "js_or_zero (acc_y acc) = Fin ay"
    and "sqrt (ax\<^sup>2 + ay\<^sup>2) < 0.12" and "5 \<le> stationaryCountRef s"
    and "accelBiasRef s = \<lparr>vx = Fin bx, vy = Fin by\<rparr>"
  shows "ms_state (handleDeviceMotion perf h s ev) =
           s\<lparr>lastTimestampRef := Some (Fin n), stationaryCountRef := Suc (stationaryCountRef s),
             accelBiasRef := \<lparr>vx = Fin (bx * 0.8 + ax * 0.2), vy = Fin (by * 0.8 + ay * 0.2)\<rparr>,
             velRef := vec_zero\<rparr>
       \<and> ms_outcome (handleDeviceMotion perf h s ev) = Stationary"
  using assms
  by (simp add: handleDeviceMotion_acc motion_core_accepted learn_bias_def Let_def)

theorem motion_stationary_witness:
  "ms_state (handleDeviceMotion (Fin 0) (Fin 0)
      (motion_state_init\<lparr>lastTimestampRef := Some (Fin 0), stationaryCountRef := 5,
                         velRef := \<lparr>vx = Fin 2, vy = Fin 1\<rparr>\<rparr>)
      \<lparr>ev_accelerationIncludingGravity = None, ev_rotationRate = None,
       ev_acceleration = Some \<lparr>acc_x = JNum (Fin 0), acc_y = JNum (Fin 0), acc_z = JNum (Fin 0)\<rparr>,
       ev_timeStamp = JNum (Fin 20)\<rparr>)
   = motion_state_init\<lparr>lastTimestampRef := Some (Fin 20), stationaryCountRef := 6\<rparr>"
proof -
  let ?s = "motion_state_init\<lparr>lastTimestampRef := Some (Fin 0), stationaryCountRef := 5,
                         velRef := \<lparr>vx = Fin 2, vy = Fin 1\<rparr>\<rparr>"
  let ?acc = "\<lparr>acc_x = JNum (Fin 0), acc_y = JNum (Fin 0), acc_z = JNum (Fin 0)\<rparr>"
  have b: "accelBiasRef ?s = \<lparr>vx = Fin 0, vy = Fin 0\<rparr>"
    by (simp add: motion_state_init_def vec_zero_def)
  show ?thesis
    using motion_stationary [of
      "\<lparr>ev_accelerationIncludingGravity = None, ev_rotationRate = None,
        ev_acceleration = Some ?acc, ev_timeStamp = JNum (Fin 20)\<rparr>" ?acc ?s 0 20 0 0 0 0 "Fin 0" "Fin 0",
      OF _ _ _ _ _ _ _ _ b]
    by (simp add: motion_state_init_def vec_zero_def)
qed

text \<open>C4. Bounded drift: on an accepted sample whose bias-corrected acceleration
  falls in the dead zone on both axes (and with a finite heading, or NaN), a
  non-zero velocity strictly shrinks in magnitude, whether the sample is
  integrated (exponential damping) or declared stationary (velocity zeroed).\<close>

theorem motion_damping_decay:
  assumes "ev_acceleration ev = Some acc" and "lastTimestampRef s = Some (Fin t)"
    and "ev_timeStamp ev = JNum (Fin n)" and "1 \<le> n - t"
    and "js_or_zero (acc_x acc) = Fin ax" and "js_or_zero (acc_y acc) = Fin ay"
    and "accelBiasRef s = \<lparr>vx = Fin bx, vy = Fin by\<rparr>"
    and "\<bar>ax - bx\<bar> \<le> 0.05" and "\<bar>ay - by\<bar> \<le> 0.05"
    and "velRef s = \<lparr>vx = Fin u, vy = Fin w\<rparr>" and "posRef s = \<lparr>vx = Fin px, vy = Fin py\<rparr>"
    and "is_finite (js_or_zero (JNum h))" and "(u, w) \<noteq> (0, 0)"
  shows "\<exists>u' w'. velRef (ms_state (handleDeviceMotion perf h s ev)) = \<lparr>vx = Fin u', vy = Fin w'\<rparr>
                 \<and> u'\<^sup>2 + w'\<^sup>2 < u\<^sup>2 + w\<^sup>2"
proof -
  have dt: "0 < (n - t) / 1000" using assms(4) by simp
  have dz: "deadzone (js_sub (Fin ax) (Fin bx)) = Fin 0" "deadzone (js_sub (Fin ay) (Fin by)) = Fin 0"
    using assms(8,9) by (simp_all add: deadzone_small)
  have dec: "(u * exp (- ((n - t) / 1000)))\<^sup>2 + (w * exp (- ((n - t) / 1000)))\<^sup>2 < u\<^sup>2 + w\<^sup>2"
    using dt assms(13) by (rule damped_norm_decreases)
  have zero: "(0::real)\<^sup>2 + 0\<^sup>2 < u\<^sup>2 + w\<^sup>2"
    using assms(13) by (auto simp: sum_power2_gt_zero_iff)
  show ?thesis
  proof (cases "6 \<le> stationary_count (stationaryCountRef s) (Fin ax) (Fin ay)")
    case True
    with assms(1-7) zero show ?thesis
      by (simp add: handleDeviceMotion_acc motion_core_accepted Let_def vec_zero_def
          del: stationary_count_Fin)
  next
    case False
    with assms(1-7,10,11,12) dz dec show ?thesis
      by (simp add: handleDeviceMotion_acc motion_core_accepted Let_def rotate_world_zero
          integrate_Fin del: stationary_count_Fin)
  qed
qed

theorem motion_damping_decay_witness:
  "\<exists>u' w'. velRef (ms_state (handleDeviceMotion (Fin 0) (Fin 0)
      (motion_state_init\<lparr>lastTimestampRef := Some (Fin 0), velRef := \<lparr>vx = Fin 2, vy = Fin 0\<rparr>\<rparr>)
      \<lparr>ev_accelerationIncludingGravity = None, ev_rotationRate = None,
       ev_acceleration = Some \<lparr>acc_x = JNum (Fin 0.01), acc_y = JNum (Fin 0.03), acc_z = JNum (Fin 0)\<rparr>,
       ev_timeStamp = JNum (Fin 20)\<rparr>)) = \<lparr>vx = Fin u', vy = Fin w'\<rparr>
      \<and> u'\<^sup>2 + w'\<^sup>2 < 2\<^sup>2 + 0\<^sup>2"
proof -
  let ?s = "motion_state_init\<lparr>lastTimestampRef := Some (Fin 0), velRef := \<lparr>vx = Fin 2, vy = Fin 0\<rparr>\<rparr>"
  let ?acc = "\<lparr>acc_x = JNum (Fin 0.01), acc_y = JNum (Fin 0.03), acc_z = JNum (Fin 0)\<rparr>"
  let ?ev = "\<lparr>ev_accelerationIncludingGravity = None, ev_rotationRate = None,
       ev_acceleration = Some ?acc, ev_timeStamp = JNum (Fin 20)\<rparr>"
  show ?thesis
    using motion_damping_decay [of ?ev ?acc ?s 0 20 "0.01" "0.03" 0 0 2 0 0 0 "Fin 0" "Fin 0"]
    by (simp add: motion_state_init_def vec_zero_def)
qed

text \<open>Dead zone: when the time step is accepted, the sample is integrated,
  the heading is 0 and the bias-corrected x acceleration is within 0.05 of zero,
  the x velocity only decays, v' = v e^(-dt), whatever the y reading.\<close>

theorem motion_deadzone_axis:
  assumes "ev_acceleration ev = Some acc" and "lastTimestampRef s = Some (Fin t)"
    and "ev_timeStamp ev = JNum (Fin n)" and "1 \<le> n - t"
    and "js_or_zero (acc_x acc) = Fin ax" and "js_or_zero (acc_y acc) = Fin ay"
    and "accelBiasRef s = \<lparr>vx = Fin bx, vy = Fin by\<rparr>" and "\<bar>ax - bx\<bar> \<le> 0.05"
    and "velRef s = \<lparr>vx = Fin u, vy = Fin w\<rparr>" and "posRef s = \<lparr>vx = Fin px, vy = Fin py\<rparr>"
    and "ms_outcome (handleDeviceMotion perf (Fin 0) s ev) = Integrated"
  shows "vx (velRef (ms_state (handleDeviceMotion perf (Fin 0) s ev))) = Fin (u * exp (- ((n - t) / 1000)))"
proof -
  have dz: "deadzone (js_sub (Fin ax) (Fin bx)) = Fin 0"
    using assms(8) by (simp add: deadzone_small)
  obtain dy where dy: "deadzone (js_sub (Fin ay) (Fin by)) = Fin dy"
    by (cases "0.05 < \<bar>ay - by\<bar>") (auto simp: deadzone_def)
  have rot: "rotate_world (Fin 0) (Fin 0) (Fin dy) = \<lparr>vx = Fin 0, vy = Fin dy\<rparr>"
    by (simp add: rotate_world_def)
  from assms(11) assms(1-7) have "\<not> 6 \<le> stationary_count (stationaryCountRef s) (Fin ax) (Fin ay)"
    by (auto simp: handleDeviceMotion_acc motion_core_accepted Let_def del: stationary_count_Fin)
  with assms(1-7,9,10) dz dy rot show ?thesis
    by (simp add: handleDeviceMotion_acc motion_core_accepted Let_def integrate_Fin
        del: stationary_count_Fin)
qed

theorem motion_deadzone_axis_witness:
  "ms_outcome (handleDeviceMotion (Fin 0) (Fin 0)
      (motion_state_init\<lparr>lastTimestampRef := Some (Fin 0), velRef := \<lparr>vx = Fin 2, vy = Fin 0\<rparr>\<rparr>)
      \<lparr>ev_accelerationIncludingGravity = None, ev_rotationRate = None,
       ev_acceleration = Some \<lparr>acc_x = JNum (Fin 0.04), acc_y = JNum (Fin 3), acc_z = JNum (Fin 0)\<rparr>,
       ev_timeStamp = JNum (Fin 20)\<rparr>) = Integrated
   \<and> vx (velRef (ms_state (handleDeviceMotion (Fin 0) (Fin 0)
      (motion_state_init\<lparr>lastTimestampRef := Some (Fin 0), velRef := \<lparr>vx = Fin 2, vy = Fin 0\<rparr>\<rparr>)
      \<lparr>ev_accelerationIncludingGravity = None, ev_rotationRate = None,
       ev_acceleration = Some \<lparr>acc_x = JNum (Fin 0.04), acc_y = JNum (Fin 3), acc_z = JNum (Fin 0)\<rparr>,
       ev_timeStamp = JNum (Fin 20)\<rparr>))) = Fin (2 * exp (- ((20 - 0) / 1000)))"
proof -
  let ?s = "motion_state_init\<lparr>lastTimestampRef := Some (Fin 0), velRef := \<lparr>vx = Fin 2, vy = Fin 0\<rparr>\<rparr>"
  let ?acc = "\<lparr>acc_x = JNum (Fin 0.04), acc_y = JNum (Fin 3), acc_z = JNum (Fin 0)\<rparr>"
  let ?ev = "\<lparr>ev_accelerationIncludingGravity = None, ev_rotationRate = None,
       ev_acceleration = Some ?acc, ev_timeStamp = JNum (Fin 20)\<rparr>"
  have o: "ms_outcome (handleDeviceMotion (Fin 0) (Fin 0) ?s ?ev) = Integrated"
    by (simp add: handleDeviceMotion_acc motion_core_def Let_def motion_state_init_def vec_zero_def)
  show ?thesis
    using o motion_deadzone_axis [of ?ev ?acc ?s 0 20 "0.04" 3 0 0 2 0 0 0 "Fin 0", OF _ _ _ _ _ _ _ _ _ _ o]
    by (simp add: motion_state_init_def vec_zero_def)
qed

text \<open>The path is append-only: a motion event changes position and path only
  when it is integrated, and then the path grows by exactly the new position;
  every other outcome leaves both unchanged.\<close>

theorem motion_path_append:
  "(ms_outcome (handleDeviceMotion perf h s ev) = Integrated \<longrightarrow>
      pathRef (ms_state (handleDeviceMotion perf h s ev)) =
        pathRef s @ [posRef (ms_state (handleDeviceMotion perf h s ev))])
   \<and> (ms_outcome (handleDeviceMotion perf h s ev) \<noteq> Integrated \<longrightarrow>
      pathRef (ms_state (handleDeviceMotion perf h s ev)) = pathRef s
      \<and> posRef (ms_state (handleDeviceMotion perf h s ev)) = posRef s)"
  using handleDeviceMotion_path [of perf h s ev] by simp

theorem motion_path_append_witness:
  "pathRef (ms_state (handleDeviceMotion (Fin 0) (Fin 0)
      (motion_state_init\<lparr>lastTimestampRef := Some (Fin 0), velRef := \<lparr>vx = Fin 1, vy = Fin 0\<rparr>\<rparr>)
      \<lparr>ev_accelerationIncludingGravity = None, ev_rotationRate = None,
       ev_acceleration = Some \<lparr>acc_x = JNum (Fin 0), acc_y = JNum (Fin 0), acc_z = JNum (Fin 0)\<rparr>,
       ev_timeStamp = JNum (Fin 20)\<rparr>))
   = [vec_zero, posRef (ms_state (handleDeviceMotion (Fin 0) (Fin 0)
      (motion_state_init\<lparr>lastTimestampRef := Some (Fin 0), velRef := \<lparr>vx = Fin 1, vy = Fin 0\<rparr>\<rparr>)
      \<lparr>ev_accelerationIncludingGravity = None, ev_rotationRate = None,
       ev_acceleration = Some \<lparr>acc_x = JNum (Fin 0), acc_y = JNum (Fin 0), acc_z = JNum (Fin 0)\<rparr>,
       ev_timeStamp = JNum (Fin 20)\<rparr>))]"
proof -
  let ?s = "motion_state_init\<lparr>lastTimestampRef := Some (Fin 0), velRef := \<lparr>vx = Fin 1, vy = Fin 0\<rparr>\<rparr>"
  let ?ev = "\<lparr>ev_accelerationIncludingGravity = None, ev_rotationRate = None,
       ev_acceleration = Some \<lparr>acc_x = JNum (Fin 0), acc_y = JNum (Fin 0), acc_z = JNum (Fin 0)\<rparr>,
       ev_timeStamp = JNum (Fin 20)\<rparr>"
  have o: "ms_outcome (handleDeviceMotion (Fin 0) (Fin 0) ?s ?ev) = Integrated"
    by (simp add: handleDeviceMotion_acc motion_core_def Let_def motion_state_init_def vec_zero_def)
  show ?thesis
    using o motion_path_append [of "Fin 0" "Fin 0" ?s ?ev]
    by (simp add: motion_state_init_def)
qed

text \<open>Finiteness is preserved: from a state whose velocity, position, path,
  bias and baseline are finite, an event with a finite time stamp and finite (or
  falsy) acceleration components, read under a heading that is finite or NaN,
  leaves every number of the state finite.\<close>

theorem motion_finite_preserved:
  assumes "motion_finite s" and "is_finite (event_now (ev_timeStamp ev) perf)"
    and "is_finite (js_or_zero (JNum h))"
    and "\<forall>acc. ev_acceleration ev = Some acc \<longrightarrow>
           is_finite (js_or_zero (acc_x acc)) \<and> is_finite (js_or_zero (acc_y acc))"
  shows "motion_finite (ms_state (handleDeviceMotion perf h s ev))"
proof (cases "ev_acceleration ev")
  case None
  with assms(1) show ?thesis by (simp add: handleDeviceMotion_noacc)
next
  case (Some acc)
  with assms(4) have "is_finite (js_or_zero (acc_x acc))" "is_finite (js_or_zero (acc_y acc))" by auto
  with assms(1-3) Some show ?thesis by (simp add: handleDeviceMotion_acc motion_core_finite)
qed

theorem motion_finite_preserved_witness:
  "motion_finite (ms_state (handleDeviceMotion (Fin 0) (Fin 0) motion_state_init
      \<lparr>ev_accelerationIncludingGravity = None, ev_rotationRate = None,
       ev_acceleration = Some \<lparr>acc_x = JNum NaN, acc_y = JNum (Fin 1), acc_z = JNum (Fin 0)\<rparr>,
       ev_timeStamp = JNum (Fin 20)\<rparr>))"
proof -
  have s: "motion_finite motion_state_init"
    by (simp add: motion_finite_def motion_state_init_def vec_zero_def vec_finite_def)
  show ?thesis
    using motion_finite_preserved [OF s, of "\<lparr>ev_accelerationIncludingGravity = None, ev_rotationRate = None,
       ev_acceleration = Some \<lparr>acc_x = JNum NaN, acc_y = JNum (Fin 1), acc_z = JNum (Fin 0)\<rparr>,
       ev_timeStamp = JNum (Fin 20)\<rparr>" "Fin 0" "Fin 0"]
    by simp
qed

text \<open>C31. NaN accelerations are read as zero: the code's \<open>acc.x || 0\<close> makes a
  sample whose x acceleration is NaN behave exactly like one whose x acceleration
  is 0 (so it is integrated, and can count toward stationarity and bias
  learning), instead of being dropped as malformed.\<close>

theorem motion_nan_reads_as_zero:
  "handleDeviceMotion perf h s (ev\<lparr>ev_acceleration := Some (acc\<lparr>acc_x := JNum NaN\<rparr>)\<rparr>) =
   handleDeviceMotion perf h s (ev\<lparr>ev_acceleration := Some (acc\<lparr>acc_x := JNum (Fin 0)\<rparr>)\<rparr>)"
proof -
  have "motion_core now h s (acc\<lparr>acc_x := JNum NaN\<rparr>) = motion_core now h s (acc\<lparr>acc_x := JNum (Fin 0)\<rparr>)"
    for now by (rule motion_core_cong) simp_all
  then show ?thesis by (simp add: handleDeviceMotion_def)
qed

text \<open>C20. Stationary convergence: after a stream of at least six quiet samples
  (magnitude under 0.12, time stamps at least 1 ms apart) the velocity is exactly
  zero, and any further quiet samples leave position and path unchanged.\<close>

theorem motion_stationary_convergence:
  assumes "lastTimestampRef s = Some (Fin t)" and "quiet_from t (evs @ later)"
    and "6 \<le> length evs"
  shows "velRef (motion_run perf h s evs) = vec_zero
       \<and> posRef (motion_run perf h s (evs @ later)) = posRef (motion_run perf h s evs)
       \<and> pathRef (motion_run perf h s (evs @ later)) = pathRef (motion_run perf h s evs)"
proof -
  let ?xs = "take 5 evs" and ?ys = "drop 5 evs"
  have split: "evs = ?xs @ ?ys" by simp
  have ys: "?ys \<noteq> []" using assms(3) by simp
  from assms(2) have qx: "quiet_from t ?xs" and qy: "quiet_from (quiet_last t ?xs) (?ys @ later)"
    using quiet_from_append [of t ?xs "?ys @ later"] split by (metis append_assoc)+
  let ?s5 = "motion_run perf h s ?xs"
  have r5: "lastTimestampRef ?s5 = Some (Fin (quiet_last t ?xs))" "5 \<le> stationaryCountRef ?s5"
    using quiet_run [OF assms(1) qx, of perf h] assms(3) by auto
  have qy1: "quiet_from (quiet_last t ?xs) ?ys"
    and qy2: "quiet_from (quiet_last (quiet_last t ?xs) ?ys) later"
    using qy quiet_from_append by blast+
  let ?s6 = "motion_run perf h ?s5 ?ys"
  have r6: "posRef ?s6 = posRef ?s5" "pathRef ?s6 = pathRef ?s5" "velRef ?s6 = vec_zero"
    "lastTimestampRef ?s6 = Some (Fin (quiet_last (quiet_last t ?xs) ?ys))"
    "5 \<le> stationaryCountRef ?s6"
    using quiet_run [OF r5(1) qy1, of perf h] r5(2) ys by auto
  have r7: "posRef (motion_run perf h ?s6 later) = posRef ?s6"
    "pathRef (motion_run perf h ?s6 later) = pathRef ?s6"
    using quiet_run [OF r6(4) qy2, of perf h] r6(5) by auto
  have e: "motion_run perf h s evs = ?s6"
    by (metis split motion_run_append)
  have ee: "motion_run perf h s (evs @ later) = motion_run perf h ?s6 later"
    by (metis e motion_run_append)
  show ?thesis using e ee r6 r7 by simp
qed

theorem motion_stationary_convergence_witness:
  "velRef (motion_run (Fin 0) (Fin 0) (motion_state_init\<lparr>lastTimestampRef := Some (Fin 0)\<rparr>)
      (map (\<lambda>n. \<lparr>ev_accelerationIncludingGravity = None, ev_rotationRate = None,
                  ev_acceleration = Some \<lparr>acc_x = JNum (Fin 0.01), acc_y = JNum (Fin 0), acc_z = JNum (Fin 0)\<rparr>,
                  ev_timeStamp = JNum (Fin n)\<rparr>) [10, 20, 30, 40, 50, 60])) = vec_zero"
proof -
  let ?evs = "map (\<lambda>n. \<lparr>ev_accelerationIncludingGravity = None, ev_rotationRate = None,
                  ev_acceleration = Some \<lparr>acc_x = JNum (Fin 0.01), acc_y = JNum (Fin 0), acc_z = JNum (Fin 0)\<rparr>,
                  ev_timeStamp = JNum (Fin n)\<rparr>) [10, 20, 30, 40, 50, (60::real)]"
  have q: "quiet_from 0 (?evs @ [])" by (simp add: quiet_acc_def)
  show ?thesis
    using motion_stationary_convergence [of "motion_state_init\<lparr>lastTimestampRef := Some (Fin 0)\<rparr>" 0
        ?evs "[]" "Fin 0" "Fin 0"] q
    by simp
qed

text \<open>C32. Infinite accelerations are not discarded: from any finite state with
  a time stamp baseline, a sample accepted by the time stamp guard whose x
  acceleration is +Infinity or -Infinity (and whose y component is finite or
  falsy) is integrated under every finite heading, and leaves the x velocity, the
  x position and the x coordinate of the point it appends to the path non-finite.\<close>

theorem motion_infinite_accepted:
  assumes "motion_finite s" and "lastTimestampRef s = Some (Fin t)" and "1 \<le> n - t"
    and "acc_x acc = JNum PosInf \<or> acc_x acc = JNum NegInf"
    and "is_finite (js_or_zero (acc_y acc))" and "is_finite (js_or_zero (JNum h))"
  shows "snd (motion_core (Fin n) h s acc) = Integrated
     \<and> \<not> is_finite (vx (velRef (fst (motion_core (Fin n) h s acc))))
     \<and> \<not> is_finite (vx (posRef (fst (motion_core (Fin n) h s acc))))
     \<and> pathRef (fst (motion_core (Fin n) h s acc))
         = pathRef s @ [posRef (fst (motion_core (Fin n) h s acc))]"
proof -
  let ?ax = "js_or_zero (acc_x acc)" and ?ay = "js_or_zero (acc_y acc)"
  have inf: "?ax = PosInf \<or> ?ax = NegInf" using assms(4) by auto
  obtain cx where cx: "vx (accelBiasRef s) = Fin cx"
    using assms(1) by (cases "vx (accelBiasRef s)") (auto simp: motion_finite_def vec_finite_def)
  have cnt: "stationary_count c ?ax ?ay = 0" for c
    using inf by (auto simp: stationary_count_def)
  have dz: "\<not> is_finite (deadzone (js_sub ?ax (vx (accelBiasRef s))))"
    using inf cx by (auto simp: deadzone_def js_sub_def)
  obtain q where q: "js_or_zero (JNum h) = Fin q" using assms(6) by (auto simp: is_finite_iff)
  have w: "\<not> is_finite (vx (rotate_world h (deadzone (js_sub ?ax (vx (accelBiasRef s))))
                                          (deadzone (js_sub ?ay (vy (accelBiasRef s))))))"
    using dz by (simp add: rotate_world_def Let_def js_add_nonfinite_left js_mul_nonfinite_left)
  show ?thesis
    using assms(2,3) w
    by (simp add: motion_core_accepted cnt integrate_def Let_def js_add_nonfinite_left
        js_add_nonfinite_right js_mul_nonfinite_left js_mul_nonfinite_right)
qed

theorem motion_infinite_accepted_witness:
  "snd (motion_core (Fin 20) (Fin 0) (motion_state_init\<lparr>lastTimestampRef := Some (Fin 0)\<rparr>)
      \<lparr>acc_x = JNum PosInf, acc_y = JNum (Fin 0), acc_z = JNum (Fin 0)\<rparr>) = Integrated
   \<and> \<not> is_finite (vx (posRef (fst (motion_core (Fin 20) (Fin 0)
        (motion_state_init\<lparr>lastTimestampRef := Some (Fin 0)\<rparr>)
        \<lparr>acc_x = JNum PosInf, acc_y = JNum (Fin 0), acc_z = JNum (Fin 0)\<rparr>))))"
  using motion_infinite_accepted [of "motion_state_init\<lparr>lastTimestampRef := Some (Fin 0)\<rparr>" 0 20
      "\<lparr>acc_x = JNum PosInf, acc_y = JNum (Fin 0), acc_z = JNum (Fin 0)\<rparr>" "Fin 0"]
  by (simp add: motion_finite_def motion_state_init_def vec_zero_def vec_finite_def)

text \<open>A non-finite position is never repaired by the integrator: once the x
  position is NaN or infinite, it stays non-finite after every further motion
  event, whatever its branch (only a path reset clears it).\<close>

theorem motion_position_poisoned:
  assumes "\<not> is_finite (vx (posRef s))"
  shows "\<not> is_finite (vx (posRef (ms_state (handleDeviceMotion perf h s ev))))"
proof (cases "ev_acceleration ev")
  case None
  with assms show ?thesis by (simp add: handleDeviceMotion_noacc)
next
  case (Some acc)
  with assms show ?thesis
    by (simp add: handleDeviceMotion_acc motion_core_def integrate_def Let_def
        js_add_nonfinite_left split: option.split)
qed

theorem motion_position_poisoned_witness:
  "\<not> is_finite (vx (posRef (ms_state (handleDeviceMotion (Fin 0) (Fin 0)
      (motion_state_init\<lparr>lastTimestampRef := Some (Fin 0), posRef := \<lparr>vx = PosInf, vy = NaN\<rparr>\<rparr>)
      \<lparr>ev_accelerationIncludingGravity = None, ev_rotationRate = None,
       ev_acceleration = Some \<lparr>acc_x = JNum (Fin 1), acc_y = JNum (Fin 0), acc_z = JNum (Fin 0)\<rparr>,
       ev_timeStamp = JNum (Fin 20)\<rparr>))))"
  using motion_position_poisoned [of
      "motion_state_init\<lparr>lastTimestampRef := Some (Fin 0), posRef := \<lparr>vx = PosInf, vy = NaN\<rparr>\<rparr>"]
  by simp

end
