(* ===== verification/MotionSpec.thy ===== *)
theory MotionSpec
  imports Motion
begin

text \<open>
  The motion integrator as the specification states it (section 4.2 of the
  design: stationary detection, bias learning, dead zone, rotation by the
  heading, damped velocity, semi-implicit position, path append), on real
  numbers, and the refinement of it by the code's \<open>motion_core\<close>. The
  abstraction \<open>abs_motion\<close> reads the refs of \<open>motion_state\<close> as reals. On
  every sample that is not rejected by the time-stamp guard, with finite
  readings, the code computes exactly the specified successor, once the
  direction of rotation is fixed: the code rotates by minus the heading, the
  clockwise compass convention.
\<close>

section \<open>Specification\<close>

record spec_motion =
  m_vel :: "real \<times> real"
  m_pos :: "real \<times> real"
  m_bias :: "real \<times> real"
  m_count :: nat
  m_last :: "real option"
  m_path :: "(real \<times> real) list"

definition spec_deadzone :: "real \<Rightarrow> real" where
  "spec_deadzone u = (if \<bar>u\<bar> \<le> 0.05 then 0 else u)"

text \<open>The standard rotation of the plane by the angle \<open>\<theta>\<close> (radians,
  counter-clockwise).\<close>

definition spec_rotate :: "real \<Rightarrow> real \<times> real \<Rightarrow> real \<times> real" where
  "spec_rotate \<theta> a = (fst a * cos \<theta> - snd a * sin \<theta>, fst a * sin \<theta> + snd a * cos \<theta>)"

text \<open>One motion sample with raw components \<open>ax\<close>, \<open>ay\<close> at time \<open>t\<close> (ms),
  rotated by \<open>\<theta>\<close>. The first sample seeds the baseline; a step under 1 ms is
  rejected (the specification still moves the baseline).\<close>

definition spec_update :: "real \<Rightarrow> real \<Rightarrow> real \<Rightarrow> real \<Rightarrow> spec_motion \<Rightarrow> spec_motion" where
  "spec_update \<theta> ax ay t st =
     (case m_last st of
        None \<Rightarrow> st\<lparr>m_last := Some t\<rparr>
      | Some t0 \<Rightarrow>
          (let dt = (t - t0) / 1000
           in if dt \<le> 0 \<or> dt < 0.001 then st\<lparr>m_last := Some t\<rparr>
              else
                (let c = (if sqrt (ax\<^sup>2 + ay\<^sup>2) < 0.12 then Suc (m_count st) else 0);
                     b = m_bias st;
                     st1 = st\<lparr>m_last := Some t, m_count := c\<rparr>
                 in if 6 \<le> c
                    then st1\<lparr>m_bias := (fst b + 0.2 * (ax - fst b), snd b + 0.2 * (ay - snd b)),
                             m_vel := (0, 0)\<rparr>
                    else
                      (let a = spec_rotate \<theta> (spec_deadzone (ax - fst b), spec_deadzone (ay - snd b));
                           v = ((fst (m_vel st) + fst a * dt) * exp (- dt),
                                (snd (m_vel st) + snd a * dt) * exp (- dt));
                           p = (fst (m_pos st) + fst v * dt, snd (m_pos st) + snd v * dt)
                       in st1\<lparr>m_vel := v, m_pos := p, m_path := m_path st @ [p]\<rparr>))))"

section \<open>Abstraction\<close>

definition abs_motion :: "motion_state \<Rightarrow> spec_motion" where
  "abs_motion s =
     \<lparr>m_vel = vec_real (velRef s), m_pos = vec_real (posRef s), m_bias = vec_real (accelBiasRef s),
      m_count = stationaryCountRef s, m_last = map_option fin_val (lastTimestampRef s),
      m_path = map vec_real (pathRef s)\<rparr>"

text \<open>The specification run over a stream of events: the sample an event
  carries (finite components and a finite time stamp), and the stream's
  acceptance condition: every event carries a sample, at least 1 ms after the
  previous one.\<close>

definition sample_of :: "motion_event \<Rightarrow> (real \<times> real \<times> real) option" where
  "sample_of e =
     (case (ev_acceleration e, ev_timeStamp e) of
        (Some acc, JNum (Fin t)) \<Rightarrow>
          (case (acc_x acc, acc_y acc) of
             (JNum (Fin ax), JNum (Fin ay)) \<Rightarrow> Some (ax, ay, t)
           | _ \<Rightarrow> None)
      | _ \<Rightarrow> None)"

fun spec_run :: "real \<Rightarrow> motion_event list \<Rightarrow> spec_motion \<Rightarrow> spec_motion" where
  "spec_run \<theta> [] st = st"
| "spec_run \<theta> (e # es) st =
     spec_run \<theta> es (case sample_of e of None \<Rightarrow> st | Some (ax, ay, t) \<Rightarrow> spec_update \<theta> ax ay t st)"

fun accepted_from :: "real option \<Rightarrow> motion_event list \<Rightarrow> bool" where
  "accepted_from prev [] = True"
| "accepted_from prev (e # es) =
     (case sample_of e of
        None \<Rightarrow> False
      | Some (ax, ay, t) \<Rightarrow>
          (case prev of None \<Rightarrow> True | Some t0 \<Rightarrow> 1 \<le> t - t0) \<and> accepted_from (Some t) es)"

section \<open>Lemmas\<close>

lemma deadzone_Fin: "deadzone (Fin u) = Fin (spec_deadzone u)"
  by (simp add: deadzone_def spec_deadzone_def)

lemma rotate_world_Fin:
  "rotate_world (Fin h) (Fin x) (Fin y) =
     (let r = spec_rotate (- (h * (pi / 180))) (x, y) in \<lparr>vx = Fin (fst r), vy = Fin (snd r)\<rparr>)"
  by (simp add: rotate_world_def spec_rotate_def)

lemma vec_finite_Fin: "vec_finite p \<Longrightarrow> p = \<lparr>vx = Fin (fst (vec_real p)), vy = Fin (snd (vec_real p))\<rparr>"
  by (cases "vx p"; cases "vy p") (simp_all add: vec_finite_def vec_real_def)

lemma motion_core_refines:
  assumes fin: "motion_finite s"
    and acc: "acc_x acc = JNum (Fin ax)" "acc_y acc = JNum (Fin ay)"
    and ok: "\<forall>t0. lastTimestampRef s = Some (Fin t0) \<longrightarrow> 0.001 \<le> (t - t0) / 1000"
  shows "abs_motion (fst (motion_core (Fin t) (Fin h) s acc)) =
           spec_update (- (h * (pi / 180))) ax ay t (abs_motion s)"
proof (cases "lastTimestampRef s")
  case None
  then show ?thesis by (simp add: motion_core_def spec_update_def abs_motion_def)
next
  case (Some l)
  with fin obtain t0 where l: "l = Fin t0" by (cases l) (auto simp: motion_finite_def)
  with ok Some have dt: "0.001 \<le> (t - t0) / 1000" by simp
  obtain vx0 vy0 px py bx by' where
    v: "velRef s = \<lparr>vx = Fin vx0, vy = Fin vy0\<rparr>" and p: "posRef s = \<lparr>vx = Fin px, vy = Fin py\<rparr>"
    and b: "accelBiasRef s = \<lparr>vx = Fin bx, vy = Fin by'\<rparr>"
    using fin vec_finite_Fin unfolding motion_finite_def by metis
  show ?thesis
    using Some l dt v p b acc
    by (simp add: motion_core_def spec_update_def abs_motion_def Let_def dt_rejected_def
        stationary_count_def learn_bias_def deadzone_Fin rotate_world_Fin integrate_def
        vec_real_def vec_zero_def spec_rotate_def) (simp add: field_simps)
qed

lemma sample_of_Some:
  "sample_of e = Some (ax, ay, t) \<Longrightarrow>
     \<exists>acc. ev_acceleration e = Some acc \<and> acc_x acc = JNum (Fin ax) \<and> acc_y acc = JNum (Fin ay)
       \<and> ev_timeStamp e = JNum (Fin t)"
  by (auto simp: sample_of_def split: option.splits jsval.splits jsnum.splits prod.splits)

lemma handleDeviceMotion_refines:
  assumes "motion_finite s" and "sample_of e = Some (ax, ay, t)"
    and "\<forall>l. lastTimestampRef s = Some l \<longrightarrow> 1 \<le> t - fin_val l"
  shows "abs_motion (ms_state (handleDeviceMotion perf (Fin h) s e)) =
           spec_update (- (h * (pi / 180))) ax ay t (abs_motion s)
         \<and> motion_finite (ms_state (handleDeviceMotion perf (Fin h) s e))"
proof -
  obtain acc where acc: "ev_acceleration e = Some acc" "acc_x acc = JNum (Fin ax)"
      "acc_y acc = JNum (Fin ay)" "ev_timeStamp e = JNum (Fin t)"
    using sample_of_Some [OF assms(2)] by blast
  have ok: "\<forall>t0. lastTimestampRef s = Some (Fin t0) \<longrightarrow> 0.001 \<le> (t - t0) / 1000"
    using assms(3) by auto
  show ?thesis
    using motion_core_refines [OF assms(1) acc(2,3) ok, where h = h]
      motion_core_finite [OF assms(1), of "Fin t" "Fin h" acc] acc
    by (simp add: handleDeviceMotion_acc)
qed

lemma fin_baseline:
  "motion_finite s \<Longrightarrow> map_option fin_val (lastTimestampRef s) = Some t \<Longrightarrow>
     lastTimestampRef s = Some (Fin t)"
  by (cases "lastTimestampRef s") (auto simp: motion_finite_def elim: is_finite.elims)

section \<open>Properties\<close>

text \<open>C5. Refinement: on a stream of samples that the time-stamp guard accepts
  (finite readings, each at least 1 ms after the one before), starting from a
  finite state, the code's integrator run and the specified integrator run
  agree on every field under the abstraction, with the heading h turned into
  the rotation angle -h pi/180.\<close>

theorem motion_run_refines:
  "motion_finite s \<Longrightarrow> accepted_from (map_option fin_val (lastTimestampRef s)) es \<Longrightarrow>
     abs_motion (motion_run perf (Fin h) s es) = spec_run (- (h * (pi / 180))) es (abs_motion s)"
proof (induction es arbitrary: s)
  case Nil
  then show ?case by simp
next
  case (Cons e es)
  then obtain ax ay t where smp: "sample_of e = Some (ax, ay, t)"
    and ok: "\<forall>l. lastTimestampRef s = Some l \<longrightarrow> 1 \<le> t - fin_val l"
    and rest: "accepted_from (Some t) es"
    by (auto split: option.splits)
  let ?s' = "ms_state (handleDeviceMotion perf (Fin h) s e)"
  have r: "abs_motion ?s' = spec_update (- (h * (pi / 180))) ax ay t (abs_motion s)"
    and f: "motion_finite ?s'"
    using handleDeviceMotion_refines [OF Cons.prems(1) smp ok] by auto
  have "m_last (spec_update (- (h * (pi / 180))) ax ay t (abs_motion s)) = Some t"
    using ok by (auto simp: spec_update_def abs_motion_def Let_def split: option.splits)
  with r have "m_last (abs_motion ?s') = Some t" by simp
  then have "map_option fin_val (lastTimestampRef ?s') = Some t"
    by (simp add: abs_motion_def)
  with rest have "accepted_from (map_option fin_val (lastTimestampRef ?s')) es" by metis
  from Cons.IH [OF f this] r smp show ?case by simp
qed

theorem motion_run_refines_witness:
  "motion_finite motion_state_init
   \<and> accepted_from None
       [\<lparr>ev_accelerationIncludingGravity = None, ev_rotationRate = None,
         ev_acceleration = Some \<lparr>acc_x = JNum (Fin 1), acc_y = JNum (Fin 0), acc_z = JNum (Fin 0)\<rparr>,
         ev_timeStamp = JNum (Fin 0)\<rparr>,
        \<lparr>ev_accelerationIncludingGravity = None, ev_rotationRate = None,
         ev_acceleration = Some \<lparr>acc_x = JNum (Fin 1), acc_y = JNum (Fin 0), acc_z = JNum (Fin 0)\<rparr>,
         ev_timeStamp = JNum (Fin 20)\<rparr>]
   \<and> abs_motion (motion_run (Fin 0) (Fin 0) motion_state_init
       [\<lparr>ev_accelerationIncludingGravity = None, ev_rotationRate = None,
         ev_acceleration = Some \<lparr>acc_x = JNum (Fin 1), acc_y = JNum (Fin 0), acc_z = JNum (Fin 0)\<rparr>,
         ev_timeStamp = JNum (Fin 0)\<rparr>,
        \<lparr>ev_accelerationIncludingGravity = None, ev_rotationRate = None,
         ev_acceleration = Some \<lparr>acc_x = JNum (Fin 1), acc_y = JNum (Fin 0), acc_z = JNum (Fin 0)\<rparr>,
         ev_timeStamp = JNum (Fin 20)\<rparr>])
     = spec_run (- (0 * (pi / 180)))
       [\<lparr>ev_accelerationIncludingGravity = None, ev_rotationRate = None,
         ev_acceleration = Some \<lparr>acc_x = JNum (Fin 1), acc_y = JNum (Fin 0), acc_z = JNum (Fin 0)\<rparr>,
         ev_timeStamp = JNum (Fin 0)\<rparr>,
        \<lparr>ev_accelerationIncludingGravity = None, ev_rotationRate = None,
         ev_acceleration = Some \<lparr>acc_x = JNum (Fin 1), acc_y = JNum (Fin 0), acc_z = JNum (Fin 0)\<rparr>,
         ev_timeStamp = JNum (Fin 20)\<rparr>] (abs_motion motion_state_init)"
proof -
  have f: "motion_finite motion_state_init"
    by (simp add: motion_finite_def motion_state_init_def vec_zero_def vec_finite_def)
  have a: "accepted_from (map_option fin_val (lastTimestampRef motion_state_init))
       [\<lparr>ev_accelerationIncludingGravity = None, ev_rotationRate = None,
         ev_acceleration = Some \<lparr>acc_x = JNum (Fin 1), acc_y = JNum (Fin 0), acc_z = JNum (Fin 0)\<rparr>,
         ev_timeStamp = JNum (Fin 0)\<rparr>,
        \<lparr>ev_accelerationIncludingGravity = None, ev_rotationRate = None,
         ev_acceleration = Some \<lparr>acc_x = JNum (Fin 1), acc_y = JNum (Fin 0), acc_z = JNum (Fin 0)\<rparr>,
         ev_timeStamp = JNum (Fin 20)\<rparr>]"
    by (simp add: motion_state_init_def sample_of_def)
  show ?thesis
    using f a motion_run_refines [OF f a, of "Fin 0" 0] by (simp add: motion_state_init_def)
qed

end
