(* ===== verification/Georef.thy ===== *)
theory Georef
  imports JS_Number "HOL-Library.Sublist"
begin

text \<open>
  The georeferencing correlator: the two effects of \<open>PathVisualizer\<close> in
  \<^verbatim>\<open>src/src/components/PathVisualizer.jsx\<close>. The first (lines 51--80)
  projects the dead-reckoning path, in metres, onto latitude and longitude,
  anchored at the current GPS fix with the flat-earth approximation; the second
  (lines 83--109) appends each new GPS fix to the ground-truth trace unless it
  lies within 0.5 m of a point already stored. The component's state is its
  React state (\<open>drPathCoords\<close>, \<open>gpsPathCoords\<close>, \<open>mapCenter\<close>,
  \<open>initialCenter\<close>); the GPS fix it reads is the \<open>gpsLocation\<close> object that
  \<open>DRModule\<close> sets in its \<open>watchPosition\<close> callback (DRModule.jsx 290--298).
\<close>

section \<open>Data\<close>

record gps_location =
  latitude :: jsnum
  longitude :: jsnum
  accuracy :: jsnum
  gps_timestamp :: jsnum

text \<open>A \<open>[lat, lon]\<close> pair.\<close>

type_synonym latlon = "jsnum \<times> jsnum"

text \<open>The state of \<open>PathVisualizer\<close> (lines 44--48). React compares state
  values by identity (\<open>Object.is\<close>), and every \<open>setInitialCenter\<close> call
  passes a new array (\<open>coords[0]\<close>), so the identity of \<open>initialCenter\<close>
  is kept as the number of calls so far, \<open>initialCenterId\<close>.\<close>

record visualizer_state =
  drPathCoords :: "latlon list"
  gpsPathCoords :: "latlon list"
  mapCenter :: latlon
  initialCenter :: "latlon option"
  initialCenterId :: nat

definition visualizer_init :: visualizer_state where
  "visualizer_init =
     \<lparr>drPathCoords = [], gpsPathCoords = [], mapCenter = (Fin 0, Fin 0), initialCenter = None,
      initialCenterId = 0\<rparr>"

section \<open>Operations\<close>

definition metersPerLatDegree :: jsnum where
  "metersPerLatDegree = Fin 111320"

definition metersPerLonDegree :: "jsnum \<Rightarrow> jsnum" where
  "metersPerLonDegree originLat =
     js_mul (Fin 111320) (js_cos (js_div (js_mul originLat (Fin pi)) (Fin 180)))"

text \<open>One path point, in metres east (x) and north (y) of the anchor
  (lines 67--71).\<close>

definition project_point :: "jsnum \<Rightarrow> jsnum \<Rightarrow> vec2 \<Rightarrow> latlon" where
  "project_point originLat originLon p =
     (js_add originLat (js_div (vy p) metersPerLatDegree),
      js_add originLon (js_div (vx p) (metersPerLonDegree originLat)))"

text \<open>The projected trace (lines 52--71): empty without a fix or with fewer than
  two path points.\<close>

definition project_path :: "gps_location option \<Rightarrow> vec2 list \<Rightarrow> latlon list" where
  "project_path gps path =
     (case gps of
        None \<Rightarrow> []
      | Some g \<Rightarrow>
          if length path < 2 then []
          else map (project_point (latitude g) (longitude g)) path)"

text \<open>The whole first effect (lines 51--80), including the one-time centring of
  the map on the first projected point.\<close>

definition dr_path_effect ::
  "gps_location option \<Rightarrow> vec2 list \<Rightarrow> visualizer_state \<Rightarrow> visualizer_state" where
  "dr_path_effect gps path vs =
     (if gps = None \<or> length path < 2 then vs\<lparr>drPathCoords := []\<rparr>
      else
        (let coords = project_path gps path
         in if initialCenter vs = None \<and> coords \<noteq> []
            then vs\<lparr>drPathCoords := coords, initialCenter := Some (hd coords),
                    initialCenterId := Suc (initialCenterId vs), mapCenter := hd coords\<rparr>
            else vs\<lparr>drPathCoords := coords\<rparr>))"

text \<open>The flat-earth distance in metres of the duplicate check (lines 91--99),
  scaled by the cosine of the stored point's latitude.\<close>

definition gps_distance :: "latlon \<Rightarrow> latlon \<Rightarrow> jsnum" where
  "gps_distance point newPoint =
     js_sqrt (js_add
       (js_sq (js_mul (js_sub (fst point) (fst newPoint)) (Fin 111320)))
       (js_sq (js_mul (js_mul (js_sub (snd point) (snd newPoint)) (Fin 111320))
                      (js_cos (js_div (js_mul (fst point) (Fin pi)) (Fin 180))))))"

definition is_duplicate :: "latlon list \<Rightarrow> latlon \<Rightarrow> bool" where
  "is_duplicate prev newPoint = list_ex (\<lambda>point. js_lt (gps_distance point newPoint) (Fin 0.5)) prev"

text \<open>The functional update passed to \<open>setGpsPathCoords\<close> (lines 88--105).\<close>

definition ingest_fix :: "latlon list \<Rightarrow> latlon \<Rightarrow> latlon list" where
  "ingest_fix prev newPoint = (if is_duplicate prev newPoint then prev else prev @ [newPoint])"

text \<open>The whole second effect (lines 83--109).\<close>

definition gps_path_effect :: "gps_location option \<Rightarrow> visualizer_state \<Rightarrow> visualizer_state" where
  "gps_path_effect gps vs =
     (case gps of
        None \<Rightarrow> vs
      | Some g \<Rightarrow>
          (let newPoint = (latitude g, longitude g)
           in vs\<lparr>gpsPathCoords := ingest_fix (gpsPathCoords vs) newPoint, mapCenter := newPoint\<rparr>))"

text \<open>The trace built from a sequence of fixes, each seen by its own run of the
  effect.\<close>

fun ingest_all :: "latlon list \<Rightarrow> latlon list \<Rightarrow> latlon list" where
  "ingest_all prev [] = prev"
| "ingest_all prev (p # ps) = ingest_all (ingest_fix prev p) ps"

section \<open>Specification\<close>

text \<open>Inverse of the projection: back from degrees to metres around the anchor.\<close>

definition unproject :: "real \<Rightarrow> real \<Rightarrow> real \<times> real \<Rightarrow> real \<times> real" where
  "unproject lat0 lon0 ll =
     ((snd ll - lon0) * (111320 * cos (lat0 * pi / 180)), (fst ll - lat0) * 111320)"

definition ll_real :: "latlon \<Rightarrow> real \<times> real" where
  "ll_real ll = (fin_val (fst ll), fin_val (snd ll))"



section \<open>Lemmas\<close>

lemma project_point_Fin:
  assumes "cos (lat0 * pi / 180) \<noteq> 0"
  shows "project_point (Fin lat0) (Fin lon0) \<lparr>vx = Fin x, vy = Fin y\<rparr> =
           (Fin (lat0 + y / 111320), Fin (lon0 + x / (111320 * cos (lat0 * pi / 180))))"
  using assms by (simp add: project_point_def metersPerLatDegree_def metersPerLonDegree_def)

lemma unproject_project_point:
  assumes "cos (lat0 * pi / 180) \<noteq> 0" and "vec_finite p"
  shows "unproject lat0 lon0 (ll_real (project_point (Fin lat0) (Fin lon0) p)) = vec_real p
       \<and> is_finite (fst (project_point (Fin lat0) (Fin lon0) p))
       \<and> is_finite (snd (project_point (Fin lat0) (Fin lon0) p))"
proof -
  obtain x y where p: "p = \<lparr>vx = Fin x, vy = Fin y\<rparr>"
    using assms(2) by (cases p) (auto simp: vec_finite_def is_finite_iff)
  show ?thesis
    using assms(1) by (simp add: p project_point_Fin unproject_def ll_real_def vec_real_def)
qed








section \<open>Properties\<close>

text \<open>C7. Projection round trip: with a finite anchor away from the poles
  (cos of its latitude non-zero) and a path of at least two finite points, every
  projected point is finite, and converting it back to metres around the anchor
  with the same flat-earth scale factors gives the original path point.\<close>

theorem project_roundtrip:
  assumes "latitude g = Fin lat0" and "longitude g = Fin lon0"
    and "cos (lat0 * pi / 180) \<noteq> 0" and "2 \<le> length path" and "list_all vec_finite path"
  shows "map (unproject lat0 lon0 \<circ> ll_real) (project_path (Some g) path) = map vec_real path
       \<and> list_all (\<lambda>ll. is_finite (fst ll) \<and> is_finite (snd ll)) (project_path (Some g) path)"
  using assms unproject_project_point [OF assms(3)]
  by (auto simp: project_path_def list_all_iff)

theorem project_roundtrip_witness:
  "map (unproject 0 0 \<circ> ll_real)
     (project_path (Some \<lparr>latitude = Fin 0, longitude = Fin 0, accuracy = Fin 5, gps_timestamp = Fin 0\<rparr>)
        [vec_zero, \<lparr>vx = Fin 3, vy = Fin 4\<rparr>]) = map vec_real [vec_zero, \<lparr>vx = Fin 3, vy = Fin 4\<rparr>]
   \<and> list_all (\<lambda>ll. is_finite (fst ll) \<and> is_finite (snd ll))
       (project_path (Some \<lparr>latitude = Fin 0, longitude = Fin 0, accuracy = Fin 5, gps_timestamp = Fin 0\<rparr>)
          [vec_zero, \<lparr>vx = Fin 3, vy = Fin 4\<rparr>])"
  using project_roundtrip [of "\<lparr>latitude = Fin 0, longitude = Fin 0, accuracy = Fin 5, gps_timestamp = Fin 0\<rparr>"
      0 0 "[vec_zero, \<lparr>vx = Fin 3, vy = Fin 4\<rparr>]"]
  by (simp add: vec_finite_def vec_zero_def)


text \<open>Projection example: anchored at (0, 0), the dead-reckoning origin
  projects onto the anchor and a point 111320 m north projects onto latitude 1,
  longitude 0.\<close>

theorem project_example:
  "project_path (Some \<lparr>latitude = Fin 0, longitude = Fin 0, accuracy = Fin 5, gps_timestamp = Fin 0\<rparr>)
     [vec_zero, \<lparr>vx = Fin 0, vy = Fin 111320\<rparr>] = [(Fin 0, Fin 0), (Fin 1, Fin 0)]"
  by (simp add: project_path_def project_point_def metersPerLatDegree_def metersPerLonDegree_def
      vec_zero_def)

text \<open>Duplicate suppression by distance: a second fix 0.4 m north of the
  first is dropped, one 1 m north is kept.\<close>

theorem gps_dedup_example:
  "ingest_all [] [(Fin 0, Fin 0), (Fin (1 / 278300), Fin 0)] = [(Fin 0, Fin 0)]
   \<and> ingest_all [] [(Fin 0, Fin 0), (Fin (1 / 111320), Fin 0)]
       = [(Fin 0, Fin 0), (Fin (1 / 111320), Fin 0)]"
proof -
  have a: "sqrt (4 / 25) = (2 / 5 :: real)" by (rule real_sqrt_unique) (simp_all add: power2_eq_square)
  show ?thesis
    by (simp add: ingest_fix_def is_duplicate_def gps_distance_def js_sq_def js_sub_def a)
qed

text \<open>The trace suppresses revisits, not only adjacent duplicates: a fix
  back at the first point, after a fix about 10 m away, is dropped, so the trace
  loses the return leg of a loop.\<close>

theorem gps_revisit_dropped:
  "ingest_all [] [(Fin 0, Fin 0), (Fin (1 / 11132), Fin 0), (Fin 0, Fin 0)]
     = [(Fin 0, Fin 0), (Fin (1 / 11132), Fin 0)]"
proof -
  have a: "sqrt ((10::real)\<^sup>2) = 10" by simp
  show ?thesis
    by (simp add: ingest_fix_def is_duplicate_def gps_distance_def js_sq_def js_sub_def a)
qed

end
