(* ===== verification/Session.thy ===== *)
theory Session
  imports Heading Motion Georef
begin

text \<open>
  The session: the \<open>DRModule\<close> component of
  \<^verbatim>\<open>src/src/components/DRModule.jsx\<close> as a whole (lines 10--334), with its
  child \<open>PathVisualizer\<close>. Its state is the React state (lines 12--29), the refs
  (lines 24, 31--39), the browser resources it holds (the two window listeners
  and the geolocation watch), the pending calibration timers, the pending
  permission requests, and the child's state. Every way the state changes is one
  event:
  \<^item> the browser dispatching a \<open>deviceorientation\<close> or \<open>devicemotion\<close> event to
    the listeners, or a fix or an error to the geolocation watch;
  \<^item> the user pressing Start (the synchronous part of \<open>startMonitoring\<close>), the
    permission prompts resolving (its part after the \<open>await\<close>s), Stop, or
    Reset Path (\<open>clearPath\<close>);
  \<^item> React committing a render: the effects of lines 42--53 copy the state into
    the refs, the effect of lines 282--334 starts or clears the watch when
    \<open>isMonitoring\<close> changed, and the child's effects recompute its traces;
  \<^item> a calibration timer expiring, time passing, and the component unmounting.
  \<open>session_step\<close> gives the successor state of an event, or \<open>None\<close> when the
  event cannot happen in that state (no listener, no watch, no pending request
  or timer).
\<close>

section \<open>Data\<close>

datatype permission = NoPrompt | Granted | Denied | Throws string

datatype gps_error_code = PERMISSION_DENIED | POSITION_UNAVAILABLE | TIMEOUT | UnknownCode

record dr_session =
  accelerometerData :: "accel_reading option"
  gyroscopeData :: "gyro_data option"
  velocity :: vec2
  position :: vec2
  path :: "vec2 list"
  heading :: jsnum
  gpsLocation :: "gps_location option"
  gpsError :: "string option"
  isMonitoring :: bool
  errorMsg :: "string option"
  isCalibrating :: bool
  dr :: motion_state
  headingRef :: jsnum
  compassFilterRef :: compass_filter
  listening :: bool
  watching :: bool
  committedMonitoring :: bool
  geolocationAvailable :: bool
  pendingStarts :: nat
  timers :: "real list"
  clock :: real
  gpsSeq :: nat
  vis :: visualizer_state
  visSeenSeq :: nat
  mounted :: bool

definition dr_session_init :: "bool \<Rightarrow> dr_session" where
  "dr_session_init geo =
     \<lparr>accelerometerData = None, gyroscopeData = None, velocity = vec_zero, position = vec_zero,
      path = [vec_zero], heading = Fin 0, gpsLocation = None, gpsError = None,
      isMonitoring = False, errorMsg = None, isCalibrating = False,
      dr = motion_state_init, headingRef = Fin 0, compassFilterRef = compass_filter_init,
      listening = False, watching = False, committedMonitoring = False,
      geolocationAvailable = geo, pendingStarts = 0, timers = [], clock = 0,
      gpsSeq = 0, vis = visualizer_init, visSeenSeq = 0, mounted = True\<rparr>"

datatype session_event =
    Orientation "jsval option" orientation_event
  | Motion jsnum motion_event
  | StartClick
  | StartResolve permission permission
  | StopClick
  | ClearPath
  | GpsSuccess gps_location
  | GpsFailure gps_error_code
  | Commit
  | TimerFire
  | Advance real
  | Unmount

section \<open>Operations\<close>

text \<open>The orientation listener (lines 56--121): the handler runs on the refs;
  an interference jump sets \<open>isCalibrating\<close> and schedules the 2000 ms timer
  that clears it.\<close>

definition on_orientation :: "jsval option \<Rightarrow> orientation_event \<Rightarrow> dr_session \<Rightarrow> dr_session" where
  "on_orientation screen ev s =
     (case handleDeviceOrientation screen (headingRef s) (compassFilterRef s) ev of
        None \<Rightarrow> s
      | Some r \<Rightarrow>
          s\<lparr>compassFilterRef := or_filter r,
            isCalibrating := (if or_calibrate r then True else isCalibrating s),
            timers := (if or_calibrate r then timers s @ [clock s + 2000] else timers s),
            heading := or_heading r\<rparr>)"

text \<open>The motion listener (lines 124--212), with the \<open>setState\<close> calls of each
  branch.\<close>

definition on_motion :: "jsnum \<Rightarrow> motion_event \<Rightarrow> dr_session \<Rightarrow> dr_session" where
  "on_motion perfNow ev s =
     (let r = handleDeviceMotion perfNow (headingRef s) (dr s) ev;
          s1 = s\<lparr>accelerometerData := (case ms_accelerometer r of None \<Rightarrow> accelerometerData s | a \<Rightarrow> a),
                 gyroscopeData := (case ms_gyroscope r of None \<Rightarrow> gyroscopeData s | g \<Rightarrow> g),
                 dr := ms_state r\<rparr>
      in case ms_outcome r of
           Stationary \<Rightarrow> s1\<lparr>velocity := velRef (ms_state r)\<rparr>
         | Integrated \<Rightarrow> s1\<lparr>velocity := velRef (ms_state r), position := posRef (ms_state r),
                           path := pathRef (ms_state r)\<rparr>
         | _ \<Rightarrow> s1)"

text \<open>\<open>startMonitoring\<close> up to its first \<open>await\<close> (lines 215--217).\<close>

definition start_click :: "dr_session \<Rightarrow> dr_session" where
  "start_click s =
     s\<lparr>errorMsg := None, dr := (dr s)\<lparr>lastTimestampRef := None\<rparr>, pendingStarts := Suc (pendingStarts s)\<rparr>"

text \<open>The rest of \<open>startMonitoring\<close> once the permission prompts resolve
  (lines 218--251). \<open>NoPrompt\<close> is a browser without \<open>requestPermission\<close>;
  \<open>Throws m\<close> a rejected promise with message \<open>m\<close>, caught on line 248; the
  orientation prompt is only shown after the motion prompt resolved.\<close>

definition permission_denied_msg :: string where
  "permission_denied_msg = ''Permission to access one or more sensors was denied.''"

definition start_error_msg :: "string \<Rightarrow> string" where
  "start_error_msg m = ''Error starting sensor monitoring: '' @ m"

fun granted :: "permission \<Rightarrow> bool" where
  "granted NoPrompt = True"
| "granted Granted = True"
| "granted _ = False"

definition start_resolve :: "permission \<Rightarrow> permission \<Rightarrow> dr_session \<Rightarrow> dr_session" where
  "start_resolve motionPerm orientationPerm s =
     (let s0 = s\<lparr>pendingStarts := pendingStarts s - 1\<rparr>
      in case motionPerm of
           Throws m \<Rightarrow> s0\<lparr>errorMsg := Some (start_error_msg m)\<rparr>
         | _ \<Rightarrow>
             (case orientationPerm of
                Throws m \<Rightarrow> s0\<lparr>errorMsg := Some (start_error_msg m)\<rparr>
              | _ \<Rightarrow>
                  if granted motionPerm \<and> granted orientationPerm
                  then s0\<lparr>listening := True, isMonitoring := True\<rparr>
                  else s0\<lparr>errorMsg := Some permission_denied_msg\<rparr>))"

text \<open>\<open>stopMonitoring\<close> (lines 255--260) and \<open>clearPath\<close> (lines 263--268).\<close>

definition stop_monitoring :: "dr_session \<Rightarrow> dr_session" where
  "stop_monitoring s =
     s\<lparr>listening := False, isMonitoring := False, dr := (dr s)\<lparr>lastTimestampRef := None\<rparr>\<rparr>"

definition clear_path :: "dr_session \<Rightarrow> dr_session" where
  "clear_path s =
     s\<lparr>velocity := vec_zero, position := vec_zero, path := [vec_zero],
       dr := (dr s)\<lparr>lastTimestampRef := None\<rparr>\<rparr>"

text \<open>The geolocation callbacks (lines 290--316). Each fix is a new object, so
  it is numbered: the child's GPS effect runs once per number.\<close>

definition gps_success :: "gps_location \<Rightarrow> dr_session \<Rightarrow> dr_session" where
  "gps_success g s = s\<lparr>gpsLocation := Some g, gpsError := None, gpsSeq := Suc (gpsSeq s)\<rparr>"

fun gps_error_text :: "gps_error_code \<Rightarrow> string" where
  "gps_error_text PERMISSION_DENIED = ''User denied GPS access''"
| "gps_error_text POSITION_UNAVAILABLE = ''Location unavailable''"
| "gps_error_text TIMEOUT = ''Request timeout''"
| "gps_error_text UnknownCode = ''Unknown error''"

definition gps_failure :: "gps_error_code \<Rightarrow> dr_session \<Rightarrow> dr_session" where
  "gps_failure c s = s\<lparr>gpsError := Some (''GPS error: '' @ gps_error_text c)\<rparr>"

text \<open>The effects of a render commit. The ref mirrors (lines 42--53) copy the
  state into the refs.\<close>

definition sync_refs :: "dr_session \<Rightarrow> dr_session" where
  "sync_refs s =
     s\<lparr>dr := (dr s)\<lparr>velRef := velocity s, posRef := position s, pathRef := path s\<rparr>,
       headingRef := heading s\<rparr>"

text \<open>The GPS watch effect (lines 282--334) runs when \<open>isMonitoring\<close> changed
  since the last render: its cleanup clears the old watch, and the body starts a
  new one when monitoring and \<open>"geolocation" in navigator\<close>.\<close>

definition watch_effect :: "dr_session \<Rightarrow> dr_session" where
  "watch_effect s =
     (if isMonitoring s \<noteq> committedMonitoring s
      then s\<lparr>watching := (isMonitoring s \<and> geolocationAvailable s),
             committedMonitoring := isMonitoring s\<rparr>
      else s)"

text \<open>The child's two effects (PathVisualizer.jsx 51--109): the path effect
  on every render (its dependencies change whenever the path or the fix does),
  the GPS one only for a fix it has not seen.\<close>

definition child_effects :: "dr_session \<Rightarrow> dr_session" where
  "child_effects s =
     (let s1 = s\<lparr>vis := dr_path_effect (gpsLocation s) (path s) (vis s)\<rparr>
      in if gpsSeq s1 \<noteq> visSeenSeq s1
         then s1\<lparr>vis := gps_path_effect (gpsLocation s1) (vis s1), visSeenSeq := gpsSeq s1\<rparr>
         else s1)"

text \<open>A render commit runs the parent's effects, then the child's.\<close>

definition commit :: "dr_session \<Rightarrow> dr_session" where
  "commit s = child_effects (watch_effect (sync_refs s))"

text \<open>The \<open>setTimeout\<close> callback of line 116, for the earliest pending timer,
  and time passing up to the next deadline.\<close>

definition timer_fire :: "dr_session \<Rightarrow> dr_session" where
  "timer_fire s =
     s\<lparr>clock := max (clock s) (hd (timers s)), timers := tl (timers s), isCalibrating := False\<rparr>"

definition advance :: "real \<Rightarrow> dr_session \<Rightarrow> dr_session" where
  "advance d s = s\<lparr>clock := clock s + d\<rparr>"

text \<open>The unmount cleanup (lines 271--279).\<close>

definition unmount :: "dr_session \<Rightarrow> dr_session" where
  "unmount s = s\<lparr>listening := False, watching := False, mounted := False\<rparr>"

text \<open>After unmount React discards state updates: a handler, a timer or a
  resolved promise still runs and still changes refs, timers and window
  listeners, but its \<open>setState\<close> calls have no effect.\<close>

definition react_update :: "dr_session \<Rightarrow> dr_session \<Rightarrow> dr_session" where
  "react_update s t =
     (if mounted s then t
      else t\<lparr>accelerometerData := accelerometerData s, gyroscopeData := gyroscopeData s,
             velocity := velocity s, position := position s, path := path s, heading := heading s,
             gpsLocation := gpsLocation s, gpsError := gpsError s, isMonitoring := isMonitoring s,
             errorMsg := errorMsg s, isCalibrating := isCalibrating s\<rparr>)"

text \<open>One event. The Start/Stop button calls \<open>startMonitoring\<close> or
  \<open>stopMonitoring\<close> by the \<open>isMonitoring\<close> of the last render (line 368); the
  buttons, renders and the unmount exist only while the component is mounted,
  the listeners, the timers and the pending permission prompts also after.\<close>

fun session_step :: "dr_session \<Rightarrow> session_event \<Rightarrow> dr_session option" where
  "session_step s (Orientation screen ev) =
     (if listening s then Some (react_update s (on_orientation screen ev s)) else None)"
| "session_step s (Motion perfNow ev) =
     (if listening s then Some (react_update s (on_motion perfNow ev s)) else None)"
| "session_step s StartClick =
     (if mounted s \<and> \<not> committedMonitoring s then Some (start_click s) else None)"
| "session_step s (StartResolve pm po) =
     (if 0 < pendingStarts s then Some (react_update s (start_resolve pm po s)) else None)"
| "session_step s StopClick =
     (if mounted s \<and> committedMonitoring s then Some (stop_monitoring s) else None)"
| "session_step s ClearPath = (if mounted s then Some (clear_path s) else None)"
| "session_step s (GpsSuccess g) = (if watching s then Some (gps_success g s) else None)"
| "session_step s (GpsFailure c) = (if watching s then Some (gps_failure c s) else None)"
| "session_step s Commit = (if mounted s then Some (commit s) else None)"
| "session_step s TimerFire =
     (if timers s \<noteq> [] then Some (react_update s (timer_fire s)) else None)"
| "session_step s (Advance d) =
     (if 0 \<le> d \<and> list_all (\<lambda>t. clock s + d \<le> t) (timers s) then Some (advance d s) else None)"
| "session_step s Unmount = (if mounted s then Some (unmount s) else None)"

fun session_run :: "dr_session \<Rightarrow> session_event list \<Rightarrow> dr_session option" where
  "session_run s [] = Some s"
| "session_run s (e # es) = (case session_step s e of None \<Rightarrow> None | Some t \<Rightarrow> session_run t es)"

inductive reachable :: "dr_session \<Rightarrow> bool" where
  init: "reachable (dr_session_init geo)"
| step: "reachable s \<Longrightarrow> session_step s e = Some t \<Longrightarrow> reachable t"

text \<open>The sessions reachable when the browser only delivers events satisfying
  \<open>P\<close> (for instance, well-formed sensor readings).\<close>

inductive reachable_in :: "(session_event \<Rightarrow> bool) \<Rightarrow> dr_session \<Rightarrow> bool" for P where
  init: "reachable_in P (dr_session_init geo)"
| step: "reachable_in P s \<Longrightarrow> P e \<Longrightarrow> session_step s e = Some t \<Longrightarrow> reachable_in P t"

section \<open>Invariant\<close>

text \<open>What every reachable session keeps: the displayed path and its ref are
  never empty and start at the origin; while mounted, the calibrating flag is
  only on while a timer is pending; the pending deadlines are sorted and lie
  within 2000 ms ahead of the clock; while mounted, listeners are attached only
  while \<open>isMonitoring\<close>; a geolocation watch runs only in a mounted component
  whose last render was monitoring.\<close>

definition path_ok :: "vec2 list \<Rightarrow> bool" where
  "path_ok p = (p \<noteq> [] \<and> hd p = vec_zero)"

definition timers_ok :: "dr_session \<Rightarrow> bool" where
  "timers_ok s =
     ((mounted s \<and> isCalibrating s \<longrightarrow> timers s \<noteq> []) \<and> sorted (timers s)
      \<and> list_all (\<lambda>t. clock s \<le> t \<and> t \<le> clock s + 2000) (timers s))"

definition session_inv :: "dr_session \<Rightarrow> bool" where
  "session_inv s =
     (path_ok (path s) \<and> path_ok (pathRef (dr s)) \<and> timers_ok s
      \<and> (listening s \<and> mounted s \<longrightarrow> isMonitoring s)
      \<and> (watching s \<longrightarrow> committedMonitoring s \<and> mounted s))"

fun is_motion :: "session_event \<Rightarrow> bool" where
  "is_motion (Motion _ _) = True"
| "is_motion _ = False"

section \<open>Example inputs\<close>

text \<open>Events used by the concrete runs below: a level motion sample along the
  device's x axis at time t (ms), a level compass reading, a GPS fix, and the
  Start button with both permissions available and the render that follows.\<close>

abbreviation motion_sample :: "real \<Rightarrow> real \<Rightarrow> motion_event" where
  "motion_sample t a \<equiv>
     \<lparr>ev_accelerationIncludingGravity = None, ev_rotationRate = None,
      ev_acceleration = Some \<lparr>acc_x = JNum (Fin a), acc_y = JNum (Fin 0), acc_z = JNum (Fin 0)\<rparr>,
      ev_timeStamp = JNum (Fin t)\<rparr>"

abbreviation motion_at :: "real \<Rightarrow> real \<Rightarrow> session_event" where
  "motion_at t a \<equiv> Motion (Fin t) (motion_sample t a)"

abbreviation turn_to :: "real \<Rightarrow> session_event" where
  "turn_to a \<equiv> Orientation None
     \<lparr>ev_alpha = JNum (Fin a), ev_beta = JNum (Fin 0), ev_gamma = JNum (Fin 0),
      ev_webkitCompassHeading = JUndefined\<rparr>"

abbreviation fix_at :: "real \<Rightarrow> real \<Rightarrow> session_event" where
  "fix_at lat lon \<equiv> GpsSuccess
     \<lparr>latitude = Fin lat, longitude = Fin lon, accuracy = Fin 5, gps_timestamp = Fin 0\<rparr>"

abbreviation start_events :: "session_event list" where
  "start_events \<equiv> [StartClick, StartResolve NoPrompt NoPrompt, Commit]"

section \<open>Lemmas\<close>

lemmas commit_defs = commit_def sync_refs_def watch_effect_def child_effects_def

lemmas session_eval = dr_session_init_def start_click_def start_resolve_def commit_defs
  on_orientation_def on_motion_def advance_def timer_fire_def stop_monitoring_def clear_path_def
  gps_success_def gps_failure_def unmount_def handleDeviceOrientation_level low_pass_def react_update_def
  compass_filter_init_def interference_def Let_def

lemmas motion_eval = handleDeviceMotion_acc motion_core_def motion_state_init_def vec_zero_def
  integrate_def

lemma path_ok_snoc: "path_ok p \<Longrightarrow> path_ok (p @ [x])"
  by (simp add: path_ok_def)

lemma mounted_ops [simp]:
  "mounted (on_orientation screen oe s) = mounted s" "mounted (on_motion p me s) = mounted s"
  "mounted (start_resolve pm po s) = mounted s" "mounted (timer_fire s) = mounted s"
  by (simp_all add: on_orientation_def on_motion_def start_resolve_def timer_fire_def Let_def
      split: option.split motion_outcome.split permission.split)

lemma inv_init: "session_inv (dr_session_init geo)"
  by (simp add: session_inv_def dr_session_init_def path_ok_def timers_ok_def motion_state_init_def)

lemma on_orientation_cases:
  "on_orientation screen ev s = s \<or>
   (\<exists>cf h c. on_orientation screen ev s =
      s\<lparr>compassFilterRef := cf, isCalibrating := (if c then True else isCalibrating s),
        timers := (if c then timers s @ [clock s + 2000] else timers s), heading := h\<rparr>)"
  by (auto simp: on_orientation_def split: option.splits)

lemma inv_on_orientation: "session_inv s \<Longrightarrow> session_inv (on_orientation screen ev s)"
  using on_orientation_cases [of screen ev s]
  by (auto simp: session_inv_def timers_ok_def sorted_append list_all_iff split: if_splits)

lemma on_motion_parts:
  "path (on_motion p ev s) = path s \<or> path (on_motion p ev s) = pathRef (dr (on_motion p ev s))"
  "pathRef (dr (on_motion p ev s)) = pathRef (ms_state (handleDeviceMotion p (headingRef s) (dr s) ev))"
  "listening (on_motion p ev s) = listening s" "isMonitoring (on_motion p ev s) = isMonitoring s"
  "watching (on_motion p ev s) = watching s" "committedMonitoring (on_motion p ev s) = committedMonitoring s"
  "isCalibrating (on_motion p ev s) = isCalibrating s" "timers (on_motion p ev s) = timers s"
  "clock (on_motion p ev s) = clock s" "mounted (on_motion p ev s) = mounted s"
  by (auto simp: on_motion_def Let_def split: motion_outcome.splits)

lemma on_motion_fields:
  "dr (on_motion p ev s) = ms_state (handleDeviceMotion p (headingRef s) (dr s) ev)"
  "velocity (on_motion p ev s) =
     (if ms_outcome (handleDeviceMotion p (headingRef s) (dr s) ev) \<in> {Stationary, Integrated}
      then velRef (ms_state (handleDeviceMotion p (headingRef s) (dr s) ev)) else velocity s)"
  "position (on_motion p ev s) =
     (if ms_outcome (handleDeviceMotion p (headingRef s) (dr s) ev) = Integrated
      then posRef (ms_state (handleDeviceMotion p (headingRef s) (dr s) ev)) else position s)"
  "path (on_motion p ev s) =
     (if ms_outcome (handleDeviceMotion p (headingRef s) (dr s) ev) = Integrated
      then pathRef (ms_state (handleDeviceMotion p (headingRef s) (dr s) ev)) else path s)"
  by (simp_all add: on_motion_def Let_def split: motion_outcome.split)

lemma inv_on_motion: "session_inv s \<Longrightarrow> session_inv (on_motion p ev s)"
proof -
  assume inv: "session_inv s"
  let ?r = "handleDeviceMotion p (headingRef s) (dr s) ev"
  have ref: "path_ok (pathRef (ms_state ?r))"
    using inv handleDeviceMotion_path [of p "headingRef s" "dr s" ev]
    by (auto simp: session_inv_def intro: path_ok_snoc split: if_splits)
  then have "path_ok (path (on_motion p ev s))"
    using inv on_motion_parts(1,2) [of p ev s] by (auto simp: session_inv_def)
  with ref inv show ?thesis
    by (simp add: session_inv_def on_motion_parts timers_ok_def)
qed

lemma inv_commit: "session_inv s \<Longrightarrow> mounted s \<Longrightarrow> session_inv (commit s)"
  by (auto simp: session_inv_def commit_defs Let_def timers_ok_def)

lemma inv_timer_fire: "session_inv s \<Longrightarrow> timers s \<noteq> [] \<Longrightarrow> session_inv (timer_fire s)"
proof -
  assume inv: "session_inv s" and ne: "timers s \<noteq> []"
  then obtain t0 ts where ts: "timers s = t0 # ts" by (cases "timers s") auto
  with inv have "sorted (t0 # ts)" "list_all (\<lambda>t. clock s \<le> t \<and> t \<le> clock s + 2000) (t0 # ts)"
    by (simp_all add: session_inv_def timers_ok_def)
  then have "sorted ts" "list_all (\<lambda>t. max (clock s) t0 \<le> t \<and> t \<le> max (clock s) t0 + 2000) ts"
    by (auto simp: list_all_iff)
  with inv ts show ?thesis
    by (simp add: session_inv_def timers_ok_def timer_fire_def)
qed

lemma inv_advance:
  "session_inv s \<Longrightarrow> 0 \<le> d \<Longrightarrow> list_all (\<lambda>t. clock s + d \<le> t) (timers s) \<Longrightarrow>
   session_inv (advance d s)"
  by (auto simp: session_inv_def timers_ok_def advance_def list_all_iff)

lemma inv_start_resolve: "session_inv s \<Longrightarrow> session_inv (start_resolve pm po s)"
  by (auto simp: start_resolve_def Let_def session_inv_def timers_ok_def split: permission.split)

text \<open>Discarding the state updates of an unmounted component keeps the
  invariant.\<close>

lemma inv_react_update:
  "session_inv s \<Longrightarrow> session_inv t \<Longrightarrow> mounted t = mounted s \<Longrightarrow> session_inv (react_update s t)"
  by (auto simp: react_update_def session_inv_def timers_ok_def)

lemma session_step_inv: "session_inv s \<Longrightarrow> session_step s e = Some t \<Longrightarrow> session_inv t"
proof (cases e)
  case (Orientation screen ev)
  then show "session_inv s \<Longrightarrow> session_step s e = Some t \<Longrightarrow> session_inv t"
    by (auto intro!: inv_react_update inv_on_orientation split: if_splits)
next
  case (Motion p ev)
  then show "session_inv s \<Longrightarrow> session_step s e = Some t \<Longrightarrow> session_inv t"
    by (auto intro!: inv_react_update inv_on_motion split: if_splits)
next
  case StartClick
  then show "session_inv s \<Longrightarrow> session_step s e = Some t \<Longrightarrow> session_inv t"
    by (auto simp: start_click_def session_inv_def timers_ok_def split: if_splits)
next
  case (StartResolve pm po)
  then show "session_inv s \<Longrightarrow> session_step s e = Some t \<Longrightarrow> session_inv t"
    by (auto intro!: inv_react_update inv_start_resolve split: if_splits)
next
  case StopClick
  then show "session_inv s \<Longrightarrow> session_step s e = Some t \<Longrightarrow> session_inv t"
    by (auto simp: stop_monitoring_def session_inv_def timers_ok_def split: if_splits)
next
  case ClearPath
  then show "session_inv s \<Longrightarrow> session_step s e = Some t \<Longrightarrow> session_inv t"
    by (auto simp: clear_path_def session_inv_def timers_ok_def path_ok_def split: if_splits)
next
  case (GpsSuccess g)
  then show "session_inv s \<Longrightarrow> session_step s e = Some t \<Longrightarrow> session_inv t"
    by (auto simp: gps_success_def session_inv_def timers_ok_def split: if_splits)
next
  case (GpsFailure c)
  then show "session_inv s \<Longrightarrow> session_step s e = Some t \<Longrightarrow> session_inv t"
    by (auto simp: gps_failure_def session_inv_def timers_ok_def split: if_splits)
next
  case Commit
  then show "session_inv s \<Longrightarrow> session_step s e = Some t \<Longrightarrow> session_inv t"
    by (auto intro: inv_commit split: if_splits)
next
  case TimerFire
  then show "session_inv s \<Longrightarrow> session_step s e = Some t \<Longrightarrow> session_inv t"
    by (auto intro!: inv_react_update inv_timer_fire split: if_splits)
next
  case (Advance d)
  then show "session_inv s \<Longrightarrow> session_step s e = Some t \<Longrightarrow> session_inv t"
    by (auto simp: inv_advance split: if_splits)
next
  case Unmount
  then show "session_inv s \<Longrightarrow> session_step s e = Some t \<Longrightarrow> session_inv t"
    by (auto simp: unmount_def session_inv_def timers_ok_def split: if_splits)
qed

text \<open>Invariant rules: a property of the initial sessions that every
  (admitted) step preserves holds in every reachable session.\<close>

lemma reachable_invariant:
  assumes "reachable s" and "\<And>geo. I (dr_session_init geo)"
    and "\<And>s e t. I s \<Longrightarrow> session_step s e = Some t \<Longrightarrow> I t"
  shows "I s"
  using assms(1) by induction (auto intro: assms(2,3))

lemma reachable_in_invariant:
  assumes "reachable_in P s" and "\<And>geo. I (dr_session_init geo)"
    and "\<And>s e t. I s \<Longrightarrow> P e \<Longrightarrow> session_step s e = Some t \<Longrightarrow> I t"
  shows "I s"
  using assms(1) by induction (auto intro: assms(2,3))

lemma reachable_in_reachable: "reachable_in P s \<Longrightarrow> reachable s"
  by (induction rule: reachable_in.induct) (auto intro: reachable.intros)

lemma reachable_inv: "reachable s \<Longrightarrow> session_inv s"
  by (rule reachable_invariant) (auto intro: inv_init session_step_inv)

lemma reachable_run: "reachable s \<Longrightarrow> session_run s es = Some t \<Longrightarrow> reachable t"
proof (induction es arbitrary: s)
  case Nil
  then show ?case by simp
next
  case (Cons e es)
  then show ?case
    by (auto intro: reachable.step split: option.splits)
qed

lemma reachable_in_run:
  "reachable_in P s \<Longrightarrow> list_all P es \<Longrightarrow> session_run s es = Some t \<Longrightarrow> reachable_in P t"
proof (induction es arbitrary: s)
  case Nil
  then show ?case by simp
next
  case (Cons e es)
  then show ?case
    by (auto intro: reachable_in.step split: option.splits)
qed

end
