(* ===== verification/SessionProps.thy ===== *)
theory SessionProps
  imports Session
begin

text \<open>
  Properties of the session model of \<open>Session\<close>: the invariants over
  reachable sessions, the calibration window, the lifecycle operations (start,
  denied start, stop, reset, unmount), and the orderings of events that the
  code does not handle as the specification expects.
\<close>

section \<open>Properties\<close>

text \<open>C9. In every reachable session the displayed path and the path ref are
  non-empty and start at the origin: no event, reset or render loses the
  starting point.\<close>

theorem session_path_origin:
  "reachable s \<Longrightarrow>
     path s \<noteq> [] \<and> hd (path s) = vec_zero \<and> pathRef (dr s) \<noteq> [] \<and> hd (pathRef (dr s)) = vec_zero"
  using reachable_inv [of s] by (simp add: session_inv_def path_ok_def)

theorem session_path_origin_witness:
  "\<exists>t. session_run (dr_session_init True) (start_events @ [motion_at 0 1, motion_at 20 1, Commit])
         = Some t \<and> length (path t) = 2 \<and> hd (path t) = vec_zero \<and> hd (pathRef (dr t)) = vec_zero"
proof -
  have "\<exists>t. session_run (dr_session_init True) (start_events @ [motion_at 0 1, motion_at 20 1, Commit])
          = Some t \<and> length (path t) = 2"
    by (simp add: session_eval motion_eval)
  then obtain t where r: "session_run (dr_session_init True)
      (start_events @ [motion_at 0 1, motion_at 20 1, Commit]) = Some t" and l: "length (path t) = 2"
    by blast
  have "reachable t" by (rule reachable_run [OF reachable.init r])
  with r l session_path_origin [of t] show ?thesis by blast
qed

text \<open>C12. The browser resources follow the monitoring flag: while the
  component is mounted, the sensor listeners are attached only while
  \<open>isMonitoring\<close> is set, and a geolocation watch runs only in a mounted
  component whose last render was monitoring.\<close>

theorem session_resources_consistent:
  "reachable s \<Longrightarrow>
     (listening s \<and> mounted s \<longrightarrow> isMonitoring s) \<and> (watching s \<longrightarrow> committedMonitoring s \<and> mounted s)"
  using reachable_inv [of s] by (simp add: session_inv_def)

theorem session_resources_consistent_witness:
  "\<exists>t. session_run (dr_session_init True) start_events = Some t
       \<and> listening t \<and> isMonitoring t \<and> watching t \<and> committedMonitoring t"
proof -
  have "\<exists>t. session_run (dr_session_init True) start_events = Some t \<and> listening t \<and> watching t"
    by (simp add: session_eval)
  then obtain t where r: "session_run (dr_session_init True) start_events = Some t"
    and l: "listening t" and w: "watching t" by blast
  have "reachable t" by (rule reachable_run [OF reachable.init r])
  with r l w session_resources_consistent [of t] show ?thesis by blast
qed

text \<open>C10. The calibrating signal clears within 2000 ms: whenever it is on in
  a reachable session, a timer is pending whose firing clears it no later than
  2000 ms from now, and time cannot pass more than 2000 ms before that.\<close>

theorem calibration_clears_in_time:
  assumes "reachable s" and "mounted s" and "isCalibrating s"
  shows "(\<exists>t. session_step s TimerFire = Some t \<and> \<not> isCalibrating t \<and> clock t \<le> clock s + 2000)
         \<and> (\<forall>d t. session_step s (Advance d) = Some t \<longrightarrow> d \<le> 2000)"
proof -
  have ok: "timers_ok s" using reachable_inv [OF assms(1)] by (simp add: session_inv_def)
  with assms(2,3) obtain t0 ts where ts: "timers s = t0 # ts"
    by (cases "timers s") (auto simp: timers_ok_def)
  with ok have t0: "clock s \<le> t0 \<and> t0 \<le> clock s + 2000" by (simp add: timers_ok_def)
  show ?thesis
    using ts t0 assms(2) by (auto simp: timer_fire_def advance_def react_update_def)
qed

theorem calibration_clears_in_time_witness:
  "\<exists>t. session_run (dr_session_init True) (start_events @ [turn_to 90]) = Some t \<and> isCalibrating t
       \<and> (\<exists>u. session_step t TimerFire = Some u \<and> \<not> isCalibrating u \<and> clock u \<le> 2000)"
proof -
  have "\<exists>t. session_run (dr_session_init True) (start_events @ [turn_to 90]) = Some t
          \<and> mounted t \<and> isCalibrating t \<and> clock t = 0"
    by (simp add: session_eval)
  then obtain t where r: "session_run (dr_session_init True) (start_events @ [turn_to 90]) = Some t"
    and m: "mounted t" and c: "isCalibrating t" and k: "clock t = 0" by blast
  have "reachable t" by (rule reachable_run [OF reachable.init r])
  with r m c k calibration_clears_in_time [of t] show ?thesis by auto
qed

text \<open>A calibration pulse: when an orientation sample raises the
  interference signal in a session with no pending timer, the flag is set, stays
  set while up to 2000 ms pass, and the timer then clears it exactly 2000 ms
  after the sample.\<close>

theorem calibration_pulse:
  assumes "listening s" and "mounted s" and "timers s = []"
    and "handleDeviceOrientation screen (headingRef s) (compassFilterRef s) ev = Some r"
    and "or_calibrate r"
  shows "\<exists>t u. session_step s (Orientation screen ev) = Some t \<and> isCalibrating t
           \<and> (\<forall>d. 0 \<le> d \<and> d \<le> 2000 \<longrightarrow>
                 (\<exists>v. session_step t (Advance d) = Some v \<and> isCalibrating v))
           \<and> session_step t TimerFire = Some u \<and> \<not> isCalibrating u \<and> clock u = clock s + 2000"
  using assms by (simp add: on_orientation_def timer_fire_def advance_def react_update_def)

theorem calibration_pulse_witness:
  "\<exists>s t u. session_run (dr_session_init True) (start_events @ [turn_to 10, Commit]) = Some s
     \<and> session_step s (turn_to 135) = Some t \<and> isCalibrating t
     \<and> session_step t TimerFire = Some u \<and> \<not> isCalibrating u \<and> clock u = 2000"
proof -
  have "\<exists>s. session_run (dr_session_init True) (start_events @ [turn_to 10, Commit]) = Some s
          \<and> listening s \<and> mounted s \<and> timers s = [] \<and> clock s = 0 \<and> headingRef s = Fin 10
          \<and> compassFilterRef s = \<lparr>lastValue = Some (Fin 10), cf_alpha = Fin 0.2\<rparr>"
    by (simp add: session_eval)
  then obtain s where r: "session_run (dr_session_init True) (start_events @ [turn_to 10, Commit]) = Some s"
    and l: "listening s" and m: "mounted s" and ts: "timers s = []" and k: "clock s = 0" and h: "headingRef s = Fin 10"
    and f: "compassFilterRef s = \<lparr>lastValue = Some (Fin 10), cf_alpha = Fin 0.2\<rparr>" by blast
  have "\<exists>q. handleDeviceOrientation None (headingRef s) (compassFilterRef s)
            \<lparr>ev_alpha = JNum (Fin 135), ev_beta = JNum (Fin 0), ev_gamma = JNum (Fin 0),
             ev_webkitCompassHeading = JUndefined\<rparr> = Some q \<and> or_calibrate q"
    by (simp add: h f handleDeviceOrientation_level low_pass_def interference_def Let_def)
  then obtain q where q: "handleDeviceOrientation None (headingRef s) (compassFilterRef s)
            \<lparr>ev_alpha = JNum (Fin 135), ev_beta = JNum (Fin 0), ev_gamma = JNum (Fin 0),
             ev_webkitCompassHeading = JUndefined\<rparr> = Some q" and c: "or_calibrate q" by blast
  from calibration_pulse [OF l m ts q c] obtain t u where
    t: "session_step s (turn_to 135) = Some t" "isCalibrating t"
    and u: "session_step t TimerFire = Some u" "\<not> isCalibrating u" "clock u = clock s + 2000"
    by blast
  from u(3) k have "clock u = 2000" by simp
  with r t u(1,2) show ?thesis by blast
qed

text \<open>The orientation listener on a sample that raises the signal: the flag is
  set and a deadline 2000 ms ahead is queued behind the pending ones.\<close>

lemma on_orientation_jump:
  "handleDeviceOrientation screen (headingRef s) (compassFilterRef s) ev = Some r \<Longrightarrow> or_calibrate r \<Longrightarrow>
     isCalibrating (on_orientation screen ev s) \<and> clock (on_orientation screen ev s) = clock s
     \<and> timers (on_orientation screen ev s) = timers s @ [clock s + 2000]
     \<and> mounted (on_orientation screen ev s) = mounted s"
  by (simp add: on_orientation_def)

text \<open>Every timer pending in an unmounted component fires, one per
  \<open>TimerFire\<close>; the \<open>setIsCalibrating(false)\<close> of each is discarded.\<close>

lemma timers_fire_unmounted:
  "timers u = xs \<Longrightarrow> \<not> mounted u \<Longrightarrow>
     \<exists>t. session_run u (replicate (length xs) TimerFire) = Some t \<and> timers t = [] \<and> \<not> mounted t
       \<and> isCalibrating t = isCalibrating u"
proof (induction xs arbitrary: u)
  case Nil
  then show ?case by simp
next
  case (Cons x xs)
  let ?u' = "react_update u (timer_fire u)"
  have "timers ?u' = xs" "\<not> mounted ?u'" "isCalibrating ?u' = isCalibrating u"
    using Cons.prems by (simp_all add: react_update_def timer_fire_def)
  with Cons.IH [of ?u'] Cons.prems show ?case by simp
qed

text \<open>C33. A new interference jump does not restart the calibrating window:
  in a mounted session with a pending calibration timer due before the new
  jump's own 2000 ms have run out, an orientation sample that raises the signal
  sets the flag, and firing the earliest timer clears it again before those
  2000 ms have passed, with the new jump's timer still pending.\<close>

theorem calibration_cleared_early:
  assumes "mounted s" and "timers s = d # ds" and "d < clock s + 2000"
    and "handleDeviceOrientation screen (headingRef s) (compassFilterRef s) ev = Some r"
    and "or_calibrate r" and "session_step s (Orientation screen ev) = Some t"
  shows "isCalibrating t \<and> (\<exists>u. session_step t TimerFire = Some u \<and> \<not> isCalibrating u
           \<and> clock u < clock s + 2000 \<and> timers u = ds @ [clock s + 2000])"
proof -
  have t: "t = on_orientation screen ev s"
    using assms(1,6) by (simp add: react_update_def split: if_splits)
  have j: "isCalibrating t" "clock t = clock s" "timers t = d # ds @ [clock s + 2000]" "mounted t"
    using on_orientation_jump [OF assms(4,5)] assms(1,2) t by simp_all
  then have "session_step t TimerFire = Some (timer_fire t)"
    by (simp add: react_update_def)
  moreover have "\<not> isCalibrating (timer_fire t) \<and> clock (timer_fire t) < clock s + 2000
      \<and> timers (timer_fire t) = ds @ [clock s + 2000]"
    using j assms(3) by (simp add: timer_fire_def)
  ultimately show ?thesis using j(1) by blast
qed

theorem calibration_cleared_early_witness:
  "\<exists>s r t u. session_run (dr_session_init True) (start_events @ [turn_to 90, Commit, Advance 1500]) = Some s
     \<and> handleDeviceOrientation None (headingRef s) (compassFilterRef s)
          \<lparr>ev_alpha = JNum (Fin 270), ev_beta = JNum (Fin 0), ev_gamma = JNum (Fin 0),
           ev_webkitCompassHeading = JUndefined\<rparr> = Some r \<and> or_calibrate r
     \<and> session_step s (turn_to 270) = Some t \<and> isCalibrating t
     \<and> session_step t TimerFire = Some u \<and> \<not> isCalibrating u \<and> clock u < clock s + 2000"
proof -
  have "\<exists>s. session_run (dr_session_init True) (start_events @ [turn_to 90, Commit, Advance 1500]) = Some s
      \<and> mounted s \<and> listening s \<and> timers s = [2000] \<and> clock s = 1500 \<and> headingRef s = Fin 90
      \<and> compassFilterRef s = \<lparr>lastValue = Some (Fin 90), cf_alpha = Fin 0.2\<rparr>"
    by (simp add: session_eval)
  then obtain s where r: "session_run (dr_session_init True) (start_events @ [turn_to 90, Commit, Advance 1500])
      = Some s" and m: "mounted s" and l: "listening s" and tm: "timers s = [2000]"
    and c: "clock s = 1500" and h: "headingRef s = Fin 90"
    and cf: "compassFilterRef s = \<lparr>lastValue = Some (Fin 90), cf_alpha = Fin 0.2\<rparr>" by blast
  let ?ev = "\<lparr>ev_alpha = JNum (Fin 270), ev_beta = JNum (Fin 0), ev_gamma = JNum (Fin 0),
             ev_webkitCompassHeading = JUndefined\<rparr>"
  obtain q where q: "handleDeviceOrientation None (headingRef s) (compassFilterRef s) ?ev = Some q"
      "or_calibrate q"
    using h cf by (simp add: handleDeviceOrientation_level low_pass_def interference_def Let_def js_sub_def)
  obtain t where st: "session_step s (turn_to 270) = Some t" using l by simp
  have "2000 < clock s + 2000" using c by simp
  from calibration_cleared_early [OF m tm this q st] r q st show ?thesis by blast
qed

text \<open>C34. The calibration timers are not tied to the component's lifetime:
  the unmount cleanup detaches the listeners and clears the watch but leaves
  every pending \<open>setTimeout\<close>; after it, each of them still fires, one
  after the other until none is left, and their \<open>setIsCalibrating(false)\<close>
  calls reach an unmounted component and are discarded.\<close>

theorem timer_outlives_unmount:
  assumes "session_step s Unmount = Some u"
  shows "\<not> mounted u \<and> \<not> listening u \<and> \<not> watching u \<and> timers u = timers s
     \<and> (\<exists>t. session_run u (replicate (length (timers s)) TimerFire) = Some t \<and> timers t = []
          \<and> isCalibrating t = isCalibrating s)"
proof -
  have u: "u = unmount s" using assms by (simp split: if_splits)
  then have "\<not> mounted u" "\<not> listening u" "\<not> watching u" "timers u = timers s"
    "isCalibrating u = isCalibrating s"
    by (simp_all add: unmount_def)
  with timers_fire_unmounted [of u "timers s"] show ?thesis by auto
qed

theorem timer_outlives_unmount_witness:
  "\<exists>s u t. session_run (dr_session_init True) (start_events @ [turn_to 90, Commit]) = Some s
     \<and> timers s = [2000] \<and> session_step s Unmount = Some u
     \<and> session_run u [TimerFire] = Some t \<and> timers t = [] \<and> isCalibrating t"
proof -
  have "\<exists>s. session_run (dr_session_init True) (start_events @ [turn_to 90, Commit]) = Some s
      \<and> timers s = [2000] \<and> mounted s \<and> isCalibrating s"
    by (simp add: session_eval)
  then obtain s where r: "session_run (dr_session_init True) (start_events @ [turn_to 90, Commit]) = Some s"
    and tm: "timers s = [2000]" and m: "mounted s" and c: "isCalibrating s" by blast
  obtain u where st: "session_step s Unmount = Some u" using m by simp
  from timer_outlives_unmount [OF st] tm c obtain t where
    "session_run u [TimerFire] = Some t" "timers t = []" "isCalibrating t" by auto
  with r tm st show ?thesis by blast
qed

text \<open>C11. Reset Path followed by a render zeroes the velocity, the position and
  the path (back to the single origin point), in the state and in the refs, and
  clears the timestamp baseline; the learned bias and the stationary count are
  kept.\<close>

theorem clear_path_reset:
  "mounted s \<Longrightarrow> \<exists>t. session_run s [ClearPath, Commit] = Some t
     \<and> velocity t = vec_zero \<and> position t = vec_zero \<and> path t = [vec_zero]
     \<and> velRef (dr t) = vec_zero \<and> posRef (dr t) = vec_zero \<and> pathRef (dr t) = [vec_zero]
     \<and> lastTimestampRef (dr t) = None
     \<and> accelBiasRef (dr t) = accelBiasRef (dr s) \<and> stationaryCountRef (dr t) = stationaryCountRef (dr s)"
  by (simp add: clear_path_def commit_defs Let_def)

theorem clear_path_reset_witness:
  "\<exists>t. session_run (dr_session_init True) [ClearPath, Commit] = Some t \<and> path t = [vec_zero]
     \<and> lastTimestampRef (dr t) = None"
proof -
  have "mounted (dr_session_init True)" by (simp add: dr_session_init_def)
  from clear_path_reset [OF this] show ?thesis by blast
qed

text \<open>The learned acceleration bias and the stationary count are changed
  only by motion samples: every other event (start, stop, reset, renders, GPS,
  timers, unmount) keeps them, so they persist across stop/start cycles.\<close>

theorem bias_persists:
  "session_step s e = Some t \<Longrightarrow> \<not> is_motion e \<Longrightarrow>
     accelBiasRef (dr t) = accelBiasRef (dr s) \<and> stationaryCountRef (dr t) = stationaryCountRef (dr s)"
  by (cases e)
     (auto simp: on_orientation_def start_click_def start_resolve_def Let_def stop_monitoring_def
        clear_path_def gps_success_def gps_failure_def commit_defs timer_fire_def advance_def
        unmount_def react_update_def split: if_splits option.splits permission.splits)

theorem bias_persists_witness:
  "\<exists>t. session_step ((dr_session_init True)\<lparr>dr := motion_state_init\<lparr>accelBiasRef := \<lparr>vx = Fin 0.1, vy = Fin 0\<rparr>,
          stationaryCountRef := 7\<rparr>\<rparr>) StartClick = Some t
     \<and> accelBiasRef (dr t) = \<lparr>vx = Fin 0.1, vy = Fin 0\<rparr> \<and> stationaryCountRef (dr t) = 7"
proof -
  let ?s = "(dr_session_init True)\<lparr>dr := motion_state_init\<lparr>accelBiasRef := \<lparr>vx = Fin 0.1, vy = Fin 0\<rparr>,
          stationaryCountRef := 7\<rparr>\<rparr>"
  have r: "session_step ?s StartClick = Some (start_click ?s)" by (simp add: dr_session_init_def)
  show ?thesis
    using r bias_persists [OF r] by simp
qed

text \<open>Stop and start do not move the estimate: pressing Start or Stop, and
  the permission prompts resolving, keep the velocity, the position and the path,
  and change the motion state only by clearing the timestamp baseline.\<close>

theorem lifecycle_keeps_position:
  assumes "session_step s e = Some t"
    and "e = StartClick \<or> e = StopClick \<or> (\<exists>pm po. e = StartResolve pm po)"
  shows "velocity t = velocity s \<and> position t = position s \<and> path t = path s
     \<and> (dr t)\<lparr>lastTimestampRef := None\<rparr> = (dr s)\<lparr>lastTimestampRef := None\<rparr>"
  using assms
  by (auto simp: start_click_def stop_monitoring_def start_resolve_def Let_def react_update_def
      split: if_splits permission.splits)

theorem lifecycle_keeps_position_witness:
  "\<exists>t. session_step ((dr_session_init True)\<lparr>position := \<lparr>vx = Fin 3, vy = Fin 4\<rparr>\<rparr>) StartClick = Some t
     \<and> position t = \<lparr>vx = Fin 3, vy = Fin 4\<rparr>"
proof -
  let ?s = "(dr_session_init True)\<lparr>position := \<lparr>vx = Fin 3, vy = Fin 4\<rparr>\<rparr>"
  have r: "session_step ?s StartClick = Some (start_click ?s)" by (simp add: dr_session_init_def)
  show ?thesis
    using r lifecycle_keeps_position [OF r] by simp
qed




text \<open>C24. A new heading reaches the integrator only through a render: a
  motion sample that follows an orientation sample with no render between them
  is integrated exactly as if the orientation sample had not happened, since the
  motion handler reads \<open>headingRef\<close>, which only the render updates.\<close>

theorem orientation_invisible_until_commit:
  assumes "session_step s (Orientation screen oe) = Some t"
  shows "dr (on_motion p me t) = dr (on_motion p me s)
     \<and> velocity (on_motion p me t) = velocity (on_motion p me s)
     \<and> position (on_motion p me t) = position (on_motion p me s)
     \<and> path (on_motion p me t) = path (on_motion p me s)"
  using assms
  by (auto simp: on_orientation_def react_update_def on_motion_fields split: if_splits option.splits)

theorem orientation_invisible_until_commit_witness:
  "\<exists>s t. session_run (dr_session_init True) start_events = Some s
     \<and> session_step s (turn_to 90) = Some t \<and> heading t = Fin 90 \<and> headingRef t = Fin 0
     \<and> dr (on_motion (Fin 0) \<lparr>ev_accelerationIncludingGravity = None, ev_rotationRate = None,
            ev_acceleration = None, ev_timeStamp = JNum (Fin 0)\<rparr> t)
       = dr (on_motion (Fin 0) \<lparr>ev_accelerationIncludingGravity = None, ev_rotationRate = None,
            ev_acceleration = None, ev_timeStamp = JNum (Fin 0)\<rparr> s)"
proof -
  have "\<exists>s t. session_run (dr_session_init True) start_events = Some s
          \<and> session_step s (turn_to 90) = Some t \<and> heading t = Fin 90 \<and> headingRef t = Fin 0"
    by (simp add: session_eval)
  then obtain s t where r: "session_run (dr_session_init True) start_events = Some s"
    and st: "session_step s (turn_to 90) = Some t" and h: "heading t = Fin 90" "headingRef t = Fin 0"
    by blast
  show ?thesis
    using r st h orientation_invisible_until_commit [OF st] by blast
qed

text \<open>C23. Stop releases everything it should: from a monitoring render, Stop
  and the render after it detach the listeners, clear the geolocation watch and
  the timestamp baseline, and keep the position and the path.\<close>

theorem stop_releases:
  assumes "mounted s" and "committedMonitoring s"
  shows "\<exists>t. session_run s [StopClick, Commit] = Some t
     \<and> \<not> listening t \<and> \<not> isMonitoring t \<and> \<not> watching t \<and> \<not> committedMonitoring t
     \<and> lastTimestampRef (dr t) = None \<and> position t = position s \<and> path t = path s"
  using assms by (simp add: stop_monitoring_def commit_defs Let_def)

theorem stop_releases_witness:
  "\<exists>s t. session_run (dr_session_init True) start_events = Some s \<and> watching s
     \<and> session_run s [StopClick, Commit] = Some t \<and> \<not> watching t \<and> \<not> listening t"
proof -
  have "\<exists>s. session_run (dr_session_init True) start_events = Some s \<and> watching s
          \<and> mounted s \<and> committedMonitoring s"
    by (simp add: session_eval)
  then obtain s where r: "session_run (dr_session_init True) start_events = Some s"
    and w: "watching s" and m: "mounted s" and c: "committedMonitoring s" by blast
  show ?thesis
    using r w stop_releases [OF m c] by blast
qed

text \<open>C21. Starting with both permissions available (granted, or no prompt on
  this browser): after Start, the prompts and the render, the listeners are
  attached, the session is monitoring, no error is shown, the timestamp baseline
  is cleared, and a geolocation watch runs exactly when the browser has
  geolocation.\<close>

theorem start_granted:
  assumes "mounted s" and "\<not> committedMonitoring s" and "granted pm" and "granted po"
  shows "\<exists>t. session_run s [StartClick, StartResolve pm po, Commit] = Some t
     \<and> listening t \<and> isMonitoring t \<and> committedMonitoring t \<and> errorMsg t = None
     \<and> lastTimestampRef (dr t) = None \<and> watching t = geolocationAvailable s"
  using assms
  by (cases pm; cases po)
     (simp_all add: start_click_def start_resolve_def commit_defs Let_def react_update_def)

theorem start_granted_witness:
  "\<exists>t. session_run (dr_session_init False) [StartClick, StartResolve Granted NoPrompt, Commit] = Some t
     \<and> listening t \<and> \<not> watching t"
proof -
  have m: "mounted (dr_session_init False)" by (simp add: dr_session_init_def)
  have c: "\<not> committedMonitoring (dr_session_init False)" by (simp add: dr_session_init_def)
  have g: "geolocationAvailable (dr_session_init False) = False" by (simp add: dr_session_init_def)
  have p: "granted Granted" "granted NoPrompt" by simp_all
  from start_granted [OF m c p] obtain t where
    r: "session_run (dr_session_init False) [StartClick, StartResolve Granted NoPrompt, Commit] = Some t"
    and l: "listening t" and w: "watching t = geolocationAvailable (dr_session_init False)"
    by blast
  from w g have "\<not> watching t" by simp
  with r l show ?thesis by blast
qed

text \<open>C22. A start that is refused leaves the session stopped with an error:
  from a reachable stopped session, when a prompt is denied or throws, Start,
  the prompts and the render attach no listener and start no watch, and the error
  shown is the message of the first prompt that threw, or the denial message.\<close>

theorem start_denied:
  assumes "reachable s" and "mounted s" and "\<not> isMonitoring s" and "\<not> committedMonitoring s"
    and "\<not> (granted pm \<and> granted po)"
  shows "\<exists>t. session_run s [StartClick, StartResolve pm po, Commit] = Some t
     \<and> \<not> listening t \<and> \<not> isMonitoring t \<and> \<not> watching t
     \<and> errorMsg t = Some (case pm of Throws m \<Rightarrow> start_error_msg m
                          | _ \<Rightarrow> (case po of Throws m \<Rightarrow> start_error_msg m
                                 | _ \<Rightarrow> permission_denied_msg))"
proof -
  have "\<not> listening s \<and> \<not> watching s"
    using reachable_inv [OF assms(1)] assms(2-4) by (auto simp: session_inv_def)
  with assms(2-5) show ?thesis
    by (cases pm; cases po)
       (simp_all add: start_click_def start_resolve_def commit_defs Let_def react_update_def)
qed

theorem start_denied_witness:
  "\<exists>t. session_run (dr_session_init True) [StartClick, StartResolve Denied NoPrompt, Commit] = Some t
     \<and> \<not> listening t \<and> \<not> watching t
     \<and> errorMsg t = Some ''Permission to access one or more sensors was denied.''"
proof -
  have i: "mounted (dr_session_init True)" "\<not> isMonitoring (dr_session_init True)"
    "\<not> committedMonitoring (dr_session_init True)"
    by (simp_all add: dr_session_init_def)
  have d: "\<not> (granted Denied \<and> granted NoPrompt)" by simp
  from start_denied [OF reachable.init i d] obtain t where
    r: "session_run (dr_session_init True) [StartClick, StartResolve Denied NoPrompt, Commit] = Some t"
    and l: "\<not> listening t" and w: "\<not> watching t"
    and e: "errorMsg t = Some (case Denied of Throws m \<Rightarrow> start_error_msg m
              | _ \<Rightarrow> (case NoPrompt of Throws m \<Rightarrow> start_error_msg m | _ \<Rightarrow> permission_denied_msg))"
    by blast
  from e have "errorMsg t = Some ''Permission to access one or more sensors was denied.''"
    by (simp add: permission_denied_msg_def)
  with r l w show ?thesis by blast
qed

text \<open>C26. Once an unmounted component holds listeners it holds them for good:
  no event removes them, since only Stop and the unmount cleanup detach them and
  neither can run any more; every sensor event keeps running the handlers.\<close>

theorem leaked_listeners_stay:
  "\<not> mounted s \<Longrightarrow> listening s \<Longrightarrow> session_step s e = Some t \<Longrightarrow> \<not> mounted t \<and> listening t"
  by (cases e)
     (auto simp: react_update_def on_orientation_def on_motion_def start_resolve_def timer_fire_def
        gps_success_def gps_failure_def advance_def Let_def
        split: if_splits option.splits motion_outcome.splits permission.splits)

theorem leaked_listeners_stay_witness:
  "\<exists>s t. session_run (dr_session_init True) [StartClick, Unmount, StartResolve Granted Granted] = Some s
     \<and> session_step s (turn_to 90) = Some t \<and> listening t \<and> \<not> mounted t"
proof -
  have "\<exists>s. session_run (dr_session_init True) [StartClick, Unmount, StartResolve Granted Granted]
          = Some s \<and> \<not> mounted s \<and> listening s"
    by (simp add: session_eval)
  then obtain s where r: "session_run (dr_session_init True)
      [StartClick, Unmount, StartResolve Granted Granted] = Some s"
    and m: "\<not> mounted s" and l: "listening s" by blast
  from l obtain t where st: "session_step s (turn_to 90) = Some t" by simp
  with r leaked_listeners_stay [OF m l st] show ?thesis by blast
qed

end
