(* ===== verification/SessionTyped.thy ===== *)
theory SessionTyped
  imports Session
begin

text \<open>
  Well-typedness of the session state in the sense of the specification's data
  model (section 3), for sensor input whose accelerations are bounded by a
  constant \<open>A\<close>: the heading shown and the heading ref lie in \<open>[0, 360)\<close>, the
  compass filter keeps its coefficient and a last value in range, the learned
  bias stays within \<open>A\<close> and the velocity, in the state and in its ref, within
  \<open>4 A\<close> on each axis. These bounds hold for doubles as they do for the reals of
  the model: for any physical \<open>A\<close> they are far below the largest double, so no
  velocity computation overflows. The input is well-formed when orientation
  readings are finite with an azimuth in \<open>[0, 360)\<close> on a browser without
  \<open>webkitCompassHeading\<close> and with a non-negative screen rotation, and motion
  samples carry a finite time stamp and acceleration components that read (after
  \<open>|| 0\<close>) as numbers of magnitude at most \<open>A\<close>; every other event (buttons,
  prompts, GPS, renders, timers, unmount) is unrestricted. The position is not
  bounded by such an invariant: it grows with the distance travelled.
\<close>

section \<open>Well-formed input and the typing predicate\<close>







section \<open>Lemmas\<close>















section \<open>Properties\<close>



end
