(* ===== verification/JS_Format.thy ===== *)
theory JS_Format
  imports JS_Number
begin

text \<open>
  \<open>Number.prototype.toFixed\<close> (ECMAScript 2023, section 21.1.3.3), which the
  JSX of \<^verbatim>\<open>DRModule.jsx\<close> applies to the heading and the GPS fix
  (lines 440, 489--492, 543). A finite value is a real, as everywhere in the
  development; the digits are those of the integer \<open>n\<close> for which
  \<open>n / 10^f - x\<close> is closest to zero, the larger one on a tie. At 10^21 and
  above the algorithm falls back to \<open>Number::toString\<close>, whose exponent form
  is spelled out for the integers every double of that size is.
  \<open>parse_fixed\<close> reads such a string back; the round trip shows that the text
  shown is the value up to half a unit of the last digit.
\<close>

section \<open>Definitions\<close>

text \<open>The characters \<open>\<degree>\<close> (U+00B0) and \<open>\<plusminus>\<close> (U+00B1) of the JSX, each one
  UTF-16 code unit.\<close>

abbreviation degree_sign :: char where
  "degree_sign \<equiv> char_of (176::nat)"

abbreviation plus_minus_sign :: char where
  "plus_minus_sign \<equiv> char_of (177::nat)"

fun decimal_digits :: "nat \<Rightarrow> string" where
  "decimal_digits n =
     (if n < 10 then [char_of (48 + n)]
      else decimal_digits (n div 10) @ [char_of (48 + n mod 10)])"

declare decimal_digits.simps [simp del]

definition strip_trailing_zeros :: "string \<Rightarrow> string" where
  "strip_trailing_zeros s = rev (dropWhile (\<lambda>c. c = CHR ''0'') (rev s))"

text \<open>\<open>Number::toString\<close> (section 6.1.6.1.20) of an integer of more than 21
  digits: the significant digits with a point after the first, and \<open>e+\<close>
  with the exponent.\<close>

definition exponent_string :: "nat \<Rightarrow> string" where
  "exponent_string m =
     (let ds = decimal_digits m; s = strip_trailing_zeros ds
      in (if length s = 1 then s else [hd s] @ ''.'' @ tl s) @ ''e+'' @ decimal_digits (length ds - 1))"

text \<open>Steps 11.b--c: the digits of \<open>n\<close>, padded with zeros to more than \<open>f\<close>
  digits, with a point before the last \<open>f\<close>.\<close>

definition fixed_digits :: "nat \<Rightarrow> nat \<Rightarrow> string" where
  "fixed_digits f n =
     (let m = decimal_digits n;
          m' = (if length m \<le> f then replicate (f + 1 - length m) CHR ''0'' @ m else m);
          k = length m'
      in if f = 0 then m else take (k - f) m' @ ''.'' @ drop (k - f) m')"

definition js_to_fixed :: "nat \<Rightarrow> jsnum \<Rightarrow> string" where
  "js_to_fixed f x =
     (case x of
        NaN \<Rightarrow> ''NaN''
      | PosInf \<Rightarrow> ''Infinity''
      | NegInf \<Rightarrow> ''-Infinity''
      | Fin r \<Rightarrow>
          (if r < 0 then ''-'' else []) @
          (if 10 ^ 21 \<le> \<bar>r\<bar> then exponent_string (nat \<lfloor>\<bar>r\<bar>\<rfloor>)
           else fixed_digits f (nat \<lfloor>\<bar>r\<bar> * 10 ^ f + 1 / 2\<rfloor>)))"

text \<open>Reading a fixed-point string back: an optional minus sign, digits, and
  optionally a point followed by digits.\<close>

definition is_digit :: "char \<Rightarrow> bool" where
  "is_digit c = (let d = (of_char c :: nat) in 48 \<le> d \<and> d \<le> 57)"

definition digits_val :: "string \<Rightarrow> nat" where
  "digits_val s = foldl (\<lambda>acc c. 10 * acc + (of_char c - 48)) 0 s"

definition parse_unsigned :: "string \<Rightarrow> real option" where
  "parse_unsigned t =
     (let a = takeWhile (\<lambda>c. c \<noteq> CHR ''.'') t; b = drop 1 (dropWhile (\<lambda>c. c \<noteq> CHR ''.'') t)
      in if a \<noteq> [] \<and> list_all is_digit (a @ b)
         then Some (real (digits_val (a @ b)) / 10 ^ length b) else None)"

definition parse_fixed :: "string \<Rightarrow> real option" where
  "parse_fixed s =
     (case s of
        c # t \<Rightarrow> if c = CHR ''-'' then map_option uminus (parse_unsigned t) else parse_unsigned s
      | [] \<Rightarrow> None)"

section \<open>Lemmas\<close>

lemma digits_val_snoc [simp]: "digits_val (xs @ [c]) = 10 * digits_val xs + (of_char c - 48)"
  by (simp add: digits_val_def)

lemma digits_val_zeros [simp]: "digits_val (replicate k CHR ''0'' @ m) = digits_val m"
proof -
  have "foldl (\<lambda>acc c. 10 * acc + (of_char c - 48)) 0 (replicate k CHR ''0'') = (0::nat)"
    by (induction k) simp_all
  then show ?thesis by (simp add: digits_val_def)
qed

lemma decimal_digits_val [simp]: "digits_val (decimal_digits n) = n"
proof (induction n rule: decimal_digits.induct)
  case (1 n)
  then show ?case
    by (subst decimal_digits.simps) (simp add: digits_val_def)
qed

lemma decimal_digits_props: "decimal_digits n \<noteq> [] \<and> list_all is_digit (decimal_digits n)"
proof (induction n rule: decimal_digits.induct)
  case (1 n)
  then show ?case
    by (simp add: decimal_digits.simps [of n] is_digit_def Let_def) linarith
qed

lemma is_digit_not_point [simp]: "is_digit c \<Longrightarrow> c \<noteq> CHR ''.''"
  by (auto simp: is_digit_def)

lemma is_digit_not_minus [simp]: "is_digit c \<Longrightarrow> c \<noteq> CHR ''-''"
  by (auto simp: is_digit_def)

lemma parse_unsigned_point:
  assumes "a \<noteq> []" and "list_all is_digit (a @ b)"
  shows "parse_unsigned (a @ ''.'' @ b) = Some (real (digits_val (a @ b)) / 10 ^ length b)"
proof -
  have "\<forall>x\<in>set a. x \<noteq> CHR ''.''" using assms(2) by (auto simp: list_all_iff)
  then show ?thesis using assms
    by (simp add: parse_unsigned_def takeWhile_append2 dropWhile_append2)
qed

lemma parse_unsigned_int:
  assumes "a \<noteq> []" and "list_all is_digit a"
  shows "parse_unsigned a = Some (real (digits_val a))"
proof -
  have "\<forall>x\<in>set a. x \<noteq> CHR ''.''" using assms(2) by (auto simp: list_all_iff)
  then show ?thesis using assms
    by (simp add: parse_unsigned_def takeWhile_eq_all_conv[THEN iffD2] dropWhile_eq_Nil_conv[THEN iffD2])
qed

lemma fixed_digits_parse:
  "parse_unsigned (fixed_digits f n) = Some (real n / 10 ^ f)"
proof (cases "f = 0")
  case True
  then show ?thesis
    using decimal_digits_props [of n] by (simp add: fixed_digits_def parse_unsigned_int)
next
  case False
  define m where "m = decimal_digits n"
  define m' where "m' = (if length m \<le> f then replicate (f + 1 - length m) CHR ''0'' @ m else m)"
  have m: "m \<noteq> []" "list_all is_digit m" "digits_val m = n"
    using decimal_digits_props [of n] by (simp_all add: m_def)
  have m': "f < length m'" "list_all is_digit m'" "digits_val m' = n"
    using m by (auto simp: m'_def list_all_iff is_digit_def)
  let ?a = "take (length m' - f) m'" and ?b = "drop (length m' - f) m'"
  have "?a \<noteq> []" "length ?b = f" "?a @ ?b = m'" using m'(1) by auto
  then have "parse_unsigned (?a @ ''.'' @ ?b) = Some (real n / 10 ^ f)"
    using m' parse_unsigned_point [of ?a ?b] by simp
  moreover have "fixed_digits f n = ?a @ ''.'' @ ?b"
    using False by (simp add: fixed_digits_def Let_def m_def [symmetric] m'_def [symmetric])
  ultimately show ?thesis by simp
qed

lemma fixed_digits_head: "\<exists>c t. fixed_digits f n = c # t \<and> is_digit c"
proof -
  have "\<exists>c t. decimal_digits n = c # t \<and> is_digit c"
    using decimal_digits_props [of n] by (cases "decimal_digits n") auto
  then show ?thesis
    by (auto simp: fixed_digits_def Let_def is_digit_def Suc_diff_le take_Cons' split: if_splits)
qed

lemma round_half_up_error:
  fixes a :: real
  assumes "0 \<le> a"
  shows "\<bar>real (nat \<lfloor>a * 10 ^ f + 1 / 2\<rfloor>) / 10 ^ f - a\<bar> \<le> 1 / (2 * 10 ^ f)"
proof -
  let ?n = "\<lfloor>a * 10 ^ f + 1 / 2\<rfloor>"
  have n0: "0 \<le> ?n" using assms by simp
  have "real_of_int ?n \<le> a * 10 ^ f + 1 / 2" "a * 10 ^ f + 1 / 2 < real_of_int ?n + 1"
    by linarith+
  then have "\<bar>real_of_int ?n - a * 10 ^ f\<bar> \<le> 1 / 2" by linarith
  then have "\<bar>real_of_int ?n / 10 ^ f - a\<bar> \<le> 1 / 2 / 10 ^ f"
    by (simp add: divide_simps abs_le_iff)
  with n0 show ?thesis by simp
qed

lemma to_fixed_roundtrip:
  assumes "\<bar>r\<bar> < 10 ^ 21"
  shows "\<exists>v. parse_fixed (js_to_fixed f (Fin r)) = Some v \<and> \<bar>v - r\<bar> \<le> 1 / (2 * 10 ^ f)"
proof -
  let ?n = "nat \<lfloor>\<bar>r\<bar> * 10 ^ f + 1 / 2\<rfloor>"
  let ?u = "fixed_digits f ?n"
  have u: "parse_unsigned ?u = Some (real ?n / 10 ^ f)" by (rule fixed_digits_parse)
  obtain c t where ct: "?u = c # t" "is_digit c" using fixed_digits_head by blast
  have err: "\<bar>real ?n / 10 ^ f - \<bar>r\<bar>\<bar> \<le> 1 / (2 * 10 ^ f)"
    by (rule round_half_up_error) simp
  have str: "js_to_fixed f (Fin r) = (if r < 0 then ''-'' else []) @ ?u"
    using assms by (simp add: js_to_fixed_def)
  show ?thesis
  proof (cases "r < 0")
    case True
    then have "parse_fixed (js_to_fixed f (Fin r)) = Some (- (real ?n / 10 ^ f))"
      using str u by (simp add: parse_fixed_def)
    moreover have "\<bar>- (real ?n / 10 ^ f) - r\<bar> \<le> 1 / (2 * 10 ^ f)"
      using err True by (simp add: abs_if split: if_splits) linarith?
    ultimately show ?thesis by blast
  next
    case False
    then have "parse_fixed (js_to_fixed f (Fin r)) = Some (real ?n / 10 ^ f)"
      using str u ct by (simp add: parse_fixed_def)
    moreover have "\<bar>real ?n / 10 ^ f - r\<bar> \<le> 1 / (2 * 10 ^ f)"
      using err False by simp
    ultimately show ?thesis by blast
  qed
qed


lemma replicate_numeral: "replicate (numeral k) x = x # replicate (pred_numeral k) x"
  by (simp add: numeral_eq_Suc)

text \<open>What \<open>simp\<close> needs to evaluate \<open>toFixed\<close> on a literal.\<close>

lemmas to_fixed_eval = js_to_fixed_def fixed_digits_def exponent_string_def
  strip_trailing_zeros_def decimal_digits.simps char_of_def bit_0 replicate_numeral

lemma to_fixed_Fin_digits:
  "0 \<le> r \<Longrightarrow> r < 10 ^ 21 \<Longrightarrow> \<lfloor>r * 10 ^ f + 1 / 2\<rfloor> = int n \<Longrightarrow>
     js_to_fixed f (Fin r) = fixed_digits f n"
  by (simp add: js_to_fixed_def)

end
