(* ===== verification/View.thy ===== *)
theory View
  imports Session JS_Format
begin

text \<open>
  What the two components render, as data. \<open>pv_render\<close> is the JSX of
  \<open>PathVisualizer\<close> (\<^verbatim>\<open>PathVisualizer.jsx\<close> lines 110--235) with the
  \<open>MapBoundsHandler\<close> it mounts (lines 23--33): the map with its two traces,
  each drawn as a polyline with a start and a current marker once it has two
  points, or a waiting message. \<open>dr_render\<close> is the JSX of \<open>DRModule\<close>
  (\<^verbatim>\<open>DRModule.jsx\<close> lines 336--558): the Start/Stop button and what it calls,
  the status badges, the error and help lines, the GPS status and the GPS panel.
  The numbers the JSX formats itself with \<open>toFixed\<close> (heading, GPS fix) are
  rendered as the strings \<open>JS_Format\<close> computes; \<open>format2DData\<close> and
  \<open>formatSensorData\<close>, imported from outside the sources, and styling are not
  modelled.
\<close>

section \<open>Data\<close>

text \<open>A trace on the map: the polyline's points, the start marker and the
  current marker.\<close>

type_synonym trace_layer = "latlon list \<times> latlon \<times> latlon"

record pv_view =
  pv_map :: bool
  pv_center :: latlon
  pv_fit :: "latlon list option"
  pv_gps_layer :: "trace_layer option"
  pv_dr_layer :: "trace_layer option"
  pv_message :: "string option"

datatype gps_panel = GpsErrorPanel string | GpsFixPanel gps_location | GpsHint string

record dr_view =
  button_label :: string
  button_action :: session_event
  status_label :: string
  gps_badge :: bool
  calibrating_badge :: bool
  error_line :: "string option"
  help_line :: bool
  gps_status :: string
  gps_card :: gps_panel
  heading_strip :: string
  orientation_card :: string
  gps_card_text :: "(string \<times> string) option"
  path_view :: pv_view

section \<open>Operations\<close>

text \<open>\<open>MapBoundsHandler\<close> (lines 23--33): the map is fitted to all the points
  of both traces when there is at least one.\<close>

definition map_fit :: "latlon list \<Rightarrow> latlon list \<Rightarrow> latlon list option" where
  "map_fit drCoords gpsCoords =
     (let allCoords = drCoords @ gpsCoords
      in if allCoords \<noteq> [] then Some allCoords else None)"

text \<open>One trace (lines 141--172 and 175--207): drawn when it has more than one
  point, from \<open>coords[0]\<close> to \<open>coords[coords.length - 1]\<close>.\<close>

definition trace_layer :: "latlon list \<Rightarrow> trace_layer option" where
  "trace_layer coords =
     (if 1 < length coords then Some (coords, coords ! 0, coords ! (length coords - 1)) else None)"

definition pv_render :: "gps_location option \<Rightarrow> visualizer_state \<Rightarrow> pv_view" where
  "pv_render gps vs =
     (if gps \<noteq> None \<and> (drPathCoords vs \<noteq> [] \<or> gpsPathCoords vs \<noteq> [])
      then \<lparr>pv_map = True, pv_center = mapCenter vs,
            pv_fit = map_fit (drPathCoords vs) (gpsPathCoords vs),
            pv_gps_layer = trace_layer (gpsPathCoords vs),
            pv_dr_layer = trace_layer (drPathCoords vs), pv_message = None\<rparr>
      else \<lparr>pv_map = False, pv_center = mapCenter vs, pv_fit = None, pv_gps_layer = None,
            pv_dr_layer = None,
            pv_message = Some (if gps \<noteq> None then ''Waiting for movement data...''
                               else ''Waiting for GPS signal...'')\<rparr>)"

text \<open>The GPS panel (lines 481--503): an error wins over a fix.\<close>

definition gps_panel_of :: "dr_session \<Rightarrow> gps_panel" where
  "gps_panel_of s =
     (case gpsError s of
        Some e \<Rightarrow> GpsErrorPanel e
      | None \<Rightarrow>
          (case gpsLocation s of
             Some g \<Rightarrow> GpsFixPanel g
           | None \<Rightarrow> GpsHint (if isMonitoring s then ''Acquiring GPS signal...''
                             else ''Start sensors to enable GPS'')))"

text \<open>The heading of the stat strip, \<open>{(heading ?? 0).toFixed(1)}\<degree>\<close>
  (line 440), and of the orientation card, \<open>alpha: ${(heading ?? 0).toFixed(2)}\<degree>\<close>
  (line 543).\<close>

definition heading_text :: "jsnum \<Rightarrow> string" where
  "heading_text h = js_to_fixed 1 (num_of (js_coalesce (JNum h) (JNum (Fin 0)))) @ [degree_sign]"

definition orientation_text :: "jsnum \<Rightarrow> string" where
  "orientation_text h =
     ''alpha: '' @ js_to_fixed 2 (num_of (js_coalesce (JNum h) (JNum (Fin 0)))) @ [degree_sign]"

text \<open>The \<open>dataString\<close> and \<open>unit\<close> of the GPS coordinates card (lines 487--493).\<close>

definition gps_strings :: "gps_location \<Rightarrow> string \<times> string" where
  "gps_strings g =
     (''Lat: '' @ js_to_fixed 6 (latitude g) @ [degree_sign] @ '', Lon: '' @
        js_to_fixed 6 (longitude g) @ [degree_sign],
      [plus_minus_sign] @ js_to_fixed 1 (accuracy g) @ ''m'')"

definition dr_render :: "dr_session \<Rightarrow> dr_view" where
  "dr_render s =
     \<lparr>button_label = (if isMonitoring s then ''Stop Sensors'' else ''Start Sensors''),
      button_action = (if isMonitoring s then StopClick else StartClick),
      status_label = (if isMonitoring s then ''Live'' else ''Idle''),
      gps_badge = (gpsLocation s \<noteq> None),
      calibrating_badge = isCalibrating s,
      error_line = errorMsg s,
      help_line = (\<not> isMonitoring s \<and> errorMsg s = None),
      gps_status = (if gpsLocation s \<noteq> None then ''Active'' else ''Pending''),
      gps_card = gps_panel_of s,
      heading_strip = heading_text (heading s),
      orientation_card = orientation_text (heading s),
      gps_card_text = (case gps_panel_of s of GpsFixPanel g \<Rightarrow> Some (gps_strings g) | _ \<Rightarrow> None),
      path_view = pv_render (gpsLocation s) (vis s)\<rparr>"

section \<open>Invariant\<close>

text \<open>The GPS bookkeeping: a fix has been received exactly when its counter is
  positive, the child has seen no fix beyond the last one, and once it has seen
  one its ground-truth trace is not empty.\<close>

definition gps_inv :: "dr_session \<Rightarrow> bool" where
  "gps_inv s =
     ((gpsLocation s = None) = (gpsSeq s = 0) \<and> visSeenSeq s \<le> gpsSeq s
      \<and> (0 < visSeenSeq s \<longrightarrow> gpsPathCoords (vis s) \<noteq> []))"

section \<open>Lemmas\<close>

lemma ingest_fix_nonempty: "ingest_fix prev p \<noteq> []"
  by (cases prev) (auto simp: ingest_fix_def is_duplicate_def)

lemma dr_path_effect_gps [simp]: "gpsPathCoords (dr_path_effect g p vs) = gpsPathCoords vs"
  by (simp add: dr_path_effect_def Let_def)

lemma gps_inv_commit: "gps_inv s \<Longrightarrow> gps_inv (commit s)"
  by (auto simp: gps_inv_def commit_defs Let_def gps_path_effect_def ingest_fix_nonempty
      split: option.splits)

lemma gps_react_update [simp]:
  "gpsLocation (react_update s t) = (if mounted s then gpsLocation t else gpsLocation s)"
  "gpsSeq (react_update s t) = gpsSeq t" "visSeenSeq (react_update s t) = visSeenSeq t"
  "vis (react_update s t) = vis t"
  by (simp_all add: react_update_def)

lemma gps_inv_step: "gps_inv s \<Longrightarrow> session_step s e = Some t \<Longrightarrow> gps_inv t"
proof (cases e)
  case Commit
  then show "gps_inv s \<Longrightarrow> session_step s e = Some t \<Longrightarrow> gps_inv t"
    by (auto intro: gps_inv_commit split: if_splits)
next
  case (Orientation screen ev)
  then show "gps_inv s \<Longrightarrow> session_step s e = Some t \<Longrightarrow> gps_inv t"
    by (auto simp: gps_inv_def on_orientation_def split: if_splits option.splits)
next
  case (Motion p ev)
  then show "gps_inv s \<Longrightarrow> session_step s e = Some t \<Longrightarrow> gps_inv t"
    by (auto simp: gps_inv_def on_motion_def Let_def split: if_splits motion_outcome.splits)
next
  case (StartResolve pm po)
  then show "gps_inv s \<Longrightarrow> session_step s e = Some t \<Longrightarrow> gps_inv t"
    by (auto simp: gps_inv_def start_resolve_def Let_def split: if_splits permission.splits)
qed (auto simp: gps_inv_def start_click_def stop_monitoring_def clear_path_def gps_success_def
       gps_failure_def timer_fire_def advance_def unmount_def split: if_splits)

lemma reachable_gps_inv: "reachable s \<Longrightarrow> gps_inv s"
proof (rule reachable_invariant [where I = gps_inv])
  show "gps_inv (dr_session_init geo)" for geo by (simp add: gps_inv_def dr_session_init_def)
qed (assumption, rule gps_inv_step)

lemma commit_seen: "visSeenSeq (commit s) = gpsSeq s \<and> gpsSeq (commit s) = gpsSeq s
   \<and> gpsLocation (commit s) = gpsLocation s"
  by (simp add: commit_defs Let_def)

section \<open>Properties\<close>

text \<open>C25. The map appears with the first fix: in every reachable session that
  has received a GPS fix, the render after it shows the map, since the child has
  then ingested a fix and its ground-truth trace is not empty.\<close>

theorem map_shown_after_fix:
  assumes "reachable s" and "gpsLocation s \<noteq> None"
  shows "pv_map (path_view (dr_render (commit s)))"
proof -
  have inv: "gps_inv (commit s)" by (rule gps_inv_commit [OF reachable_gps_inv [OF assms(1)]])
  have "0 < gpsSeq s" using reachable_gps_inv [OF assms(1)] assms(2) by (simp add: gps_inv_def)
  with inv commit_seen [of s] assms(2) have "gpsPathCoords (vis (commit s)) \<noteq> []"
    by (simp add: gps_inv_def)
  with commit_seen [of s] assms(2) show ?thesis
    by (simp add: dr_render_def pv_render_def)
qed

theorem map_shown_after_fix_witness:
  "\<exists>s. session_run (dr_session_init True) (start_events @ [fix_at 0 0]) = Some s
     \<and> pv_map (path_view (dr_render (commit s)))"
proof -
  have "\<exists>s. session_run (dr_session_init True) (start_events @ [fix_at 0 0]) = Some s
          \<and> gpsLocation s \<noteq> None"
    by (simp add: session_eval)
  then obtain s where r: "session_run (dr_session_init True) (start_events @ [fix_at 0 0]) = Some s"
    and g: "gpsLocation s \<noteq> None" by blast
  have "reachable s" by (rule reachable_run [OF reachable.init r])
  with r g map_shown_after_fix [of s] show ?thesis by blast
qed

text \<open>Reset Path and the render after it remove the dead-reckoning trace
  from the map (the path is back to one point, so nothing is projected) and keep
  the ground-truth trace as it was.\<close>

theorem reset_clears_dr_overlay:
  assumes "mounted s" and "gpsSeq s = visSeenSeq s"
  shows "\<exists>t. session_run s [ClearPath, Commit] = Some t \<and> drPathCoords (vis t) = []
     \<and> pv_dr_layer (path_view (dr_render t)) = None \<and> gpsPathCoords (vis t) = gpsPathCoords (vis s)"
  using assms
  by (simp add: clear_path_def commit_defs Let_def dr_path_effect_def dr_render_def pv_render_def
      trace_layer_def)

theorem reset_clears_dr_overlay_witness:
  "\<exists>t. session_run (dr_session_init True) [ClearPath, Commit] = Some t \<and> drPathCoords (vis t) = []"
proof -
  have "mounted (dr_session_init True)" "gpsSeq (dr_session_init True) = visSeenSeq (dr_session_init True)"
    by (simp_all add: dr_session_init_def)
  from reset_clears_dr_overlay [OF this] show ?thesis by blast
qed

text \<open>C36. GPS fixes reach the trace only through renders: in a reachable
  session, when two fixes arrive before a render, the render leaves the
  visualizer exactly as if only the second had arrived: the first fix never
  enters the ground-truth trace nor centres the map.\<close>

theorem gps_fixes_batched:
  assumes "reachable s" and "session_step s (GpsSuccess g1) = Some t"
    and "session_step t (GpsSuccess g2) = Some u"
  shows "vis (commit u) = vis (commit (gps_success g2 s))"
proof -
  have u: "u = gps_success g2 (gps_success g1 s)"
    using assms(2,3) by (auto simp: gps_success_def split: if_splits)
  have "visSeenSeq s \<le> gpsSeq s" using reachable_gps_inv [OF assms(1)] by (simp add: gps_inv_def)
  then show ?thesis
    by (simp add: u gps_success_def commit_defs Let_def)
qed

theorem gps_fixes_batched_witness:
  "\<exists>s t u. session_run (dr_session_init True) start_events = Some s
     \<and> session_step s (fix_at 0 0) = Some t \<and> session_step t (fix_at 0 1) = Some u
     \<and> vis (commit u) = vis (commit (gps_success
          \<lparr>latitude = Fin 0, longitude = Fin 1, accuracy = Fin 5, gps_timestamp = Fin 0\<rparr> s))"
proof -
  have "\<exists>s. session_run (dr_session_init True) start_events = Some s \<and> watching s"
    by (simp add: session_eval)
  then obtain s where r: "session_run (dr_session_init True) start_events = Some s"
    and w: "watching s" by blast
  have re: "reachable s" using r by (blast intro: reachable_run reachable.init)
  obtain t where st: "session_step s (fix_at 0 0) = Some t" using w by simp
  then have "watching t" using w by (auto simp: gps_success_def split: if_splits)
  then obtain u where su: "session_step t (fix_at 0 1) = Some u" by simp
  from gps_fixes_batched [OF re st su] r st su show ?thesis by blast
qed

text \<open>C37. Stop does not withdraw the GPS display: from any mounted monitoring
  render that shows a fix and no GPS error, Stop and the render clear the watch
  and show the session as idle, but the header still shows "GPS Locked", the
  status strip "Active", and the GPS panel the last fix.\<close>

theorem gps_shown_after_stop:
  assumes "mounted s" and "committedMonitoring s" and "gpsLocation s = Some g" and "gpsError s = None"
  shows "\<exists>t. session_run s [StopClick, Commit] = Some t
     \<and> \<not> watching t \<and> \<not> isMonitoring t \<and> status_label (dr_render t) = ''Idle''
     \<and> gps_badge (dr_render t) \<and> gps_status (dr_render t) = ''Active''
     \<and> gps_card (dr_render t) = GpsFixPanel g"
  using assms
  by (simp add: stop_monitoring_def commit_defs Let_def dr_render_def gps_panel_of_def)

theorem gps_shown_after_stop_witness:
  "\<exists>s t. session_run (dr_session_init True) (start_events @ [fix_at 0 0, Commit]) = Some s
     \<and> session_run s [StopClick, Commit] = Some t \<and> \<not> watching t
     \<and> gps_card (dr_render t) =
         GpsFixPanel \<lparr>latitude = Fin 0, longitude = Fin 0, accuracy = Fin 5, gps_timestamp = Fin 0\<rparr>"
proof -
  let ?g = "\<lparr>latitude = Fin 0, longitude = Fin 0, accuracy = Fin 5, gps_timestamp = Fin 0\<rparr>"
  have "\<exists>s. session_run (dr_session_init True) (start_events @ [fix_at 0 0, Commit]) = Some s
      \<and> mounted s \<and> committedMonitoring s \<and> gpsLocation s = Some ?g \<and> gpsError s = None"
    by (simp add: session_eval)
  then obtain s where r: "session_run (dr_session_init True) (start_events @ [fix_at 0 0, Commit]) = Some s"
    and h: "mounted s" "committedMonitoring s" "gpsLocation s = Some ?g" "gpsError s = None" by blast
  from gps_shown_after_stop [OF h] r show ?thesis by blast
qed

end
