(* ===== verification/App.thy ===== *)
theory App
  imports Session
begin

text \<open>
  The landing page: the \<open>App\<close> component concatenated at the end of
  \<^verbatim>\<open>src/src/components/DRModule.jsx\<close> (lines 559--752). Its state is
  \<open>activeModule\<close> (\<open>null\<close>, \<open>"dr"\<close> or \<open>"slam"\<close>); "Explore DR" and
  "Explore SLAM" set it from the landing page, "Back to Home" clears it. The
  module page mounts \<open>DRModule\<close> while \<open>activeModule === "dr"\<close>: entering
  mounts a fresh session (\<open>dr_session_init\<close>), leaving runs the unmount
  cleanup. An unmounted instance is not gone: its pending timers, prompts and
  leaked listeners still run, so it is kept in \<open>detached\<close> and can still take
  the events \<open>session_step\<close> admits. The SLAM module is outside the sources
  and is only a page here.
\<close>

section \<open>Data\<close>

datatype app_module = DRMod | SLAMMod

record app_state =
  activeModule :: "app_module option"
  drInstance :: "dr_session option"
  detached :: "dr_session list"
  geoAvailable :: bool

definition app_init :: "bool \<Rightarrow> app_state" where
  "app_init geo = \<lparr>activeModule = None, drInstance = None, detached = [], geoAvailable = geo\<rparr>"

datatype app_event =
    ExploreDR
  | ExploreSLAM
  | BackHome
  | InDR session_event
  | InDetached nat session_event

text \<open>What is on screen (lines 571--752): the landing page, or the module page
  with its title and the module mounted in it.\<close>

datatype app_view = Landing | ModulePage string app_module

section \<open>Operations\<close>

definition app_render :: "app_state \<Rightarrow> app_view" where
  "app_render st =
     (case activeModule st of
        None \<Rightarrow> Landing
      | Some m \<Rightarrow> ModulePage (if m = DRMod then ''Dead Reckoning Module'' else ''Visual SLAM Module'') m)"

text \<open>\<open>setActiveModule("dr")\<close> and \<open>setActiveModule("slam")\<close> (lines 655
  and 705, buttons of the landing page only), \<open>setActiveModule(null)\<close> (line
  732); the render that follows mounts or unmounts \<open>DRModule\<close> (line 747).\<close>

definition explore :: "app_module \<Rightarrow> app_state \<Rightarrow> app_state" where
  "explore m st =
     st\<lparr>activeModule := Some m,
        drInstance := (if m = DRMod then Some (dr_session_init (geoAvailable st)) else None)\<rparr>"

definition back_home :: "app_state \<Rightarrow> app_state" where
  "back_home st =
     st\<lparr>activeModule := None, drInstance := None,
        detached := detached st @ (case drInstance st of None \<Rightarrow> [] | Some d \<Rightarrow> [unmount d])\<rparr>"

fun app_step :: "app_state \<Rightarrow> app_event \<Rightarrow> app_state option" where
  "app_step st ExploreDR = (if activeModule st = None then Some (explore DRMod st) else None)"
| "app_step st ExploreSLAM = (if activeModule st = None then Some (explore SLAMMod st) else None)"
| "app_step st BackHome = (if activeModule st \<noteq> None then Some (back_home st) else None)"
| "app_step st (InDR e) =
     (case drInstance st of
        None \<Rightarrow> None
      | Some d \<Rightarrow>
          if e = Unmount then None
          else map_option (\<lambda>d'. st\<lparr>drInstance := Some d'\<rparr>) (session_step d e))"
| "app_step st (InDetached i e) =
     (if i < length (detached st)
      then map_option (\<lambda>d'. st\<lparr>detached := (detached st)[i := d']\<rparr>) (session_step (detached st ! i) e)
      else None)"

fun app_run :: "app_state \<Rightarrow> app_event list \<Rightarrow> app_state option" where
  "app_run st [] = Some st"
| "app_run st (e # es) = (case app_step st e of None \<Rightarrow> None | Some st' \<Rightarrow> app_run st' es)"

inductive app_reachable :: "app_state \<Rightarrow> bool" where
  init: "app_reachable (app_init geo)"
| step: "app_reachable st \<Longrightarrow> app_step st e = Some st' \<Longrightarrow> app_reachable st'"

section \<open>Invariant\<close>

text \<open>A DR instance is mounted exactly while the DR page is shown; it satisfies
  the session invariant and is mounted; every detached instance satisfies the
  session invariant and is unmounted.\<close>

definition app_inv :: "app_state \<Rightarrow> bool" where
  "app_inv st =
     ((drInstance st \<noteq> None \<longleftrightarrow> activeModule st = Some DRMod)
      \<and> (case drInstance st of None \<Rightarrow> True | Some d \<Rightarrow> session_inv d \<and> mounted d)
      \<and> list_all (\<lambda>d. session_inv d \<and> \<not> mounted d) (detached st))"

section \<open>Lemmas\<close>

lemma mounted_step:
  "session_step d e = Some d' \<Longrightarrow> e \<noteq> Unmount \<Longrightarrow> mounted d' = mounted d"
  by (cases e)
     (auto simp: react_update_def start_click_def stop_monitoring_def clear_path_def gps_success_def
        gps_failure_def commit_defs Let_def advance_def split: if_splits)

lemma unmounted_step: "session_step d e = Some d' \<Longrightarrow> \<not> mounted d \<Longrightarrow> \<not> mounted d'"
  by (cases "e = Unmount") (auto dest: mounted_step)

lemma list_all_update: "list_all P xs \<Longrightarrow> P x \<Longrightarrow> list_all P (xs[i := x])"
  by (induction xs arbitrary: i) (auto split: nat.split)

lemma session_inv_unmount: "session_inv d \<Longrightarrow> session_inv (unmount d) \<and> \<not> mounted (unmount d)"
  by (simp add: session_inv_def timers_ok_def unmount_def)

lemma app_inv_step: "app_inv st \<Longrightarrow> app_step st e = Some st' \<Longrightarrow> app_inv st'"
proof (cases e)
  case ExploreDR
  then show "app_inv st \<Longrightarrow> app_step st e = Some st' \<Longrightarrow> app_inv st'"
    using inv_init by (auto simp: app_inv_def explore_def dr_session_init_def split: if_splits)
next
  case BackHome
  then show "app_inv st \<Longrightarrow> app_step st e = Some st' \<Longrightarrow> app_inv st'"
    by (auto simp: app_inv_def back_home_def session_inv_unmount split: if_splits option.splits)
next
  case (InDR ev)
  then show "app_inv st \<Longrightarrow> app_step st e = Some st' \<Longrightarrow> app_inv st'"
    by (auto simp: app_inv_def dest: session_step_inv mounted_step split: option.splits if_splits)
next
  case (InDetached i ev)
  show "app_inv st \<Longrightarrow> app_step st e = Some st' \<Longrightarrow> app_inv st'"
  proof -
    assume inv: "app_inv st" and st: "app_step st e = Some st'"
    with InDetached obtain d' where i: "i < length (detached st)"
      and d': "session_step (detached st ! i) ev = Some d'"
      and st': "st' = st\<lparr>detached := (detached st)[i := d']\<rparr>"
      by (auto split: if_splits)
    from inv i have "session_inv (detached st ! i)" "\<not> mounted (detached st ! i)"
      by (auto simp: app_inv_def list_all_length)
    with d' have "session_inv d' \<and> \<not> mounted d'"
      using session_step_inv unmounted_step by blast
    with inv st' show ?thesis by (simp add: app_inv_def list_all_update)
  qed
qed (auto simp: app_inv_def explore_def split: if_splits)

lemma app_reachable_inv: "app_reachable st \<Longrightarrow> app_inv st"
proof (induction rule: app_reachable.induct)
  case (init geo)
  show ?case by (simp add: app_inv_def app_init_def)
next
  case (step st e st')
  then show ?case by (blast intro: app_inv_step)
qed

lemma app_reachable_run: "app_reachable st \<Longrightarrow> app_run st es = Some st' \<Longrightarrow> app_reachable st'"
proof (induction es arbitrary: st)
  case Nil
  then show ?case by simp
next
  case (Cons e es)
  then show ?case by (auto intro: app_reachable.step split: option.splits)
qed

section \<open>Properties\<close>

text \<open>C13. Navigation releases the geolocation watch: in every reachable state
  of the page, a DR session is mounted exactly while the DR page is shown, and
  every session left behind by "Back to Home" is unmounted and holds no
  geolocation watch, whatever its pending timers and prompts do afterwards.\<close>

theorem app_resources:
  "app_reachable st \<Longrightarrow>
     (drInstance st \<noteq> None \<longleftrightarrow> activeModule st = Some DRMod)
     \<and> list_all (\<lambda>d. \<not> mounted d \<and> \<not> watching d) (detached st)"
  using app_reachable_inv [of st]
  by (auto simp: app_inv_def session_inv_def list_all_iff)

theorem app_resources_witness:
  "\<exists>st. app_run (app_init True)
          [ExploreDR, InDR StartClick, InDR (StartResolve NoPrompt NoPrompt), InDR Commit, BackHome]
        = Some st \<and> drInstance st = None \<and> length (detached st) = 1
     \<and> list_all (\<lambda>d. \<not> mounted d \<and> \<not> watching d) (detached st)"
proof -
  let ?es = "[ExploreDR, InDR StartClick, InDR (StartResolve NoPrompt NoPrompt), InDR Commit, BackHome]"
  have "\<exists>st. app_run (app_init True) ?es = Some st \<and> drInstance st = None \<and> length (detached st) = 1"
    by (simp add: app_init_def explore_def back_home_def session_eval)
  then obtain st where r: "app_run (app_init True) ?es = Some st"
    and d: "drInstance st = None" "length (detached st) = 1" by blast
  have "app_reachable st" by (rule app_reachable_run [OF app_reachable.init r])
  with r d app_resources [of st] show ?thesis by blast
qed

end
