(* ===== verification/PV_Effects.thy ===== *)
theory PV_Effects
  imports Session
begin

text \<open>
  How React schedules the two effects of \<open>PathVisualizer\<close>
  (\<^verbatim>\<open>PathVisualizer.jsx\<close> lines 51--109). After a render an effect runs when
  one of its dependencies differs from the values it saw on its last run (on
  mount, always): the projection effect depends on \<open>[path, gpsLocation,
  initialCenter]\<close> (line 80), the GPS effect on \<open>[gpsLocation]\<close> (line 109).
  The effects' state updates cause another render, and the cycle repeats until
  no dependency changed. The projection effect sets \<open>initialCenter\<close>, one of
  its own dependencies, so the cycle does not stop by construction; it stops
  because the effect only sets it while it is \<open>null\<close>.

  Dependencies are compared by identity (\<open>Object.is\<close>): \<open>path\<close> and
  \<open>gpsLocation\<close> carry a number that changes with every new array or object,
  and \<open>initialCenter\<close> its \<open>initialCenterId\<close>, which every
  \<open>setInitialCenter\<close> call advances, since each passes a new array.
\<close>

section \<open>Data\<close>

record pv_props =
  p_path :: "vec2 list"
  p_pathId :: nat
  p_gps :: "gps_location option"
  p_gpsId :: nat

record pv_runtime =
  rt_vis :: visualizer_state
  rt_dep1 :: "(nat \<times> nat \<times> nat) option"
  rt_dep2 :: "nat option"

definition pv_mount :: pv_runtime where
  "pv_mount = \<lparr>rt_vis = visualizer_init, rt_dep1 = None, rt_dep2 = None\<rparr>"

section \<open>Operations\<close>

text \<open>The dependency arrays of lines 80 and 109, read in the current render.\<close>

definition deps1 :: "pv_props \<Rightarrow> pv_runtime \<Rightarrow> nat \<times> nat \<times> nat" where
  "deps1 pr rt = (p_pathId pr, p_gpsId pr, initialCenterId (rt_vis rt))"

definition effects_due :: "pv_props \<Rightarrow> pv_runtime \<Rightarrow> bool" where
  "effects_due pr rt = (rt_dep1 rt \<noteq> Some (deps1 pr rt) \<or> rt_dep2 rt \<noteq> Some (p_gpsId pr))"

text \<open>One commit: the effects whose dependencies changed run in source order,
  each recording the dependencies of the render it belongs to.\<close>

definition run_effects :: "pv_props \<Rightarrow> pv_runtime \<Rightarrow> pv_runtime" where
  "run_effects pr rt =
     (let d1 = deps1 pr rt;
          rt1 = (if rt_dep1 rt \<noteq> Some d1
                 then rt\<lparr>rt_vis := dr_path_effect (p_gps pr) (p_path pr) (rt_vis rt), rt_dep1 := Some d1\<rparr>
                 else rt)
      in if rt_dep2 rt1 \<noteq> Some (p_gpsId pr)
         then rt1\<lparr>rt_vis := gps_path_effect (p_gps pr) (rt_vis rt1), rt_dep2 := Some (p_gpsId pr)\<rparr>
         else rt1)"

text \<open>Render and commit until no effect is due. Written as a possibly
  non-terminating loop: \<open>None\<close> would be an endless render cycle.\<close>

partial_function (option) pv_settle :: "pv_props \<Rightarrow> pv_runtime \<Rightarrow> pv_runtime option" where
  "pv_settle pr rt = (if effects_due pr rt then pv_settle pr (run_effects pr rt) else Some rt)"

section \<open>Lemmas\<close>

text \<open>The projection effect calls \<open>setInitialCenter\<close> only while
  \<open>initialCenter\<close> is \<open>null\<close>, and then sets it.\<close>

lemma dr_path_effect_center:
  "initialCenter vs \<noteq> None \<Longrightarrow>
     initialCenter (dr_path_effect g p vs) = initialCenter vs
     \<and> initialCenterId (dr_path_effect g p vs) = initialCenterId vs"
  by (auto simp: dr_path_effect_def Let_def)

lemma dr_path_effect_id_changed:
  "initialCenterId (dr_path_effect g p vs) \<noteq> initialCenterId vs \<Longrightarrow>
     initialCenter (dr_path_effect g p vs) \<noteq> None"
  by (auto simp: dr_path_effect_def Let_def split: if_splits)

lemma gps_path_effect_center [simp]:
  "initialCenter (gps_path_effect g vs) = initialCenter vs"
  "initialCenterId (gps_path_effect g vs) = initialCenterId vs"
  by (simp_all add: gps_path_effect_def Let_def split: option.split)

lemma run_effects_idle: "\<not> effects_due pr rt \<Longrightarrow> run_effects pr rt = rt"
  by (simp add: effects_due_def run_effects_def Let_def)

lemma run_effects_dep2: "rt_dep2 (run_effects pr rt) = Some (p_gpsId pr)"
  by (simp add: run_effects_def Let_def)

lemma run_effects_dep1: "rt_dep1 (run_effects pr rt) = Some (deps1 pr rt)"
  by (auto simp: run_effects_def Let_def)

lemma run_effects_center:
  "initialCenter (rt_vis rt) \<noteq> None \<Longrightarrow>
     initialCenter (rt_vis (run_effects pr rt)) = initialCenter (rt_vis rt)
     \<and> initialCenterId (rt_vis (run_effects pr rt)) = initialCenterId (rt_vis rt)"
  by (simp add: run_effects_def Let_def dr_path_effect_center)

lemma run_effects_id_changed:
  "initialCenterId (rt_vis (run_effects pr rt)) \<noteq> initialCenterId (rt_vis rt) \<Longrightarrow>
     initialCenter (rt_vis (run_effects pr rt)) \<noteq> None"
  by (auto simp: run_effects_def Let_def dest: dr_path_effect_id_changed split: if_splits)

lemma settle_done: "\<not> effects_due pr rt \<Longrightarrow> pv_settle pr rt = Some rt"
  by (simp add: pv_settle.simps)

lemma settle_step: "effects_due pr rt \<Longrightarrow> pv_settle pr rt = pv_settle pr (run_effects pr rt)"
  by (subst pv_settle.simps) simp

text \<open>Two commits settle: after one, the GPS effect is up to date and the
  projection effect is due only if \<open>initialCenter\<close> changed, which it does
  at most once.\<close>

lemma two_runs_settle: "\<not> effects_due pr (run_effects pr (run_effects pr rt))"
proof -
  let ?r1 = "run_effects pr rt"
  show ?thesis
  proof (cases "initialCenterId (rt_vis ?r1) = initialCenterId (rt_vis rt)")
    case True
    then have "\<not> effects_due pr ?r1"
      by (simp add: effects_due_def run_effects_dep1 run_effects_dep2 deps1_def)
    then show ?thesis by (simp add: run_effects_idle)
  next
    case False
    then have "initialCenter (rt_vis ?r1) \<noteq> None" by (rule run_effects_id_changed)
    then have "initialCenterId (rt_vis (run_effects pr ?r1)) = initialCenterId (rt_vis ?r1)"
      using run_effects_center by blast
    then show ?thesis
      by (simp add: effects_due_def run_effects_dep1 run_effects_dep2 deps1_def)
  qed
qed

lemma settle_within_two:
  "pv_settle pr rt \<in> {Some rt, Some (run_effects pr rt), Some (run_effects pr (run_effects pr rt))}"
proof (cases "effects_due pr rt")
  case due: True
  show ?thesis
  proof (cases "effects_due pr (run_effects pr rt)")
    case True
    with due show ?thesis by (simp add: settle_step settle_done two_runs_settle)
  next
    case False
    with due show ?thesis by (simp add: settle_step settle_done)
  qed
qed (simp add: settle_done)

lemma gps_path_effect_dr [simp]: "drPathCoords (gps_path_effect g vs) = drPathCoords vs"
  by (simp add: gps_path_effect_def Let_def split: option.split)

text \<open>The second commit of a cascade changes no view state: it only reprojects
  the same path.\<close>

lemma rerun_invisible:
  assumes "effects_due pr (run_effects pr rt)"
  shows "rt_vis (run_effects pr (run_effects pr rt)) = rt_vis (run_effects pr rt)"
  using assms
  by (auto simp: effects_due_def run_effects_def deps1_def Let_def dr_path_effect_def
           split: if_splits)

lemma settle_vis: "map_option rt_vis (pv_settle pr rt) = Some (rt_vis (run_effects pr rt))"
proof (cases "effects_due pr rt")
  case due: True
  show ?thesis
  proof (cases "effects_due pr (run_effects pr rt)")
    case True
    with due show ?thesis by (simp add: settle_step settle_done two_runs_settle rerun_invisible)
  next
    case False
    with due show ?thesis by (simp add: settle_step settle_done)
  qed
qed (simp add: settle_done run_effects_idle)

text \<open>C14. The effect cascade of PathVisualizer always settles: from any
  props and any effect bookkeeping, rendering and committing until no
  dependency changed returns, and in the state it returns no effect is due,
  although the projection effect writes its own dependency \<open>initialCenter\<close>.\<close>

theorem pv_effects_settle: "\<exists>rt'. pv_settle pr rt = Some rt' \<and> \<not> effects_due pr rt'"
proof (cases "effects_due pr rt")
  case due: True
  show ?thesis
  proof (cases "effects_due pr (run_effects pr rt)")
    case True
    with due show ?thesis by (simp add: settle_step settle_done two_runs_settle)
  next
    case False
    with due show ?thesis by (simp add: settle_step settle_done)
  qed
qed (simp add: settle_done)

text \<open>C15. The session model's single-pass \<open>child_effects\<close> (used by
  \<open>commit\<close>) refines React's effect cascade: whenever the path or the fix
  changed since the last commit, the cascade settles on exactly the view state
  that \<open>child_effects\<close> computes, the extra render after
  \<open>setInitialCenter\<close> included.\<close>

theorem child_effects_refines:
  assumes "rt_vis rt = vis s" and "rt_dep2 rt = Some (visSeenSeq s)"
    and "p_path pr = path s" and "p_gps pr = gpsLocation s" and "p_gpsId pr = gpsSeq s"
    and "rt_dep1 rt \<noteq> Some (deps1 pr rt)"
  shows "map_option rt_vis (pv_settle pr rt) = Some (vis (child_effects s))"
  using assms by (simp add: settle_vis run_effects_def child_effects_def Let_def)

theorem child_effects_refines_witness:
  "map_option rt_vis
     (pv_settle \<lparr>p_path = [vec_zero, \<lparr>vx = Fin 0, vy = Fin 1\<rparr>], p_pathId = 1,
                 p_gps = Some \<lparr>latitude = Fin 0, longitude = Fin 0, accuracy = Fin 5, gps_timestamp = Fin 0\<rparr>,
                 p_gpsId = 1\<rparr>
                \<lparr>rt_vis = visualizer_init, rt_dep1 = Some (0, 0, 0), rt_dep2 = Some 0\<rparr>)
   = Some (vis (child_effects ((dr_session_init True)\<lparr>path := [vec_zero, \<lparr>vx = Fin 0, vy = Fin 1\<rparr>],
        gpsLocation := Some \<lparr>latitude = Fin 0, longitude = Fin 0, accuracy = Fin 5, gps_timestamp = Fin 0\<rparr>,
        gpsSeq := 1\<rparr>)))"
  by (rule child_effects_refines) (simp_all add: dr_session_init_def deps1_def)

end
