(* ===== verification/Display.thy ===== *)
theory Display
  imports View
begin

text \<open>
  The numbers the \<open>DRModule\<close> JSX formats itself: the heading in the stat
  strip and the orientation card, and the GPS coordinates card. Their
  strings are computed by \<open>JS_Format.js_to_fixed\<close>; the lemmas read them back
  with \<open>parse_fixed\<close>.
\<close>

section \<open>Lemmas\<close>

lemma gps_card_fix:
  assumes "gps_card_text (dr_render s) = Some (d, w)" and "gpsLocation s = Some g"
  shows "(d, w) = gps_strings g"
  using assms by (auto simp: dr_render_def gps_panel_of_def split: option.splits gps_panel.splits)

lemma to_fixed_6_roundtrip:
  "\<bar>r\<bar> < 10 ^ 21 \<Longrightarrow> \<exists>u. parse_fixed (js_to_fixed 6 (Fin r)) = Some u \<and> \<bar>u - r\<bar> \<le> 1 / 2000000"
  using to_fixed_roundtrip [of r 6] by simp

text \<open>C16. The GPS card shows the fix to within half a unit of its sixth
  decimal: whenever the card shows coordinates, its text is
  \<open>Lat: a\<degree>, Lon: b\<degree>\<close> where \<open>a\<close> and \<open>b\<close>, read as decimals, differ from
  the fix's latitude and longitude by at most 0.0000005.\<close>

theorem gps_card_roundtrip:
  assumes "gps_card_text (dr_render s) = Some (d, w)" and "gpsLocation s = Some g"
    and "latitude g = Fin la" and "longitude g = Fin lo"
    and "\<bar>la\<bar> < 10 ^ 21" and "\<bar>lo\<bar> < 10 ^ 21"
  shows "\<exists>a b u v. d = ''Lat: '' @ a @ [degree_sign] @ '', Lon: '' @ b @ [degree_sign]
           \<and> parse_fixed a = Some u \<and> parse_fixed b = Some v
           \<and> \<bar>u - la\<bar> \<le> 1 / 2000000 \<and> \<bar>v - lo\<bar> \<le> 1 / 2000000"
proof -
  have "d = fst (gps_strings g)" using gps_card_fix [OF assms(1,2)] by (metis fst_conv)
  then have d: "d = ''Lat: '' @ js_to_fixed 6 (Fin la) @ [degree_sign] @ '', Lon: '' @
                  js_to_fixed 6 (Fin lo) @ [degree_sign]"
    using assms(3,4) by (simp add: gps_strings_def)
  obtain u v where "parse_fixed (js_to_fixed 6 (Fin la)) = Some u" "\<bar>u - la\<bar> \<le> 1 / 2000000"
      "parse_fixed (js_to_fixed 6 (Fin lo)) = Some v" "\<bar>v - lo\<bar> \<le> 1 / 2000000"
    using to_fixed_6_roundtrip assms(5,6) by blast
  with d show ?thesis by blast
qed

abbreviation munich_fix :: gps_location where
  "munich_fix \<equiv> \<lparr>latitude = Fin (48137 / 1000), longitude = Fin (11575 / 1000),
                  accuracy = Fin 5, gps_timestamp = Fin 0\<rparr>"

theorem gps_card_roundtrip_witness:
  "\<exists>a b u v. fst (gps_strings munich_fix) = ''Lat: '' @ a @ [degree_sign] @ '', Lon: '' @ b @ [degree_sign]
     \<and> parse_fixed a = Some u \<and> parse_fixed b = Some v
     \<and> \<bar>u - 48137 / 1000\<bar> \<le> 1 / 2000000 \<and> \<bar>v - 11575 / 1000\<bar> \<le> 1 / 2000000"
  by (rule gps_card_roundtrip [of "(dr_session_init True)\<lparr>gpsLocation := Some munich_fix\<rparr>"
        _ "snd (gps_strings munich_fix)" munich_fix])
     (simp_all add: dr_render_def gps_panel_of_def dr_session_init_def)

text \<open>C17. A heading in [359.95, 360), inside the range the heading is proved to
  keep, is displayed in the stat strip as \<open>360.0\<degree>\<close>: \<open>toFixed(1)\<close> rounds
  it up to the value the normalisation excludes.\<close>

theorem heading_display_360:
  assumes "heading s = Fin h" and "35995 / 100 \<le> h" and "h < 360"
  shows "heading_strip (dr_render s) = ''360.0'' @ [degree_sign]"
proof -
  have "\<lfloor>h * 10 ^ 1 + 1 / 2\<rfloor> = int 3600" using assms(2,3) by (simp add: floor_eq_iff)
  then have "js_to_fixed 1 (Fin h) = fixed_digits 1 3600"
    using assms(2,3) by (intro to_fixed_Fin_digits) simp_all
  then show ?thesis
    using assms(1)
    by (simp add: dr_render_def heading_text_def fixed_digits_def decimal_digits.simps char_of_def bit_0)
qed

theorem heading_display_360_witness:
  "heading_strip (dr_render ((dr_session_init True)\<lparr>heading := Fin (35996 / 100)\<rparr>))
     = ''360.0'' @ [degree_sign]"
  by (rule heading_display_360 [where h = "35996 / 100"]) simp_all

end
