(* ===== verification/Spec2Isabelle.thy ===== *)
theory Spec2Isabelle
  imports Heading Motion MotionSpec Georef Session SessionProps SessionTyped View App PV_Effects Display
begin

text \<open>
  Verification development of the dead-reckoning module of the SmartNav
  dashboard: the React component \<open>DRModule\<close>
  (\<^verbatim>\<open>src/src/components/DRModule.jsx\<close>, lines 10--558), its child
  \<open>PathVisualizer\<close> (\<^verbatim>\<open>src/src/components/PathVisualizer.jsx\<close>), and the
  \<open>App\<close> landing page that mounts it (the same file, lines 559--752).

  \<^bold>\<open>The program.\<close> Two window listeners turn sensor events into an estimate:
  \<open>handleDeviceOrientation\<close> (lines 56--121) filters the compass into a
  heading and raises a 2-second "calibrating" signal on a jump;
  \<open>handleDeviceMotion\<close> (lines 124--212) rotates linear acceleration by the
  heading and integrates it twice, with stationary detection, bias learning,
  a dead zone and velocity damping. The handlers keep their state in refs; the
  React state shown on screen is set from them, and effects copy the state back
  into the refs after each render (lines 42--53). \<open>startMonitoring\<close>,
  \<open>stopMonitoring\<close> and \<open>clearPath\<close> (lines 215--268) attach and detach the
  listeners and reset the path; an effect on \<open>isMonitoring\<close> (lines 282--334)
  runs a geolocation watch whose fixes go to \<open>PathVisualizer\<close>, which projects
  the path onto latitude/longitude anchored at the fix (lines 51--80) and keeps a
  deduplicated trace of the fixes (lines 83--109).

  \<^bold>\<open>Theories.\<close>
  \<^item> \<open>JS_Number\<close> (prelude): JS doubles as \<open>Fin r | PosInf | NegInf | NaN\<close>
    with the IEEE rules of every operation used, \<open>v || 0\<close>, \<open>a ?? b\<close>,
    \<open>atan2\<close>, the truncating \<open>%\<close>, \<open>Math.hypot\<close>; the \<open>js_finite\<close> closure
    lemmas shared by the components.
  \<^item> \<open>JS_Format\<close>: \<open>Number.prototype.toFixed\<close> (\<open>js_to_fixed\<close>, ECMAScript
    21.1.3.3: round half up on the magnitude, digits padded to the point, the
    exponent form of \<open>Number::toString\<close> from 10^21) and \<open>parse_fixed\<close>, which
    reads its output back (\<open>to_fixed_roundtrip\<close>: within half a unit of the last
    digit).
  \<^item> \<open>Heading\<close>: \<open>handleDeviceOrientation\<close> as the composition
    \<open>tilt_compensate\<close>, \<open>low_pass\<close>, \<open>platform_adjust\<close>, \<open>interference\<close> over
    the filter record \<open>compass_filter\<close> (\<open>compassFilterRef\<close>); \<open>None\<close> is the
    guard's silent drop.
  \<^item> \<open>Motion\<close>: \<open>handleDeviceMotion\<close> over \<open>motion_state\<close> (the six refs),
    split as in the code into \<open>delta_time\<close>/\<open>dt_rejected\<close>,
    \<open>stationary_count\<close>/\<open>learn_bias\<close>, \<open>deadzone\<close>, \<open>rotate_world\<close> and
    \<open>integrate\<close>, with the branch taken as a \<open>motion_outcome\<close>; \<open>motion_run\<close>
    folds a sequence of events.
  \<^item> \<open>MotionSpec\<close>: the motion integrator as the specification (section
    4.2) states it, on reals (\<open>spec_update\<close>, \<open>spec_run\<close>), the abstraction
    \<open>abs_motion\<close> of the refs, and the refinement of the specification by
    \<open>motion_core\<close>, step by step and over accepted streams.
  \<^item> \<open>Georef\<close>: the child's effects, \<open>project_point\<close>/\<open>project_path\<close>/
    \<open>dr_path_effect\<close> and \<open>gps_distance\<close>/\<open>is_duplicate\<close>/\<open>ingest_fix\<close>/
    \<open>gps_path_effect\<close>, with \<open>unproject\<close> as the specification of the
    projection.
  \<^item> \<open>Session\<close>: the whole component as a transition system. \<open>dr_session\<close>
    holds the React state, the refs, the listeners and watch held, the pending
    permission requests and calibration timers, a clock and the child's state;
    \<open>session_event\<close> lists what can happen (sensor events, the buttons, the
    prompts resolving, GPS callbacks, a render \<open>commit\<close> = \<open>sync_refs\<close>,
    \<open>watch_effect\<close>, \<open>child_effects\<close>, a timer firing, time passing, unmount);
    \<open>session_step\<close> is one event (\<open>None\<close> when it cannot occur),
    \<open>reachable\<close> the states reachable from mount and \<open>reachable_in P\<close> those
    reachable through events satisfying \<open>P\<close>. A \<open>mounted\<close> flag records
    the unmount: afterwards buttons and renders stop and \<open>react_update\<close>
    discards \<open>setState\<close> calls, while timers, pending prompts and attached
    listeners still run. The invariant \<open>session_inv\<close> and the invariant rules
    are proved here.
  \<^item> \<open>SessionProps\<close>: the session's properties.
  \<^item> \<open>SessionTyped\<close>: well-formed sensor input (\<open>wf_event\<close>) and the typing
    predicate \<open>session_typed A\<close> (heading ranges, filter, and the bias and
    velocity bounded by the acceleration bound \<open>A\<close> of the input).
  \<^item> \<open>View\<close>: what is rendered, as data: \<open>pv_render\<close> (the map or a waiting
    message, each trace as a polyline with start and current markers,
    \<open>map_fit\<close> for \<open>MapBoundsHandler\<close>) and \<open>dr_render\<close> (button label and
    the handler it calls, badges, error and help lines, the GPS panel, and the
    \<open>toFixed\<close> strings of lines 440, 487--493 and 543: \<open>heading_text\<close>,
    \<open>orientation_text\<close>, \<open>gps_strings\<close>).
  \<^item> \<open>Display\<close>: what the formatted numbers show.
  \<^item> \<open>App\<close>: the landing page as a state machine over \<open>activeModule\<close>, the
    mounted DR session and the unmounted ones left behind (\<open>detached\<close>),
    whose pending work still runs; \<open>app_step\<close> forwards events to them.
  \<^item> \<open>PV_Effects\<close>: React's scheduling of the two \<open>useEffect\<close> calls of
    \<open>PathVisualizer\<close> (lines 51--109): the dependency arrays
    (\<open>deps1\<close>, \<open>effects_due\<close>), one commit (\<open>run_effects\<close>) and the
    render cycle until no dependency changed (\<open>pv_settle\<close>, a
    \<open>partial_function (option)\<close>, \<open>None\<close> being an endless render loop).
    Dependencies are compared by identity, as React's \<open>Object.is\<close> does:
    \<open>initialCenter\<close> by \<open>initialCenterId\<close>, which every
    \<open>setInitialCenter\<close> call advances.

  \<^bold>\<open>What is proved.\<close> Heading: the heading stays in [0, 360) on finite
  readings (C1), the guard, first-sample and smoothing behaviour, and four
  divergences (a non-finite value poisons the filter for good, iOS yields 360,
  angles are averaged linearly across north, and the signal needs a 100 degree
  raw jump instead of 20). Motion: the time-stamp guard does not advance the
  baseline, the stationary branch, damped velocity never grows, preservation of
  finiteness, convergence of quiet streams, and the NaN-as-zero and infinity
  paths (a sample with an infinite component is integrated from every finite
  state); and the refinement: on every accepted stream the code's run is the
  specified run under \<open>abs_motion\<close>, with the rotation angle minus the heading
  (the code rotates clockwise, the compass convention). Georef: projection round trip against
  \<open>unproject\<close>, and the ground-truth trace for every fix sequence: in
  arrival order, 0.5 m separated, and covering every fix (\<open>covers\<close>), so a
  fix is dropped exactly when it revisits any stored point. Session,
  by rule induction over \<open>reachable\<close> on the invariant \<open>session_inv\<close>: the path
  always starts at the origin, listeners and watch follow the monitoring flag,
  the calibrating flag clears within 2000 ms; and per operation: reset, start,
  denied start, stop, bias persistence, and the ordering facts that a heading
  reaches the integrator only through a render, that Reset Path is undone by
  motion before the next render (for every sequence of samples), that a new
  jump does not extend the calibrating window and that every pending timer
  fires after unmount; listeners attached to an unmounted component stay for
  good. SessionTyped, by the invariant rule over \<open>reachable_in (wf_event A)\<close>:
  headings in range, and bias and velocity bounded by the input's acceleration
  bound, so no velocity computation can overflow a double. App, on the
  invariant \<open>app_inv\<close>: a DR session is mounted exactly on the DR page and the
  sessions left behind hold no geolocation watch. View, on a second invariant
  \<open>gps_inv\<close> of the GPS bookkeeping: the render after a fix always shows the
  map; two fixes between renders leave the view as the second alone; Stop leaves
  the GPS display on. PV_Effects: the render cycle always settles, after at most two
  commits, although the projection effect sets its own dependency
  \<open>initialCenter\<close>; and the settled cascade yields the view that the
  single pass \<open>child_effects\<close> of the session's commit computes, which is
  the refinement that justifies modelling the child's effects as one pass.
  Display: the GPS card's coordinates read back within 0.0000005 of the fix,
  and a heading in [359.95, 360) is shown as \<open>360.0\<degree>\<close>.

  \<^bold>\<open>Modelling choices.\<close> Doubles are reals (no rounding, no signed zero);
  \<open>Math.PI\<close> is \<open>pi\<close>, so \<open>Math.cos(Math.PI / 2)\<close> is exactly 0 here.
  \<open>toFixed\<close> therefore rounds the exact value: a decimal such as 1.005,
  which no double holds, gives \<open>1.01\<close> here and \<open>1.00\<close> in a browser; the
  text of every value a double holds exactly is the browser's.
  Each handler, callback and effect runs atomically, as JavaScript runs them;
  the interleavings that matter are the orders of events, and a render is an
  explicit event, so every order the browser can produce is a sequence of
  \<open>session_event\<close>s. Object identity of GPS fixes (which decides whether the
  child's effect runs) is a sequence number. A \<open>setTimeout\<close> is a pending
  deadline; time advances only up to the earliest deadline, so a timer fires no
  later than it was due. After unmount React ignores state updates, so the
  model keeps the state fields of an unmounted session unchanged. The model
  splits \<open>startMonitoring\<close> at its \<open>await\<close>s even on a browser without
  \<open>requestPermission\<close>, where it runs in one go: it admits more interleavings
  than the browser, so the invariants hold a fortiori, and no property relies
  on an interleaving the browser cannot produce. Doubles do not overflow in the
  model; the velocity bound of \<open>SessionTyped\<close> shows the velocity stays far
  from overflow under bounded input, while the position grows with the
  distance travelled and is not bounded. Loops are
  structural (\<open>motion_run\<close>, \<open>ingest_all\<close>,
  \<open>session_run\<close> over a finite list), so no fuel is needed; the one loop
  that is not, React's render cycle, is a \<open>partial_function (option)\<close>
  whose termination is proved.

  \<^bold>\<open>Not modelled.\<close> Styling; \<open>format2DData\<close> and
  \<open>formatSensorData\<close>, imported from \<^verbatim>\<open>src/utils/formatters\<close>, which is
  not among the sources (their inputs are modelled, the strings are not); the
  landing page's static markup, which is one view constructor; Leaflet's drawing
  of the map tiles; \<open>SensorCard\<close>, the formatters and the SLAM module, which
  are imported but not part of the sources.
\<close>

end
